theory Spec2Isabelle
  imports Complex_Main "HOL-Library.Word" "HOL-Library.Sublist"
begin

unbundle bit_operations_syntax

section \<open>The glTF 2.0 scene exporter (scene\_formats/gltf\_export.cpp)\<close>

text \<open>
  The exporter bakes a scene into content-addressed caches (class \<open>RemapState\<close>),
  serialises them as a JSON document and frames the document and the geometry blob as a
  GLB file. The development follows the source top down: the data model, the hashing
  interface, the caches with their \<open>emit_*\<close> functions, the image analysis, the
  document assembly and the GLB writer.
\<close>

subsection \<open>Errors\<close>

text \<open>
  The source raises \<open>std::invalid_argument\<close> with a message. Reads outside a vector and
  integer division by zero are undefined behaviour in C++; the model gives them an
  outcome of their own instead of an arbitrary value.
\<close>

datatype error = InvalidArgument string | UndefinedBehaviour

type_synonym 'a result = "error + 'a"

definition bind_result :: "'a result \<Rightarrow> ('a \<Rightarrow> 'b result) \<Rightarrow> 'b result" where
  "bind_result r f = (case r of Inl e \<Rightarrow> Inl e | Inr v \<Rightarrow> f v)"

subsection \<open>Vulkan formats and the accessor format table\<close>

text \<open>
  \<open>VkFormat\<close> is declared in the Vulkan headers. The datatype lists the formats
  the source names, and four of the formats it does not name, which reach the
  \<open>default\<close> branches.
\<close>

datatype VkFormat =
    VK_FORMAT_UNDEFINED
  | VK_FORMAT_R8_UNORM | VK_FORMAT_R8_SNORM | VK_FORMAT_R8_UINT | VK_FORMAT_R8_SINT
  | VK_FORMAT_R8G8_UNORM | VK_FORMAT_R8G8_SNORM | VK_FORMAT_R8G8_UINT | VK_FORMAT_R8G8_SINT
  | VK_FORMAT_R8G8B8_UNORM | VK_FORMAT_R8G8B8_SNORM | VK_FORMAT_R8G8B8_UINT
  | VK_FORMAT_R8G8B8_SINT
  | VK_FORMAT_R8G8B8A8_UNORM | VK_FORMAT_R8G8B8A8_SNORM | VK_FORMAT_R8G8B8A8_UINT
  | VK_FORMAT_R8G8B8A8_SINT
  | VK_FORMAT_R16_UNORM | VK_FORMAT_R16_SNORM | VK_FORMAT_R16_UINT | VK_FORMAT_R16_SINT
  | VK_FORMAT_R16G16_UNORM | VK_FORMAT_R16G16_SNORM | VK_FORMAT_R16G16_UINT
  | VK_FORMAT_R16G16_SINT
  | VK_FORMAT_R16G16B16_UNORM | VK_FORMAT_R16G16B16_SNORM | VK_FORMAT_R16G16B16_UINT
  | VK_FORMAT_R16G16B16_SINT
  | VK_FORMAT_R16G16B16A16_UNORM | VK_FORMAT_R16G16B16A16_SNORM | VK_FORMAT_R16G16B16A16_UINT
  | VK_FORMAT_R16G16B16A16_SINT
  | VK_FORMAT_R32_UINT | VK_FORMAT_R32_SINT | VK_FORMAT_R32_SFLOAT
  | VK_FORMAT_R32G32_UINT | VK_FORMAT_R32G32_SINT | VK_FORMAT_R32G32_SFLOAT
  | VK_FORMAT_R32G32B32_UINT | VK_FORMAT_R32G32B32_SINT | VK_FORMAT_R32G32B32_SFLOAT
  | VK_FORMAT_R32G32B32A32_UINT | VK_FORMAT_R32G32B32A32_SINT | VK_FORMAT_R32G32B32A32_SFLOAT
  | VK_FORMAT_B8G8R8A8_UNORM | VK_FORMAT_A2B10G10R10_UNORM_PACK32
  | VK_FORMAT_R16G16B16A16_SFLOAT | VK_FORMAT_R64_SFLOAT

definition GL_BYTE :: nat where "GL_BYTE = 0x1400"
definition GL_UNSIGNED_BYTE :: nat where "GL_UNSIGNED_BYTE = 0x1401"
definition GL_SHORT :: nat where "GL_SHORT = 0x1402"
definition GL_UNSIGNED_SHORT :: nat where "GL_UNSIGNED_SHORT = 0x1403"
definition GL_INT :: nat where "GL_INT = 0x1404"
definition GL_UNSIGNED_INT :: nat where "GL_UNSIGNED_INT = 0x1405"
definition GL_FLOAT :: nat where "GL_FLOAT = 0x1406"

definition GL_REPEAT :: nat where "GL_REPEAT = 0x2901"
definition GL_CLAMP_TO_EDGE :: nat where "GL_CLAMP_TO_EDGE = 0x812F"
definition GL_NEAREST :: nat where "GL_NEAREST = 0x2600"
definition GL_LINEAR :: nat where "GL_LINEAR = 0x2601"
definition GL_NEAREST_MIPMAP_NEAREST :: nat where "GL_NEAREST_MIPMAP_NEAREST = 0x2700"
definition GL_LINEAR_MIPMAP_NEAREST :: nat where "GL_LINEAR_MIPMAP_NEAREST = 0x2701"
definition GL_NEAREST_MIPMAP_LINEAR :: nat where "GL_NEAREST_MIPMAP_LINEAR = 0x2702"
definition GL_LINEAR_MIPMAP_LINEAR :: nat where "GL_LINEAR_MIPMAP_LINEAR = 0x2703"

text \<open>\<open>get_accessor_type\<close>: the switch of the source, case by case.\<close>

fun get_accessor_type :: "VkFormat \<Rightarrow> string result" where
  "get_accessor_type VK_FORMAT_R32_SFLOAT = Inr ''SCALAR''"
| "get_accessor_type VK_FORMAT_R8_UNORM = Inr ''SCALAR''"
| "get_accessor_type VK_FORMAT_R8_UINT = Inr ''SCALAR''"
| "get_accessor_type VK_FORMAT_R8_SNORM = Inr ''SCALAR''"
| "get_accessor_type VK_FORMAT_R8_SINT = Inr ''SCALAR''"
| "get_accessor_type VK_FORMAT_R16_UNORM = Inr ''SCALAR''"
| "get_accessor_type VK_FORMAT_R16_UINT = Inr ''SCALAR''"
| "get_accessor_type VK_FORMAT_R16_SNORM = Inr ''SCALAR''"
| "get_accessor_type VK_FORMAT_R16_SINT = Inr ''SCALAR''"
| "get_accessor_type VK_FORMAT_R32_UINT = Inr ''SCALAR''"
| "get_accessor_type VK_FORMAT_R32_SINT = Inr ''SCALAR''"
| "get_accessor_type VK_FORMAT_R32G32_SFLOAT = Inr ''VEC2''"
| "get_accessor_type VK_FORMAT_R8G8_UNORM = Inr ''VEC2''"
| "get_accessor_type VK_FORMAT_R8G8_UINT = Inr ''VEC2''"
| "get_accessor_type VK_FORMAT_R8G8_SNORM = Inr ''VEC2''"
| "get_accessor_type VK_FORMAT_R8G8_SINT = Inr ''VEC2''"
| "get_accessor_type VK_FORMAT_R16G16_UINT = Inr ''VEC2''"
| "get_accessor_type VK_FORMAT_R16G16_SINT = Inr ''VEC2''"
| "get_accessor_type VK_FORMAT_R16G16_SNORM = Inr ''VEC2''"
| "get_accessor_type VK_FORMAT_R16G16_UNORM = Inr ''VEC2''"
| "get_accessor_type VK_FORMAT_R32G32_UINT = Inr ''VEC2''"
| "get_accessor_type VK_FORMAT_R32G32_SINT = Inr ''VEC2''"
| "get_accessor_type VK_FORMAT_R32G32B32_SFLOAT = Inr ''VEC3''"
| "get_accessor_type VK_FORMAT_R8G8B8_UNORM = Inr ''VEC3''"
| "get_accessor_type VK_FORMAT_R8G8B8_UINT = Inr ''VEC3''"
| "get_accessor_type VK_FORMAT_R8G8B8_SNORM = Inr ''VEC3''"
| "get_accessor_type VK_FORMAT_R8G8B8_SINT = Inr ''VEC3''"
| "get_accessor_type VK_FORMAT_R16G16B16_UNORM = Inr ''VEC3''"
| "get_accessor_type VK_FORMAT_R16G16B16_UINT = Inr ''VEC3''"
| "get_accessor_type VK_FORMAT_R16G16B16_SNORM = Inr ''VEC3''"
| "get_accessor_type VK_FORMAT_R16G16B16_SINT = Inr ''VEC3''"
| "get_accessor_type VK_FORMAT_R32G32B32A32_SFLOAT = Inr ''VEC4''"
| "get_accessor_type VK_FORMAT_R8G8B8A8_UNORM = Inr ''VEC4''"
| "get_accessor_type VK_FORMAT_R8G8B8A8_UINT = Inr ''VEC4''"
| "get_accessor_type VK_FORMAT_R8G8B8A8_SNORM = Inr ''VEC4''"
| "get_accessor_type VK_FORMAT_R8G8B8A8_SINT = Inr ''VEC4''"
| "get_accessor_type VK_FORMAT_R16G16B16A16_UNORM = Inr ''VEC4''"
| "get_accessor_type VK_FORMAT_R16G16B16A16_UINT = Inr ''VEC4''"
| "get_accessor_type VK_FORMAT_R16G16B16A16_SNORM = Inr ''VEC4''"
| "get_accessor_type VK_FORMAT_R16G16B16A16_SINT = Inr ''VEC4''"
| "get_accessor_type VK_FORMAT_R32G32B32_UINT = Inr ''VEC4''"
| "get_accessor_type VK_FORMAT_R32G32B32A32_UINT = Inr ''VEC4''"
| "get_accessor_type VK_FORMAT_R32G32B32_SINT = Inr ''VEC4''"
| "get_accessor_type VK_FORMAT_R32G32B32A32_SINT = Inr ''VEC4''"
| "get_accessor_type _ = Inl (InvalidArgument ''Unsupported format.'')"

fun get_accessor_normalized :: "VkFormat \<Rightarrow> bool" where
  "get_accessor_normalized VK_FORMAT_R8_UNORM = True"
| "get_accessor_normalized VK_FORMAT_R8G8_UNORM = True"
| "get_accessor_normalized VK_FORMAT_R8G8B8_UNORM = True"
| "get_accessor_normalized VK_FORMAT_R8G8B8A8_UNORM = True"
| "get_accessor_normalized VK_FORMAT_R8_SNORM = True"
| "get_accessor_normalized VK_FORMAT_R8G8_SNORM = True"
| "get_accessor_normalized VK_FORMAT_R8G8B8_SNORM = True"
| "get_accessor_normalized VK_FORMAT_R8G8B8A8_SNORM = True"
| "get_accessor_normalized VK_FORMAT_R16_UNORM = True"
| "get_accessor_normalized VK_FORMAT_R16G16_UNORM = True"
| "get_accessor_normalized VK_FORMAT_R16G16B16_UNORM = True"
| "get_accessor_normalized VK_FORMAT_R16G16B16A16_UNORM = True"
| "get_accessor_normalized VK_FORMAT_R16_SNORM = True"
| "get_accessor_normalized VK_FORMAT_R16G16_SNORM = True"
| "get_accessor_normalized VK_FORMAT_R16G16B16_SNORM = True"
| "get_accessor_normalized VK_FORMAT_R16G16B16A16_SNORM = True"
| "get_accessor_normalized _ = False"

text \<open>
  \<open>get_accessor_component\<close>. The case group of the 8-bit SNORM and SINT formats ends in
  \<open>return GL_UNSIGNED_BYTE; return GL_BYTE;\<close>: the first statement returns, the second
  is never reached.
\<close>

fun get_accessor_component :: "VkFormat \<Rightarrow> nat result" where
  "get_accessor_component VK_FORMAT_R32_SFLOAT = Inr GL_FLOAT"
| "get_accessor_component VK_FORMAT_R32G32_SFLOAT = Inr GL_FLOAT"
| "get_accessor_component VK_FORMAT_R32G32B32_SFLOAT = Inr GL_FLOAT"
| "get_accessor_component VK_FORMAT_R32G32B32A32_SFLOAT = Inr GL_FLOAT"
| "get_accessor_component VK_FORMAT_R8_UNORM = Inr GL_UNSIGNED_BYTE"
| "get_accessor_component VK_FORMAT_R8G8_UNORM = Inr GL_UNSIGNED_BYTE"
| "get_accessor_component VK_FORMAT_R8G8B8_UNORM = Inr GL_UNSIGNED_BYTE"
| "get_accessor_component VK_FORMAT_R8G8B8A8_UNORM = Inr GL_UNSIGNED_BYTE"
| "get_accessor_component VK_FORMAT_R8_UINT = Inr GL_UNSIGNED_BYTE"
| "get_accessor_component VK_FORMAT_R8G8_UINT = Inr GL_UNSIGNED_BYTE"
| "get_accessor_component VK_FORMAT_R8G8B8_UINT = Inr GL_UNSIGNED_BYTE"
| "get_accessor_component VK_FORMAT_R8G8B8A8_UINT = Inr GL_UNSIGNED_BYTE"
| "get_accessor_component VK_FORMAT_R8_SNORM = Inr GL_UNSIGNED_BYTE"
| "get_accessor_component VK_FORMAT_R8G8_SNORM = Inr GL_UNSIGNED_BYTE"
| "get_accessor_component VK_FORMAT_R8G8B8_SNORM = Inr GL_UNSIGNED_BYTE"
| "get_accessor_component VK_FORMAT_R8G8B8A8_SNORM = Inr GL_UNSIGNED_BYTE"
| "get_accessor_component VK_FORMAT_R8_SINT = Inr GL_UNSIGNED_BYTE"
| "get_accessor_component VK_FORMAT_R8G8_SINT = Inr GL_UNSIGNED_BYTE"
| "get_accessor_component VK_FORMAT_R8G8B8_SINT = Inr GL_UNSIGNED_BYTE"
| "get_accessor_component VK_FORMAT_R8G8B8A8_SINT = Inr GL_UNSIGNED_BYTE"
| "get_accessor_component VK_FORMAT_R16_UNORM = Inr GL_UNSIGNED_SHORT"
| "get_accessor_component VK_FORMAT_R16G16_UNORM = Inr GL_UNSIGNED_SHORT"
| "get_accessor_component VK_FORMAT_R16G16B16_UNORM = Inr GL_UNSIGNED_SHORT"
| "get_accessor_component VK_FORMAT_R16G16B16A16_UNORM = Inr GL_UNSIGNED_SHORT"
| "get_accessor_component VK_FORMAT_R16_UINT = Inr GL_UNSIGNED_SHORT"
| "get_accessor_component VK_FORMAT_R16G16_UINT = Inr GL_UNSIGNED_SHORT"
| "get_accessor_component VK_FORMAT_R16G16B16_UINT = Inr GL_UNSIGNED_SHORT"
| "get_accessor_component VK_FORMAT_R16G16B16A16_UINT = Inr GL_UNSIGNED_SHORT"
| "get_accessor_component VK_FORMAT_R16_SNORM = Inr GL_SHORT"
| "get_accessor_component VK_FORMAT_R16G16_SNORM = Inr GL_SHORT"
| "get_accessor_component VK_FORMAT_R16G16B16_SNORM = Inr GL_SHORT"
| "get_accessor_component VK_FORMAT_R16G16B16A16_SNORM = Inr GL_SHORT"
| "get_accessor_component VK_FORMAT_R16_SINT = Inr GL_SHORT"
| "get_accessor_component VK_FORMAT_R16G16_SINT = Inr GL_SHORT"
| "get_accessor_component VK_FORMAT_R16G16B16_SINT = Inr GL_SHORT"
| "get_accessor_component VK_FORMAT_R16G16B16A16_SINT = Inr GL_SHORT"
| "get_accessor_component VK_FORMAT_R32_UINT = Inr GL_UNSIGNED_INT"
| "get_accessor_component VK_FORMAT_R32G32_UINT = Inr GL_UNSIGNED_INT"
| "get_accessor_component VK_FORMAT_R32G32B32_UINT = Inr GL_UNSIGNED_INT"
| "get_accessor_component VK_FORMAT_R32G32B32A32_UINT = Inr GL_UNSIGNED_INT"
| "get_accessor_component VK_FORMAT_R32_SINT = Inr GL_INT"
| "get_accessor_component VK_FORMAT_R32G32_SINT = Inr GL_INT"
| "get_accessor_component VK_FORMAT_R32G32B32_SINT = Inr GL_INT"
| "get_accessor_component VK_FORMAT_R32G32B32A32_SINT = Inr GL_INT"
| "get_accessor_component _ = Inl (InvalidArgument ''Unsupported format.'')"


subsection \<open>Scalars, vectors and boxes\<close>

text \<open>
  Sizes, counts and indices (\<open>size_t\<close>, \<open>unsigned\<close>, \<open>uint32_t\<close>) are natural numbers:
  the caches and the blob are vectors in memory, and the claims below do not depend on an
  index wrapping around. The one place where a size is cut to 32 bits and stored, the GLB
  header, is modelled with the cut (see \<open>write_u32\<close>). A \<open>float\<close> is only stored,
  copied and compared with a constant by this file; it is modelled by the real number it
  denotes (no NaN, no signed zero).
\<close>

type_synonym byte = "8 word"
type_synonym Hash = "64 word"
type_synonym vec3 = "real \<times> real \<times> real"
type_synonym vec4 = "real \<times> real \<times> real \<times> real"

definition vec3_list :: "vec3 \<Rightarrow> real list" where
  "vec3_list v = (case v of (x, y, z) \<Rightarrow> [x, y, z])"

definition vec4_list :: "vec4 \<Rightarrow> real list" where
  "vec4_list v = (case v of (x, y, z, w) \<Rightarrow> [x, y, z, w])"

record AABB =
  minimum :: vec3
  maximum :: vec3

subsection \<open>The input scene (declared in headers outside this file)\<close>

datatype VkIndexType = VK_INDEX_TYPE_UINT16 | VK_INDEX_TYPE_UINT32

datatype VkPrimitiveTopology =
    VK_PRIMITIVE_TOPOLOGY_POINT_LIST | VK_PRIMITIVE_TOPOLOGY_LINE_LIST
  | VK_PRIMITIVE_TOPOLOGY_LINE_STRIP | VK_PRIMITIVE_TOPOLOGY_TRIANGLE_LIST
  | VK_PRIMITIVE_TOPOLOGY_TRIANGLE_STRIP | VK_PRIMITIVE_TOPOLOGY_TRIANGLE_FAN

datatype VkComponentSwizzle =
    VK_COMPONENT_SWIZZLE_IDENTITY | VK_COMPONENT_SWIZZLE_ZERO | VK_COMPONENT_SWIZZLE_ONE
  | VK_COMPONENT_SWIZZLE_R | VK_COMPONENT_SWIZZLE_G | VK_COMPONENT_SWIZZLE_B
  | VK_COMPONENT_SWIZZLE_A

record VkComponentMapping =
  swz_r :: VkComponentSwizzle
  swz_g :: VkComponentSwizzle
  swz_b :: VkComponentSwizzle
  swz_a :: VkComponentSwizzle

definition rgba_mapping :: VkComponentMapping where
  "rgba_mapping = \<lparr>swz_r = VK_COMPONENT_SWIZZLE_R, swz_g = VK_COMPONENT_SWIZZLE_G,
     swz_b = VK_COMPONENT_SWIZZLE_B, swz_a = VK_COMPONENT_SWIZZLE_A\<rparr>"

text \<open>
  Modelled from the spec: \<open>MeshAttribute\<close> is declared in a header that is not part of
  this file; the slots are the seven the spec lists, in the spec's order, and
  \<open>mesh_attributes\<close> is the range \<open>0 ..< ecast(MeshAttribute::Count)\<close> of the loops.
\<close>

datatype MeshAttribute =
  Position | Normal | Tangent | UV | VertexColor | BoneIndex | BoneWeights

definition mesh_attributes :: "MeshAttribute list" where
  "mesh_attributes = [Position, Normal, Tangent, UV, VertexColor, BoneIndex, BoneWeights]"

fun ecast_attribute :: "MeshAttribute \<Rightarrow> nat" where
  "ecast_attribute Position = 0"
| "ecast_attribute Normal = 1"
| "ecast_attribute Tangent = 2"
| "ecast_attribute UV = 3"
| "ecast_attribute VertexColor = 4"
| "ecast_attribute BoneIndex = 5"
| "ecast_attribute BoneWeights = 6"

record MeshAttributeLayout =
  format :: VkFormat
  offset :: nat

record Mesh =
  topology :: VkPrimitiveTopology
  index_type :: VkIndexType
  position_stride :: nat
  attribute_stride :: nat
  attribute_layout :: "MeshAttribute \<Rightarrow> MeshAttributeLayout"
  positions :: "byte list"
  attributes :: "byte list"
  indices :: "byte list"
  count :: nat
  static_aabb :: AABB
  has_material :: bool
  material_index :: nat

datatype Textures = BaseColor | NormalMap | MetallicRoughness | Occlusion | Emissive | Count

datatype TextureCompressionFamily = Uncompressed | BC | ASTC

datatype TextureMode = sRGB | sRGBA | RGB | RGBA | HDR

datatype StockSampler =
    NearestClamp | LinearClamp | TrilinearClamp | NearestWrap | LinearWrap | TrilinearWrap
  | NearestShadow | LinearShadow

datatype DrawPipeline = Opaque | AlphaTest | AlphaBlend

record Texture =
  path :: string
  swizzle :: VkComponentMapping

record MaterialInfo =
  base_color :: Texture
  normal :: Texture
  metallic_roughness :: Texture
  occlusion :: Texture
  emissive :: Texture
  sampler :: StockSampler
  uniform_base_color :: vec4
  uniform_emissive_color :: vec3
  uniform_metallic :: real
  uniform_roughness :: real
  lod_bias :: real
  normal_scale :: real
  pipeline :: DrawPipeline
  two_sided :: bool

record Transform =
  rotation :: vec4
  scale :: vec3
  translation :: vec3

record NodeInfo =
  children :: "nat list"
  meshes :: "nat list"
  transform :: Transform

datatype CameraType = Perspective | Orthographic

record CameraInfo =
  cam_type :: CameraType
  aspect_ratio :: real
  yfov :: real
  znear :: real
  zfar :: real
  xmag :: real
  ymag :: real
  cam_attached_to_node :: bool
  cam_node_index :: nat

datatype LightType = Spot | Point | Directional | Ambient

record LightInfo =
  light_type :: LightType
  color :: vec3
  constant_falloff :: real
  linear_falloff :: real
  quadratic_falloff :: real
  inner_cone :: real
  outer_cone :: real
  light_attached_to_node :: bool
  light_node_index :: nat

record SceneInformation =
  materials :: "MaterialInfo list"
  scene_meshes :: "Mesh list"
  nodes :: "NodeInfo list"
  cameras :: "CameraInfo list"
  lights :: "LightInfo list"

record EnvironmentOptions =
  cube :: string
  reflection :: string
  irradiance :: string
  intensity :: real
  fog_color :: vec3
  fog_falloff :: real
  env_compression :: TextureCompressionFamily
  env_texcomp_quality :: nat

record ExportOptions =
  threads :: nat
  compression :: TextureCompressionFamily
  texcomp_quality :: nat
  environment :: EnvironmentOptions


subsection \<open>Hashing\<close>

text \<open>
  \<open>Util::Hasher\<close> is declared in a header outside this file. A hasher is fed typed
  fields in a fixed order and \<open>get()\<close> returns a 64-bit value. The model records what
  was fed, item by item, and takes the function from the fed sequence to the 64-bit value
  as a parameter \<open>H\<close>: every property below holds for every such function, collisions
  included. An enumerator fed through \<open>u32(ecast(x))\<close> is recorded as the enumerator, and
  the raw bytes of the attribute layout array as the array.
\<close>

datatype hash_item =
    H_u32 nat
  | H_s32 int
  | H_f32 real
  | H_bool bool
  | H_data "byte list"
  | H_string string
  | H_format VkFormat
  | H_topology VkPrimitiveTopology
  | H_index_type VkIndexType
  | H_layout "MeshAttributeLayout list"
  | H_pipeline DrawPipeline
  | H_sampler StockSampler
  | H_textures Textures
  | H_family TextureCompressionFamily
  | H_mode TextureMode

type_synonym hasher = "hash_item list \<Rightarrow> Hash"

text \<open>\<open>std::to_string\<close> of an unsigned value: its decimal digits.\<close>

definition digit_char :: "nat \<Rightarrow> char" where
  "digit_char d = ''0123456789'' ! d"

fun to_string_nat :: "nat \<Rightarrow> string" where
  "to_string_nat n =
     (if n < 10 then [digit_char n] else to_string_nat (n div 10) @ [digit_char (n mod 10)])"

declare to_string_nat.simps [simp del]

definition to_string :: "Hash \<Rightarrow> string" where
  "to_string h = to_string_nat (unat h)"

subsection \<open>The emitted records\<close>

record 'a Remap =
  to_index :: "nat list"
  hashmap :: "Hash \<rightharpoonup> nat"
  info :: "'a list"

definition empty_Remap :: "'a Remap" where
  "empty_Remap = \<lparr>to_index = [], hashmap = Map.empty, info = []\<rparr>"

record BufferView =
  bv_offset :: nat
  bv_length :: nat
  bv_stride :: nat

record EmittedMesh =
  em_index_accessor :: int
  em_material :: int
  em_attribute_mask :: "32 word"
  em_attribute_accessor :: "MeshAttribute \<Rightarrow> int"

definition default_EmittedMesh :: EmittedMesh where
  "default_EmittedMesh = \<lparr>em_index_accessor = - 1, em_material = - 1,
     em_attribute_mask = 0, em_attribute_accessor = (\<lambda>_. 0)\<rparr>"

record EmittedEnvironment =
  ee_cube :: int
  ee_reflection :: int
  ee_irradiance :: int
  ee_intensity :: real
  ee_fog_color :: vec3
  ee_fog_falloff :: real

record EmittedAccessor =
  acc_view :: nat
  acc_count :: nat
  acc_type :: string
  acc_component :: nat
  acc_offset :: nat
  acc_aabb :: AABB
  acc_normalized :: bool
  acc_use_aabb :: bool

text \<open>
  \<open>EmittedAccessor acc = {}\<close>. The type name is a null pointer until
  \<open>set_accessor_type\<close> has run, which every accessor of the cache has been through.
\<close>

definition default_EmittedAccessor :: EmittedAccessor where
  "default_EmittedAccessor = \<lparr>acc_view = 0, acc_count = 0, acc_type = [], acc_component = 0,
     acc_offset = 0, acc_aabb = \<lparr>minimum = (0, 0, 0), maximum = (0, 0, 0)\<rparr>,
     acc_normalized = False, acc_use_aabb = False\<rparr>"

record EmittedMaterial =
  mat_base_color :: int
  mat_normal :: int
  mat_metallic_roughness :: int
  mat_occlusion :: int
  mat_emissive :: int
  mat_uniform_base_color :: vec4
  mat_uniform_emissive_color :: vec3
  mat_uniform_metallic :: real
  mat_uniform_roughness :: real
  mat_lod_bias :: real
  mat_normal_scale :: real
  mat_pipeline :: DrawPipeline
  mat_two_sided :: bool

definition default_EmittedMaterial :: EmittedMaterial where
  "default_EmittedMaterial = \<lparr>mat_base_color = - 1, mat_normal = - 1,
     mat_metallic_roughness = - 1, mat_occlusion = - 1, mat_emissive = - 1,
     mat_uniform_base_color = (1, 1, 1, 1), mat_uniform_emissive_color = (0, 0, 0),
     mat_uniform_metallic = 1, mat_uniform_roughness = 1, mat_lod_bias = 0,
     mat_normal_scale = 1, mat_pipeline = Opaque, mat_two_sided = False\<rparr>"

record EmittedTexture =
  tex_image :: nat
  tex_sampler :: nat

record EmittedImage =
  img_source_path :: string
  img_target_relpath :: string
  img_target_mime :: string
  img_compression :: TextureCompressionFamily
  img_compression_quality :: nat
  img_mode :: TextureMode
  img_type :: Textures
  img_swizzle :: VkComponentMapping

record EmittedSampler =
  mag_filter :: nat
  min_filter :: nat
  wrap_s :: nat
  wrap_t :: nat

record RemapState =
  options :: ExportOptions
  mesh :: "Mesh Remap"
  material :: "MaterialInfo Remap"
  glb_buffer_data :: "byte list"
  buffer_hash :: "Hash \<rightharpoonup> nat"
  buffer_views :: "BufferView list"
  accessor_hash :: "Hash \<rightharpoonup> nat"
  accessor_cache :: "EmittedAccessor list"
  mesh_hash :: "nat set"
  mesh_cache :: "EmittedMesh list"
  environment_cache :: "EmittedEnvironment list"
  material_hash :: "nat set"
  material_cache :: "EmittedMaterial list"
  texture_hash :: "Hash \<rightharpoonup> nat"
  texture_cache :: "EmittedTexture list"
  image_hash :: "Hash \<rightharpoonup> nat"
  image_cache :: "EmittedImage list"
  sampler_hash :: "Hash \<rightharpoonup> nat"
  sampler_cache :: "EmittedSampler list"
  mesh_group_hash :: "Hash \<rightharpoonup> nat"
  mesh_group_cache :: "nat list list"

text \<open>\<open>RemapState state; state.options = &options;\<close>: every cache empty.\<close>

definition initial_state :: "ExportOptions \<Rightarrow> RemapState" where
  "initial_state opts = \<lparr>options = opts, mesh = empty_Remap, material = empty_Remap,
     glb_buffer_data = [], buffer_hash = Map.empty, buffer_views = [],
     accessor_hash = Map.empty, accessor_cache = [], mesh_hash = {}, mesh_cache = [],
     environment_cache = [], material_hash = {}, material_cache = [],
     texture_hash = Map.empty, texture_cache = [], image_hash = Map.empty, image_cache = [],
     sampler_hash = Map.empty, sampler_cache = [], mesh_group_hash = Map.empty,
     mesh_group_cache = []\<rparr>"

text \<open>\<open>std::vector::resize\<close> with a fill value, for growing and shrinking.\<close>

definition resize :: "'a list \<Rightarrow> nat \<Rightarrow> 'a \<Rightarrow> 'a list" where
  "resize xs n d = take n xs @ replicate (n - length xs) d"

text \<open>\<open>memcpy(dst.data() + off, src, n)\<close> into a vector that holds the range.\<close>

definition memcpy_at :: "'a list \<Rightarrow> nat \<Rightarrow> 'a list \<Rightarrow> 'a list" where
  "memcpy_at dst off src = take off dst @ src @ drop (off + length src) dst"

subsection \<open>The mesh and material fingerprints, and the filter pass\<close>

definition hash_Mesh :: "hasher \<Rightarrow> nat list \<Rightarrow> Mesh \<Rightarrow> Hash result" where
  "hash_Mesh H material_to_index m =
     (if has_material m \<and> \<not> material_index m < length material_to_index
      then Inl UndefinedBehaviour
      else Inr (H (
        [H_topology (topology m), H_index_type (index_type m),
         H_u32 (attribute_stride m), H_u32 (position_stride m), H_bool (has_material m)]
        @ (if has_material m then [H_u32 (material_to_index ! material_index m)] else [])
        @ [H_layout (map (attribute_layout m) mesh_attributes)]
        @ map H_f32 (vec3_list (minimum (static_aabb m)))
        @ map H_f32 (vec3_list (maximum (static_aabb m)))
        @ [H_u32 0xff]
        @ (if positions m \<noteq> [] then [H_data (positions m)] else [])
        @ [H_u32 0xff]
        @ (if indices m \<noteq> [] then [H_data (indices m)] else [])
        @ [H_u32 0xff]
        @ (if attributes m \<noteq> [] then [H_data (attributes m)] else [])
        @ [H_u32 (count m)])))"

definition hash_MaterialInfo :: "hasher \<Rightarrow> MaterialInfo \<Rightarrow> Hash result" where
  "hash_MaterialInfo H mat =
     Inr (H (
       [H_string (path (base_color mat)), H_string (path (normal mat)),
        H_string (path (occlusion mat)), H_string (path (metallic_roughness mat)),
        H_string (path (emissive mat)),
        H_f32 (normal_scale mat), H_f32 (uniform_metallic mat), H_f32 (uniform_roughness mat)]
       @ map H_f32 (vec4_list (uniform_base_color mat))
       @ [H_f32 (lod_bias mat)]
       @ map H_f32 (vec3_list (uniform_emissive_color mat))
       @ [H_bool (two_sided mat), H_pipeline (pipeline mat)]))"

fun filter_input :: "('a \<Rightarrow> Hash result) \<Rightarrow> 'a Remap \<Rightarrow> 'a list \<Rightarrow> 'a Remap result" where
  "filter_input hash_of output [] = Inr output"
| "filter_input hash_of output (i # input) =
     bind_result (hash_of i) (\<lambda>h.
       case hashmap output h of
         Some found \<Rightarrow>
           filter_input hash_of (output\<lparr>to_index := to_index output @ [found]\<rparr>) input
       | None \<Rightarrow>
           (let index = length (info output)
            in filter_input hash_of
                 (output\<lparr>to_index := to_index output @ [length (info output)],
                         info := info output @ [i],
                         hashmap := (hashmap output)(h \<mapsto> index)\<rparr>) input))"

subsection \<open>Buffers and accessors\<close>

text \<open>\<open>(offset + 15) & ~15\<close> on a \<open>size_t\<close>.\<close>

definition align16 :: "nat \<Rightarrow> nat" where
  "align16 n = nat ((int n + 15) AND NOT 15)"

definition emit_buffer :: "hasher \<Rightarrow> RemapState \<Rightarrow> byte list \<Rightarrow> nat \<Rightarrow> nat \<times> RemapState" where
  "emit_buffer H s view stride =
     (let h = H [H_data view, H_u32 stride]
      in case buffer_hash s h of
           None \<Rightarrow>
             (let index = length (buffer_views s);
                  off = align16 (length (glb_buffer_data s));
                  resized = resize (glb_buffer_data s) (off + length view) 0
              in (index,
                  s\<lparr>glb_buffer_data := memcpy_at resized off view,
                    buffer_views := buffer_views s
                      @ [\<lparr>bv_offset = off, bv_length = length view, bv_stride = stride\<rparr>],
                    buffer_hash := (buffer_hash s)(h \<mapsto> index)\<rparr>))
         | Some found \<Rightarrow> (found, s))"

definition set_accessor_type :: "EmittedAccessor \<Rightarrow> VkFormat \<Rightarrow> EmittedAccessor result" where
  "set_accessor_type accessor fmt =
     bind_result (get_accessor_component fmt) (\<lambda>c.
     bind_result (get_accessor_type fmt) (\<lambda>t.
       Inr (accessor\<lparr>acc_component := c, acc_type := t,
                     acc_normalized := get_accessor_normalized fmt\<rparr>)))"

definition emit_accessor ::
  "hasher \<Rightarrow> RemapState \<Rightarrow> nat \<Rightarrow> VkFormat \<Rightarrow> nat \<Rightarrow> nat \<Rightarrow> nat \<Rightarrow> (nat \<times> RemapState) result" where
  "emit_accessor H s view_index fmt off stride cnt =
     (let h = H [H_u32 view_index, H_format fmt, H_u32 off, H_u32 stride, H_u32 cnt]
      in case accessor_hash s h of
           None \<Rightarrow>
             (let index = length (accessor_cache s)
              in bind_result
                   (set_accessor_type
                      (default_EmittedAccessor\<lparr>acc_count := cnt, acc_view := view_index,
                                               acc_offset := off\<rparr>) fmt)
                   (\<lambda>acc. Inr (index,
                      s\<lparr>accessor_cache := accessor_cache s @ [acc],
                        accessor_hash := (accessor_hash s)(h \<mapsto> index)\<rparr>)))
         | Some found \<Rightarrow> Inr (found, s))"


subsection \<open>Samplers, images and textures\<close>

text \<open>
  The switch of \<open>emit_sampler\<close>; a sampler preset it does not name leaves the four
  codes at 0.
\<close>

fun sampler_codes :: "StockSampler \<Rightarrow> EmittedSampler" where
  "sampler_codes TrilinearWrap = \<lparr>mag_filter = GL_LINEAR, min_filter = GL_LINEAR_MIPMAP_LINEAR,
     wrap_s = GL_REPEAT, wrap_t = GL_REPEAT\<rparr>"
| "sampler_codes TrilinearClamp = \<lparr>mag_filter = GL_LINEAR, min_filter = GL_LINEAR_MIPMAP_LINEAR,
     wrap_s = GL_CLAMP_TO_EDGE, wrap_t = GL_CLAMP_TO_EDGE\<rparr>"
| "sampler_codes LinearWrap = \<lparr>mag_filter = GL_LINEAR, min_filter = GL_LINEAR_MIPMAP_NEAREST,
     wrap_s = GL_REPEAT, wrap_t = GL_REPEAT\<rparr>"
| "sampler_codes LinearClamp = \<lparr>mag_filter = GL_LINEAR, min_filter = GL_LINEAR_MIPMAP_NEAREST,
     wrap_s = GL_CLAMP_TO_EDGE, wrap_t = GL_CLAMP_TO_EDGE\<rparr>"
| "sampler_codes NearestClamp = \<lparr>mag_filter = GL_NEAREST, min_filter = GL_NEAREST_MIPMAP_NEAREST,
     wrap_s = GL_CLAMP_TO_EDGE, wrap_t = GL_CLAMP_TO_EDGE\<rparr>"
| "sampler_codes NearestWrap = \<lparr>mag_filter = GL_NEAREST, min_filter = GL_NEAREST_MIPMAP_NEAREST,
     wrap_s = GL_REPEAT, wrap_t = GL_REPEAT\<rparr>"
| "sampler_codes _ = \<lparr>mag_filter = 0, min_filter = 0, wrap_s = 0, wrap_t = 0\<rparr>"

definition emit_sampler :: "hasher \<Rightarrow> RemapState \<Rightarrow> StockSampler \<Rightarrow> nat \<times> RemapState" where
  "emit_sampler H s smp =
     (let h = H [H_sampler smp]
      in case sampler_hash s h of
           None \<Rightarrow>
             (let index = length (sampler_cache s)
              in (index,
                  s\<lparr>sampler_hash := (sampler_hash s)(h \<mapsto> index),
                    sampler_cache := sampler_cache s @ [sampler_codes smp]\<rparr>))
         | Some found \<Rightarrow> (found, s))"

definition emit_image ::
  "hasher \<Rightarrow> RemapState \<Rightarrow> Texture \<Rightarrow> Textures \<Rightarrow> TextureCompressionFamily \<Rightarrow> nat \<Rightarrow> TextureMode
     \<Rightarrow> nat \<times> RemapState" where
  "emit_image H s texture type compr quality mode =
     (let h = H [H_string (path texture), H_textures type, H_family compr, H_u32 quality,
                 H_mode mode]
      in case image_hash s h of
           None \<Rightarrow>
             (let index = length (image_cache s)
              in (index,
                  s\<lparr>image_hash := (image_hash s)(h \<mapsto> index),
                    image_cache := image_cache s
                      @ [\<lparr>img_source_path = path texture,
                          img_target_relpath = to_string h @ ''.ktx'',
                          img_target_mime = ''image/ktx'',
                          img_compression = compr, img_compression_quality = quality,
                          img_mode = mode, img_type = type,
                          img_swizzle = swizzle texture\<rparr>]\<rparr>))
         | Some found \<Rightarrow> (found, s))"

definition emit_texture ::
  "hasher \<Rightarrow> RemapState \<Rightarrow> Texture \<Rightarrow> StockSampler \<Rightarrow> Textures \<Rightarrow> TextureCompressionFamily \<Rightarrow> nat
     \<Rightarrow> TextureMode \<Rightarrow> nat \<times> RemapState" where
  "emit_texture H s texture smp type compr quality mode =
     (case emit_image H s texture type compr quality mode of (image_index, s1) \<Rightarrow>
      case emit_sampler H s1 smp of (sampler_index, s2) \<Rightarrow>
        (let h = H [H_u32 image_index, H_u32 sampler_index]
         in case texture_hash s2 h of
              None \<Rightarrow>
                (let index = length (texture_cache s2)
                 in (index,
                     s2\<lparr>texture_hash := (texture_hash s2)(h \<mapsto> index),
                        texture_cache := texture_cache s2
                          @ [\<lparr>tex_image = image_index, tex_sampler = sampler_index\<rparr>]\<rparr>))
            | Some found \<Rightarrow> (found, s2)))"

subsection \<open>The environment\<close>

definition emit_environment ::
  "hasher \<Rightarrow> RemapState \<Rightarrow> string \<Rightarrow> string \<Rightarrow> string \<Rightarrow> real \<Rightarrow> vec3 \<Rightarrow> real
     \<Rightarrow> TextureCompressionFamily \<Rightarrow> nat \<Rightarrow> RemapState" where
  "emit_environment H s cube_path reflection_path irradiance_path intens fogc fogf compr quality =
     (let env0 = \<lparr>ee_cube = - 1, ee_reflection = - 1, ee_irradiance = - 1, ee_intensity = 1,
                  ee_fog_color = (0, 0, 0), ee_fog_falloff = 0\<rparr>;
          (env1, s1) =
            (if cube_path \<noteq> [] then
               (case emit_texture H s \<lparr>path = cube_path, swizzle = rgba_mapping\<rparr>
                       LinearClamp Emissive compr quality HDR of
                  (t, s') \<Rightarrow> (env0\<lparr>ee_cube := int t\<rparr>, s'))
             else (env0, s));
          (env2, s2) =
            (if reflection_path \<noteq> [] then
               (case emit_texture H s1 \<lparr>path = reflection_path, swizzle = rgba_mapping\<rparr>
                       LinearClamp Emissive compr quality HDR of
                  (t, s') \<Rightarrow> (env1\<lparr>ee_reflection := int t\<rparr>, s'))
             else (env1, s1));
          (env3, s3) =
            (if irradiance_path \<noteq> [] then
               (case emit_texture H s2 \<lparr>path = irradiance_path, swizzle = rgba_mapping\<rparr>
                       LinearClamp Emissive compr quality HDR of
                  (t, s') \<Rightarrow> (env2\<lparr>ee_irradiance := int t\<rparr>, s'))
             else (env2, s2))
      in s3\<lparr>environment_cache := environment_cache s3
              @ [env3\<lparr>ee_intensity := intens, ee_fog_color := fogc,
                      ee_fog_falloff := fogf\<rparr>]\<rparr>)"

subsection \<open>Materials\<close>

text \<open>
  \<open>output\<close> is a reference to \<open>material_cache[remapped_material]\<close>; no call between
  its binding and its last use resizes the material cache, so each assignment through it
  is an update of that entry.
\<close>

definition upd_material :: "RemapState \<Rightarrow> nat \<Rightarrow> (EmittedMaterial \<Rightarrow> EmittedMaterial) \<Rightarrow> RemapState" where
  "upd_material s i f = s\<lparr>material_cache := (material_cache s)[i := f (material_cache s ! i)]\<rparr>"

text \<open>
  One texture slot of \<open>emit_material\<close>:
  \<open>if (!tex.path.empty()) output.slot = emit_texture(tex, material.sampler, type,
  options->compression, options->texcomp_quality, mode);\<close>
\<close>

definition material_slot ::
  "hasher \<Rightarrow> RemapState \<Rightarrow> nat \<Rightarrow> Texture \<Rightarrow> StockSampler \<Rightarrow> Textures \<Rightarrow> TextureMode
     \<Rightarrow> (int \<Rightarrow> EmittedMaterial \<Rightarrow> EmittedMaterial) \<Rightarrow> RemapState" where
  "material_slot H s remapped_material tex smp type mode set_slot =
     (if path tex \<noteq> [] then
        (case emit_texture H s tex smp type (compression (options s))
                (texcomp_quality (options s)) mode of
           (t, s') \<Rightarrow> upd_material s' remapped_material (set_slot (int t)))
      else s)"

definition emit_material :: "hasher \<Rightarrow> RemapState \<Rightarrow> nat \<Rightarrow> RemapState result" where
  "emit_material H s remapped_material =
     (if \<not> remapped_material < length (info (material s)) then Inl UndefinedBehaviour
      else
        let m = info (material s) ! remapped_material;
            s0 = s\<lparr>material_cache := resize (material_cache s)
                     (max (length (material_cache s)) (remapped_material + 1))
                     default_EmittedMaterial\<rparr>;
            s1 = material_slot H s0 remapped_material (normal m) (sampler m) NormalMap RGB
                   (\<lambda>t out. out\<lparr>mat_normal := t\<rparr>);
            s2 = material_slot H s1 remapped_material (occlusion m) (sampler m) Occlusion RGB
                   (\<lambda>t out. out\<lparr>mat_occlusion := t\<rparr>);
            s3 = material_slot H s2 remapped_material (base_color m) (sampler m) BaseColor
                   (if pipeline m \<noteq> Opaque then sRGBA else sRGB)
                   (\<lambda>t out. out\<lparr>mat_base_color := t\<rparr>);
            s4 = material_slot H s3 remapped_material (metallic_roughness m) (sampler m)
                   MetallicRoughness RGB
                   (\<lambda>t out. out\<lparr>mat_metallic_roughness := t\<rparr>);
            s5 = material_slot H s4 remapped_material (emissive m) (sampler m) Emissive sRGB
                   (\<lambda>t out. out\<lparr>mat_emissive := t\<rparr>)
        in Inr (upd_material s5 remapped_material (\<lambda>out. out\<lparr>
                  mat_uniform_base_color := uniform_base_color m,
                  mat_uniform_emissive_color := uniform_emissive_color m,
                  mat_uniform_metallic := uniform_metallic m,
                  mat_uniform_roughness := uniform_roughness m,
                  mat_lod_bias := lod_bias m,
                  mat_normal_scale := normal_scale m,
                  mat_pipeline := pipeline m,
                  mat_two_sided := two_sided m\<rparr>)))"

subsection \<open>Meshes and mesh groups\<close>

text \<open>
  \<open>emit\<close> is a reference to \<open>mesh_cache[remapped_index]\<close>, as \<open>output\<close> is in
  \<open>emit_material\<close>.
\<close>

definition upd_mesh :: "RemapState \<Rightarrow> nat \<Rightarrow> (EmittedMesh \<Rightarrow> EmittedMesh) \<Rightarrow> RemapState" where
  "upd_mesh s i f = s\<lparr>mesh_cache := (mesh_cache s)[i := f (mesh_cache s ! i)]\<rparr>"

text \<open>
  The attribute loop of \<open>emit_mesh\<close>, from slot \<open>i\<close> on. The division by a stride of 0
  and the write to an accessor the cache does not hold are undefined behaviour.
\<close>

fun emit_mesh_attributes ::
  "hasher \<Rightarrow> Mesh \<Rightarrow> nat \<Rightarrow> nat \<Rightarrow> nat \<Rightarrow> MeshAttribute list \<Rightarrow> RemapState \<Rightarrow> RemapState result" where
  "emit_mesh_attributes H m remapped_index position_buffer attribute_buffer [] s = Inr s"
| "emit_mesh_attributes H m remapped_index position_buffer attribute_buffer (i # rest) s =
     (if format (attribute_layout m i) = VK_FORMAT_UNDEFINED
      then emit_mesh_attributes H m remapped_index position_buffer attribute_buffer rest s
      else
        let s1 = upd_mesh s remapped_index (\<lambda>emit. emit\<lparr>em_attribute_mask :=
                   em_attribute_mask emit OR push_bit (ecast_attribute i) 1\<rparr>)
        in if i = Position then
             (if position_stride m = 0 then Inl UndefinedBehaviour
              else
                bind_result
                  (emit_accessor H s1 position_buffer (format (attribute_layout m i))
                     (offset (attribute_layout m i)) (position_stride m)
                     (length (positions m) div position_stride m))
                  (\<lambda>(a, s2).
                     if \<not> a < length (accessor_cache s2) then Inl UndefinedBehaviour
                     else
                       let s3 = upd_mesh s2 remapped_index (\<lambda>emit. emit\<lparr>em_attribute_accessor :=
                                  (em_attribute_accessor emit)(i := int a)\<rparr>);
                           s4 = s3\<lparr>accessor_cache := (accessor_cache s3)
                                  [a := (accessor_cache s3 ! a)\<lparr>acc_aabb := static_aabb m,
                                                                acc_use_aabb := True\<rparr>]\<rparr>
                       in emit_mesh_attributes H m remapped_index position_buffer
                            attribute_buffer rest s4))
           else
             (if attribute_stride m = 0 then Inl UndefinedBehaviour
              else
                bind_result
                  (emit_accessor H s1 attribute_buffer (format (attribute_layout m i))
                     (offset (attribute_layout m i)) (attribute_stride m)
                     (length (attributes m) div attribute_stride m))
                  (\<lambda>(a, s2).
                     emit_mesh_attributes H m remapped_index position_buffer attribute_buffer rest
                       (upd_mesh s2 remapped_index (\<lambda>emit. emit\<lparr>em_attribute_accessor :=
                          (em_attribute_accessor emit)(i := int a)\<rparr>)))))"

text \<open>
  \<open>emit_mesh\<close> in the order of its statements: the index buffer and its accessor, the
  material, the two vertex buffers, and the attribute loop.
\<close>

definition emit_mesh_indices :: "hasher \<Rightarrow> Mesh \<Rightarrow> nat \<Rightarrow> RemapState \<Rightarrow> RemapState result" where
  "emit_mesh_indices H m remapped_index s =
     (let index_stride = (if index_type m = VK_INDEX_TYPE_UINT16 then 2 else 4)
      in if indices m \<noteq> [] then
           (case emit_buffer H s (indices m) index_stride of (index, s') \<Rightarrow>
              bind_result
                (emit_accessor H s' index
                   (if index_type m = VK_INDEX_TYPE_UINT16 then VK_FORMAT_R16_UINT
                    else VK_FORMAT_R32_UINT)
                   0 index_stride (count m))
                (\<lambda>(a, s''). Inr (upd_mesh s'' remapped_index
                                   (\<lambda>emit. emit\<lparr>em_index_accessor := int a\<rparr>))))
         else Inr (upd_mesh s remapped_index (\<lambda>emit. emit\<lparr>em_index_accessor := - 1\<rparr>)))"

definition emit_mesh_material :: "hasher \<Rightarrow> Mesh \<Rightarrow> RemapState \<Rightarrow> RemapState result" where
  "emit_mesh_material H m s =
     (if has_material m then
        (if \<not> material_index m < length (to_index (material s)) then Inl UndefinedBehaviour
         else
           let remapped_material = to_index (material s) ! material_index m
           in if remapped_material \<notin> material_hash s then
                bind_result (emit_material H s remapped_material)
                  (\<lambda>s'. Inr (s'\<lparr>material_hash := insert remapped_material (material_hash s')\<rparr>))
              else Inr s)
      else Inr s)"

definition emit_mesh_buffers :: "hasher \<Rightarrow> Mesh \<Rightarrow> RemapState \<Rightarrow> nat \<times> nat \<times> RemapState" where
  "emit_mesh_buffers H m s =
     (let (position_buffer, s1) =
            (if positions m \<noteq> [] then emit_buffer H s (positions m) (position_stride m)
             else (0, s));
          (attribute_buffer, s2) =
            (if attributes m \<noteq> [] then emit_buffer H s1 (attributes m) (attribute_stride m)
             else (0, s1))
      in (position_buffer, attribute_buffer, s2))"

definition emit_mesh :: "hasher \<Rightarrow> RemapState \<Rightarrow> nat \<Rightarrow> RemapState result" where
  "emit_mesh H s remapped_index =
     (if \<not> remapped_index < length (info (mesh s)) then Inl UndefinedBehaviour
      else
        let m = info (mesh s) ! remapped_index;
            s0 = s\<lparr>mesh_cache := resize (mesh_cache s)
                     (max (length (mesh_cache s)) (remapped_index + 1)) default_EmittedMesh\<rparr>;
            s1 = upd_mesh s0 remapped_index (\<lambda>emit. emit\<lparr>em_material :=
                   (if has_material m then int (material_index m) else - 1)\<rparr>)
        in
        bind_result (emit_mesh_indices H m remapped_index s1) (\<lambda>s2.
        bind_result (emit_mesh_material H m s2) (\<lambda>s3.
          case emit_mesh_buffers H m s3 of (position_buffer, attribute_buffer, s5) \<Rightarrow>
            emit_mesh_attributes H m remapped_index position_buffer attribute_buffer
              mesh_attributes
              (upd_mesh s5 remapped_index (\<lambda>emit. emit\<lparr>em_attribute_mask := 0\<rparr>)))))"

text \<open>
  The loop of \<open>emit_meshes\<close> over the meshes of a node: it returns the fed hash items and
  the group, both in order, and the state.
\<close>

fun emit_meshes_loop ::
  "hasher \<Rightarrow> nat list \<Rightarrow> hash_item list \<Rightarrow> nat list \<Rightarrow> RemapState
     \<Rightarrow> (hash_item list \<times> nat list \<times> RemapState) result" where
  "emit_meshes_loop H [] emit_hash mesh_group s = Inr (emit_hash, mesh_group, s)"
| "emit_meshes_loop H (i # rest) emit_hash mesh_group s =
     (if \<not> i < length (to_index (mesh s)) then Inl UndefinedBehaviour
      else
        let remapped_index = to_index (mesh s) ! i
        in bind_result
             (if remapped_index \<notin> mesh_hash s then
                bind_result (emit_mesh H s remapped_index)
                  (\<lambda>s'. Inr (s'\<lparr>mesh_hash := insert remapped_index (mesh_hash s')\<rparr>))
              else Inr s)
             (\<lambda>s'. emit_meshes_loop H rest (emit_hash @ [H_u32 remapped_index])
                     (mesh_group @ [remapped_index]) s'))"

definition emit_meshes :: "hasher \<Rightarrow> RemapState \<Rightarrow> nat list \<Rightarrow> (nat \<times> RemapState) result" where
  "emit_meshes H s ms =
     bind_result (emit_meshes_loop H ms [] [] s) (\<lambda>(emit_hash, mesh_group, s1).
       case mesh_group_hash s1 (H emit_hash) of
         None \<Rightarrow>
           (let index = length (mesh_group_cache s1)
            in Inr (index,
                    s1\<lparr>mesh_group_cache := mesh_group_cache s1 @ [mesh_group],
                       mesh_group_hash := (mesh_group_hash s1)(H emit_hash \<mapsto> index)\<rparr>))
       | Some found \<Rightarrow> Inr (found, s1))"


subsection \<open>Loaded images\<close>

text \<open>
  \<open>gli::texture\<close> belongs to the image library. The model keeps what this file reads:
  whether the texture is empty, its format, the numbers of layers, faces and levels, the
  extent of level 0 (two components of the \<open>int\<close> vector \<open>extent()\<close>), and the texel
  storage from \<open>data(0, 0, 0)\<close> on, viewed as \<open>u8vec4\<close> values (red, green, blue,
  alpha).
\<close>

datatype gli_format =
    FORMAT_UNDEFINED
  | FORMAT_RGBA8_SRGB_PACK8 | FORMAT_RGBA8_UNORM_PACK8
  | FORMAT_RGBA_DXT1_SRGB_BLOCK8 | FORMAT_RGBA_DXT1_UNORM_BLOCK8
  | FORMAT_RGB_DXT1_SRGB_BLOCK8 | FORMAT_RGB_DXT1_UNORM_BLOCK8
  | FORMAT_RGBA_DXT5_SRGB_BLOCK16 | FORMAT_RGBA_DXT5_UNORM_BLOCK16
  | FORMAT_R_ATI1N_UNORM_BLOCK8 | FORMAT_RG_ATI2N_UNORM_BLOCK16
  | FORMAT_RGBA_BP_SRGB_BLOCK16 | FORMAT_RGBA_BP_UNORM_BLOCK16
  | FORMAT_RGB_BP_UFLOAT_BLOCK16
  | FORMAT_RGBA_ASTC_4X4_SRGB_BLOCK16 | FORMAT_RGBA_ASTC_4X4_UNORM_BLOCK16
  | FORMAT_RGBA_ASTC_5X5_SRGB_BLOCK16 | FORMAT_RGBA_ASTC_5X5_UNORM_BLOCK16
  | FORMAT_RGBA_ASTC_6X6_SRGB_BLOCK16 | FORMAT_RGBA_ASTC_6X6_UNORM_BLOCK16
  | FORMAT_RGBA_ASTC_8X8_SRGB_BLOCK16 | FORMAT_RGBA_ASTC_8X8_UNORM_BLOCK16
  | FORMAT_RGBA16_SFLOAT_PACK16

type_synonym u8vec4 = "byte \<times> byte \<times> byte \<times> byte"

definition px_r :: "u8vec4 \<Rightarrow> byte" where "px_r p = (case p of (r, g, b, a) \<Rightarrow> r)"
definition px_g :: "u8vec4 \<Rightarrow> byte" where "px_g p = (case p of (r, g, b, a) \<Rightarrow> g)"
definition px_b :: "u8vec4 \<Rightarrow> byte" where "px_b p = (case p of (r, g, b, a) \<Rightarrow> b)"
definition px_a :: "u8vec4 \<Rightarrow> byte" where "px_a p = (case p of (r, g, b, a) \<Rightarrow> a)"

record gli_texture =
  gt_empty :: bool
  gt_format :: gli_format
  gt_layers :: nat
  gt_faces :: nat
  gt_levels :: nat
  gt_extent :: "32 word \<times> 32 word"
  gt_texels :: "u8vec4 list"

datatype TextureCompression =
    TextureCompression_Uncompressed
  | BC1 | BC3 | BC4 | BC5 | BC7 | BC6H
  | ASTC4x4 | ASTC5x5 | ASTC6x6 | ASTC8x8

datatype ColorSpace = ColorSpace_sRGB | ColorSpace_Linear

record AnalysisResult =
  ar_src_path :: string
  ar_image :: gli_texture
  ar_compression :: TextureCompression
  ar_mode :: TextureMode
  ar_type :: Textures
  ar_swizzle :: VkComponentMapping

datatype MetallicRoughnessMode =
  RoughnessMetal | RoughnessDielectric | MetallicSmooth | MetallicRough | Default

fun get_compression_format :: "TextureCompression \<Rightarrow> TextureMode \<Rightarrow> gli_format" where
  "get_compression_format c mode =
     (let srgb = (mode = sRGB \<or> mode = sRGBA)
      in case c of
           TextureCompression_Uncompressed \<Rightarrow>
             (if srgb then FORMAT_RGBA8_SRGB_PACK8 else FORMAT_RGBA8_UNORM_PACK8)
         | BC1 \<Rightarrow>
             (if mode = sRGBA \<or> mode = RGBA
              then (if srgb then FORMAT_RGBA_DXT1_SRGB_BLOCK8 else FORMAT_RGBA_DXT1_UNORM_BLOCK8)
              else (if srgb then FORMAT_RGB_DXT1_SRGB_BLOCK8 else FORMAT_RGB_DXT1_UNORM_BLOCK8))
         | BC3 \<Rightarrow>
             (if srgb then FORMAT_RGBA_DXT5_SRGB_BLOCK16 else FORMAT_RGBA_DXT5_UNORM_BLOCK16)
         | BC4 \<Rightarrow> FORMAT_R_ATI1N_UNORM_BLOCK8
         | BC5 \<Rightarrow> FORMAT_RG_ATI2N_UNORM_BLOCK16
         | BC7 \<Rightarrow> (if srgb then FORMAT_RGBA_BP_SRGB_BLOCK16 else FORMAT_RGBA_BP_UNORM_BLOCK16)
         | BC6H \<Rightarrow> FORMAT_RGB_BP_UFLOAT_BLOCK16
         | ASTC4x4 \<Rightarrow>
             (if srgb then FORMAT_RGBA_ASTC_4X4_SRGB_BLOCK16
              else FORMAT_RGBA_ASTC_4X4_UNORM_BLOCK16)
         | ASTC5x5 \<Rightarrow>
             (if srgb then FORMAT_RGBA_ASTC_5X5_SRGB_BLOCK16
              else FORMAT_RGBA_ASTC_5X5_UNORM_BLOCK16)
         | ASTC6x6 \<Rightarrow>
             (if srgb then FORMAT_RGBA_ASTC_6X6_SRGB_BLOCK16
              else FORMAT_RGBA_ASTC_6X6_UNORM_BLOCK16)
         | ASTC8x8 \<Rightarrow>
             (if srgb then FORMAT_RGBA_ASTC_8X8_SRGB_BLOCK16
              else FORMAT_RGBA_ASTC_8X8_UNORM_BLOCK16))"

subsection \<open>The image swizzler\<close>

datatype gli_swizzle = SWIZZLE_RED | SWIZZLE_GREEN | SWIZZLE_BLUE | SWIZZLE_ALPHA

fun conv_swizzle :: "VkComponentSwizzle \<Rightarrow> gli_swizzle result" where
  "conv_swizzle VK_COMPONENT_SWIZZLE_R = Inr SWIZZLE_RED"
| "conv_swizzle VK_COMPONENT_SWIZZLE_G = Inr SWIZZLE_GREEN"
| "conv_swizzle VK_COMPONENT_SWIZZLE_B = Inr SWIZZLE_BLUE"
| "conv_swizzle VK_COMPONENT_SWIZZLE_A = Inr SWIZZLE_ALPHA"
| "conv_swizzle _ = Inl (InvalidArgument ''Unrecognized swizzle parameter.'')"

fun pick_channel :: "gli_swizzle \<Rightarrow> u8vec4 \<Rightarrow> byte" where
  "pick_channel SWIZZLE_RED p = px_r p"
| "pick_channel SWIZZLE_GREEN p = px_g p"
| "pick_channel SWIZZLE_BLUE p = px_b p"
| "pick_channel SWIZZLE_ALPHA p = px_a p"

text \<open>\<open>image->swizzle<u8vec4>(swizzles)\<close>: every texel is permuted.\<close>

definition texture_swizzle ::
  "gli_texture \<Rightarrow> gli_swizzle \<times> gli_swizzle \<times> gli_swizzle \<times> gli_swizzle \<Rightarrow> gli_texture" where
  "texture_swizzle t sw =
     (case sw of (r, g, b, a) \<Rightarrow>
        t\<lparr>gt_texels := map (\<lambda>p. (pick_channel r p, pick_channel g p, pick_channel b p,
                                  pick_channel a p)) (gt_texels t)\<rparr>)"

definition swizzle_image :: "AnalysisResult \<Rightarrow> VkComponentMapping \<Rightarrow> AnalysisResult result" where
  "swizzle_image res sw =
     (if swz_r sw \<noteq> VK_COMPONENT_SWIZZLE_R \<or> swz_g sw \<noteq> VK_COMPONENT_SWIZZLE_G \<or>
         swz_b sw \<noteq> VK_COMPONENT_SWIZZLE_B \<or> swz_a sw \<noteq> VK_COMPONENT_SWIZZLE_A
      then
        (if gt_format (ar_image res) \<noteq> FORMAT_RGBA8_SRGB_PACK8 \<and>
            gt_format (ar_image res) \<noteq> FORMAT_RGBA8_UNORM_PACK8
         then Inl (InvalidArgument ''Can only swizzle RGBA textures.'')
         else
           bind_result (conv_swizzle (swz_r sw)) (\<lambda>r.
           bind_result (conv_swizzle (swz_g sw)) (\<lambda>g.
           bind_result (conv_swizzle (swz_b sw)) (\<lambda>b.
           bind_result (conv_swizzle (swz_a sw)) (\<lambda>a.
             Inr (res\<lparr>ar_image := texture_swizzle (ar_image res) (r, g, b, a)\<rparr>))))))
      else Inr res)"

subsection \<open>The metallic-roughness planner\<close>

record mr_flags =
  metallic_zero_only :: bool
  metallic_one_only :: bool
  roughness_zero_only :: bool
  roughness_one_only :: bool

definition mr_initial :: mr_flags where
  "mr_initial = \<lparr>metallic_zero_only = True, metallic_one_only = True,
     roughness_zero_only = True, roughness_one_only = True\<rparr>"

text \<open>The body of the scan loop, for the texel \<open>src[i]\<close>.\<close>

definition mr_step :: "mr_flags \<Rightarrow> u8vec4 \<Rightarrow> mr_flags" where
  "mr_step f p =
     (let f1 = (if px_b p \<noteq> 0xff then f\<lparr>roughness_one_only := False\<rparr> else f);
          f2 = (if px_b p \<noteq> 0 then f1\<lparr>roughness_zero_only := False\<rparr> else f1);
          f3 = (if px_g p \<noteq> 0xff then f2\<lparr>metallic_one_only := False\<rparr> else f2);
          f4 = (if px_g p \<noteq> 0 then f3\<lparr>metallic_zero_only := False\<rparr> else f3)
      in f4)"

text \<open>
  \<open>for (int i = 0; i < count; i++)\<close>, from \<open>i\<close> on. A read past the texel storage is
  undefined behaviour.
\<close>

function mr_scan :: "u8vec4 list \<Rightarrow> int \<Rightarrow> int \<Rightarrow> mr_flags \<Rightarrow> mr_flags result" where
  "mr_scan src cnt i f =
     (if i < cnt then
        (if 0 \<le> i \<and> nat i < length src then mr_scan src cnt (i + 1) (mr_step f (src ! nat i))
         else Inl UndefinedBehaviour)
      else Inr f)"
  by pat_completeness auto
termination
  by (relation "measure (\<lambda>(src, cnt, i, f). nat (cnt - i))") auto

declare mr_scan.simps [simp del]

definition mr_decide :: "mr_flags \<Rightarrow> MetallicRoughnessMode" where
  "mr_decide f =
     (if \<not> metallic_zero_only f \<and> \<not> metallic_one_only f \<and>
         (roughness_one_only f \<or> roughness_zero_only f)
      then (if roughness_one_only f then MetallicRough else MetallicSmooth)
      else if \<not> roughness_zero_only f \<and> \<not> roughness_one_only f \<and>
              (metallic_one_only f \<or> metallic_zero_only f)
      then (if metallic_one_only f then RoughnessMetal else RoughnessDielectric)
      else Default)"

text \<open>
  \<open>int count = width * height\<close> is a product of two \<open>int\<close> values: a product outside
  the range of \<open>int\<close> is a signed overflow, which is undefined behaviour.
\<close>

definition deduce_metallic_roughness_mode :: "AnalysisResult \<Rightarrow> MetallicRoughnessMode result" where
  "deduce_metallic_roughness_mode res =
     (let image = ar_image res
      in if gt_layers image > 1 \<or> gt_faces image > 1 then Inr Default
         else
           let src = gt_texels image;
               width = sint (fst (gt_extent image));
               height = sint (snd (gt_extent image))
           in if width * height < - (2 ^ 31) \<or> 2 ^ 31 \<le> width * height
              then Inl UndefinedBehaviour
              else
                let cnt = width * height
                in bind_result (mr_scan src cnt 0 mr_initial) (\<lambda>f. Inr (mr_decide f)))"


subsection \<open>Compression planning\<close>

definition mapping_of ::
  "VkComponentSwizzle \<Rightarrow> VkComponentSwizzle \<Rightarrow> VkComponentSwizzle \<Rightarrow> VkComponentSwizzle
     \<Rightarrow> VkComponentMapping" where
  "mapping_of r g b a = \<lparr>swz_r = r, swz_g = g, swz_b = b, swz_a = a\<rparr>"

definition deduce_compression ::
  "AnalysisResult \<Rightarrow> TextureCompressionFamily \<Rightarrow> AnalysisResult result" where
  "deduce_compression res family =
     (case family of
        ASTC \<Rightarrow>
          (case ar_type res of
             BaseColor \<Rightarrow> Inr (res\<lparr>ar_compression := ASTC6x6\<rparr>)
           | Emissive \<Rightarrow> Inr (res\<lparr>ar_compression := ASTC6x6\<rparr>)
           | Occlusion \<Rightarrow>
               swizzle_image (res\<lparr>ar_compression := ASTC6x6\<rparr>)
                 (mapping_of VK_COMPONENT_SWIZZLE_R VK_COMPONENT_SWIZZLE_R
                    VK_COMPONENT_SWIZZLE_R VK_COMPONENT_SWIZZLE_R)
           | NormalMap \<Rightarrow>
               bind_result
                 (swizzle_image (res\<lparr>ar_compression := ASTC6x6\<rparr>)
                    (mapping_of VK_COMPONENT_SWIZZLE_R VK_COMPONENT_SWIZZLE_R
                       VK_COMPONENT_SWIZZLE_R VK_COMPONENT_SWIZZLE_G))
                 (\<lambda>r. Inr (r\<lparr>ar_swizzle := mapping_of VK_COMPONENT_SWIZZLE_R
                              VK_COMPONENT_SWIZZLE_A VK_COMPONENT_SWIZZLE_ONE
                              VK_COMPONENT_SWIZZLE_ONE\<rparr>))
           | MetallicRoughness \<Rightarrow>
               (let res1 = res\<lparr>ar_compression := ASTC6x6\<rparr>
                in bind_result (deduce_metallic_roughness_mode res1) (\<lambda>mr_mode.
                     if mr_mode = Default then
                       bind_result
                         (swizzle_image res1
                            (mapping_of VK_COMPONENT_SWIZZLE_G VK_COMPONENT_SWIZZLE_G
                               VK_COMPONENT_SWIZZLE_G VK_COMPONENT_SWIZZLE_B))
                         (\<lambda>r. Inr (r\<lparr>ar_swizzle := mapping_of VK_COMPONENT_SWIZZLE_ZERO
                                      VK_COMPONENT_SWIZZLE_R VK_COMPONENT_SWIZZLE_A
                                      VK_COMPONENT_SWIZZLE_ZERO\<rparr>))
                     else if mr_mode = MetallicRough \<or> mr_mode = MetallicSmooth then
                       bind_result
                         (swizzle_image res1
                            (mapping_of VK_COMPONENT_SWIZZLE_B VK_COMPONENT_SWIZZLE_B
                               VK_COMPONENT_SWIZZLE_B VK_COMPONENT_SWIZZLE_B))
                         (\<lambda>r. Inr (r\<lparr>ar_swizzle := mapping_of VK_COMPONENT_SWIZZLE_ZERO
                                      (if mr_mode = MetallicRough then VK_COMPONENT_SWIZZLE_ONE
                                       else VK_COMPONENT_SWIZZLE_ZERO)
                                      VK_COMPONENT_SWIZZLE_R VK_COMPONENT_SWIZZLE_ZERO\<rparr>))
                     else
                       bind_result
                         (swizzle_image res1
                            (mapping_of VK_COMPONENT_SWIZZLE_G VK_COMPONENT_SWIZZLE_G
                               VK_COMPONENT_SWIZZLE_G VK_COMPONENT_SWIZZLE_G))
                         (\<lambda>r. Inr (r\<lparr>ar_swizzle := mapping_of VK_COMPONENT_SWIZZLE_ZERO
                                      VK_COMPONENT_SWIZZLE_R
                                      (if mr_mode = RoughnessMetal then VK_COMPONENT_SWIZZLE_ONE
                                       else VK_COMPONENT_SWIZZLE_ZERO)
                                      VK_COMPONENT_SWIZZLE_ZERO\<rparr>))))
           | Count \<Rightarrow> Inl (InvalidArgument ''Invalid material type.''))
      | BC \<Rightarrow>
          bind_result
            (case ar_type res of
               BaseColor \<Rightarrow> Inr (res\<lparr>ar_compression := BC7\<rparr>)
             | Emissive \<Rightarrow> Inr (res\<lparr>ar_compression := BC7\<rparr>)
             | Occlusion \<Rightarrow> Inr (res\<lparr>ar_compression := BC4\<rparr>)
             | MetallicRoughness \<Rightarrow>
                 bind_result (deduce_metallic_roughness_mode res) (\<lambda>mr_mode.
                   if mr_mode = Default then
                     bind_result
                       (swizzle_image (res\<lparr>ar_compression := BC5\<rparr>)
                          (mapping_of VK_COMPONENT_SWIZZLE_G VK_COMPONENT_SWIZZLE_B
                             VK_COMPONENT_SWIZZLE_B VK_COMPONENT_SWIZZLE_A))
                       (\<lambda>r. Inr (r\<lparr>ar_swizzle := mapping_of VK_COMPONENT_SWIZZLE_ZERO
                                    VK_COMPONENT_SWIZZLE_R VK_COMPONENT_SWIZZLE_G
                                    VK_COMPONENT_SWIZZLE_ZERO\<rparr>))
                   else if mr_mode = RoughnessDielectric \<or> mr_mode = RoughnessMetal then
                     bind_result
                       (swizzle_image (res\<lparr>ar_compression := BC4\<rparr>)
                          (mapping_of VK_COMPONENT_SWIZZLE_G VK_COMPONENT_SWIZZLE_G
                             VK_COMPONENT_SWIZZLE_G VK_COMPONENT_SWIZZLE_G))
                       (\<lambda>r. Inr (r\<lparr>ar_swizzle := mapping_of VK_COMPONENT_SWIZZLE_ZERO
                                    VK_COMPONENT_SWIZZLE_R
                                    (if mr_mode = RoughnessMetal then VK_COMPONENT_SWIZZLE_ONE
                                     else VK_COMPONENT_SWIZZLE_ZERO)
                                    VK_COMPONENT_SWIZZLE_ZERO\<rparr>))
                   else
                     bind_result
                       (swizzle_image (res\<lparr>ar_compression := BC4\<rparr>)
                          (mapping_of VK_COMPONENT_SWIZZLE_B VK_COMPONENT_SWIZZLE_B
                             VK_COMPONENT_SWIZZLE_B VK_COMPONENT_SWIZZLE_B))
                       (\<lambda>r. Inr (r\<lparr>ar_swizzle := mapping_of VK_COMPONENT_SWIZZLE_ZERO
                                    (if mr_mode = MetallicRough then VK_COMPONENT_SWIZZLE_ONE
                                     else VK_COMPONENT_SWIZZLE_ZERO)
                                    VK_COMPONENT_SWIZZLE_R VK_COMPONENT_SWIZZLE_ZERO\<rparr>)))
             | NormalMap \<Rightarrow> Inr (res\<lparr>ar_compression := BC5\<rparr>)
             | Count \<Rightarrow> Inl (InvalidArgument ''Invalid material type.''))
            (\<lambda>r. Inr (if ar_mode r = HDR then r\<lparr>ar_compression := BC6H\<rparr> else r))
      | Uncompressed \<Rightarrow> Inr (res\<lparr>ar_compression := TextureCompression_Uncompressed\<rparr>))"

subsection \<open>JSON values\<close>

text \<open>
  The document is built with the JSON library; the model keeps its values: objects with
  their members in the order they were added, arrays, strings, integers, floats and
  booleans.
\<close>

datatype json =
    JObject "(string \<times> json) list"
  | JArray "json list"
  | JString string
  | JInt int
  | JReal real
  | JBool bool

definition JNat :: "nat \<Rightarrow> json" where
  "JNat n = JInt (int n)"

fun json_member :: "json \<Rightarrow> string \<Rightarrow> json option" where
  "json_member (JObject ms) k = map_of ms k"
| "json_member _ k = None"

subsection \<open>The collaborators outside this file\<close>

record FileStat =
  fs_size :: nat
  last_modified :: nat

text \<open>
  What the file system, the image loader, the JSON writer and the hasher answer is not
  decided by this file. The model takes their answers as parameters:
  \<open>fs_open\<close> and \<open>fs_map_write\<close> say whether opening the output and mapping it for
  writing succeed, \<open>json_write\<close> is the text \<open>PrettyWriter\<close> produces, and
  \<open>zero_compression\<close> is the enumerator of \<open>TextureCompression\<close> with value 0, which a
  value-initialised \<open>AnalysisResult\<close> holds.
\<close>

record collaborators =
  hasher_get :: hasher
  load_texture_from_file :: "string \<Rightarrow> ColorSpace \<Rightarrow> gli_texture"
  fs_stat :: "string \<Rightarrow> FileStat option"
  fs_open :: "string \<Rightarrow> bool"
  fs_map_write :: "string \<Rightarrow> nat \<Rightarrow> bool"
  path_relpath :: "string \<Rightarrow> string \<Rightarrow> string"
  json_write :: "json \<Rightarrow> byte list"
  hardware_concurrency :: nat
  zero_compression :: TextureCompression

subsection \<open>Image analysis and encoding tasks\<close>

definition load_image ::
  "collaborators \<Rightarrow> AnalysisResult \<Rightarrow> string \<Rightarrow> VkComponentMapping \<Rightarrow> (bool \<times> AnalysisResult) result" where
  "load_image ext res src sw =
     (let res1 = res\<lparr>ar_src_path := src,
                     ar_image := load_texture_from_file ext src
                       (if ar_mode res = sRGBA \<or> ar_mode res = sRGB then ColorSpace_sRGB
                        else ColorSpace_Linear)\<rparr>
      in if gt_empty (ar_image res1) then Inr (False, res1)
         else bind_result (swizzle_image res1 sw)
                (\<lambda>res2. Inr (True, res2\<lparr>ar_swizzle := rgba_mapping\<rparr>)))"

text \<open>
  \<open>analyze_image\<close>: the result record is value-initialised, \<open>mode\<close> and \<open>type\<close> are
  set, and the task loads the image and plans its compression. The value is what the
  record holds once the task has run; \<open>Inl\<close> is an exception leaving the task.
\<close>

definition analyze_image ::
  "collaborators \<Rightarrow> string \<Rightarrow> VkComponentMapping \<Rightarrow> Textures \<Rightarrow> TextureCompressionFamily
     \<Rightarrow> TextureMode \<Rightarrow> AnalysisResult result" where
  "analyze_image ext src sw type family mode =
     (let result = \<lparr>ar_src_path = [],
                    ar_image = \<lparr>gt_empty = True, gt_format = FORMAT_UNDEFINED, gt_layers = 0,
                                gt_faces = 0, gt_levels = 0, gt_extent = (0, 0),
                                gt_texels = []\<rparr>,
                    ar_compression = zero_compression ext,
                    ar_mode = mode, ar_type = type,
                    ar_swizzle = mapping_of VK_COMPONENT_SWIZZLE_IDENTITY
                      VK_COMPONENT_SWIZZLE_IDENTITY VK_COMPONENT_SWIZZLE_IDENTITY
                      VK_COMPONENT_SWIZZLE_IDENTITY\<rparr>
      in bind_result (load_image ext result src sw) (\<lambda>(loaded, res1).
           if \<not> loaded then Inr res1 else deduce_compression res1 family))"

record CompressorArguments =
  ca_output :: string
  ca_format :: gli_format
  ca_quality :: nat

text \<open>
  The tasks \<open>compress_image\<close> hands to the worker pool: mipmap generation for an image,
  block compression into the output file (scheduled by \<open>compress_texture\<close>), and saving
  an uncompressed file. A dependency \<open>(t, d)\<close> says task \<open>t\<close> runs after task \<open>d\<close>.
\<close>

datatype task =
    MipgenTask string
  | CompressTask CompressorArguments
  | SaveTask string

record ThreadGroup =
  tg_threads :: nat
  tg_tasks :: "task list"
  tg_dependencies :: "(nat \<times> nat) list"

definition create_task :: "ThreadGroup \<Rightarrow> task \<Rightarrow> nat \<times> ThreadGroup" where
  "create_task workers t = (length (tg_tasks workers), workers\<lparr>tg_tasks := tg_tasks workers @ [t]\<rparr>)"

definition add_dependency :: "ThreadGroup \<Rightarrow> nat \<Rightarrow> nat \<Rightarrow> ThreadGroup" where
  "add_dependency workers t d = workers\<lparr>tg_dependencies := tg_dependencies workers @ [(t, d)]\<rparr>"

definition compress_image ::
  "collaborators \<Rightarrow> ThreadGroup \<Rightarrow> string \<Rightarrow> AnalysisResult \<Rightarrow> nat \<Rightarrow> ThreadGroup" where
  "compress_image ext workers target_path result quality =
     (let up_to_date =
            (case fs_stat ext (ar_src_path result) of
               None \<Rightarrow> False
             | Some src_stat \<Rightarrow>
                 (case fs_stat ext target_path of
                    None \<Rightarrow> False
                  | Some dst_stat \<Rightarrow> last_modified src_stat < last_modified dst_stat))
      in if up_to_date then workers
         else
           let args = \<lparr>ca_output = target_path,
                       ca_format = get_compression_format (ar_compression result) (ar_mode result),
                       ca_quality = quality\<rparr>;
               (mipgen_task, w1) = create_task workers (MipgenTask (ar_src_path result))
           in if ar_compression result \<noteq> TextureCompression_Uncompressed then
                (case create_task w1 (CompressTask args) of
                   (t, w2) \<Rightarrow> add_dependency w2 t mipgen_task)
              else
                (case create_task w1 (SaveTask target_path) of
                   (t, w2) \<Rightarrow> add_dependency w2 t mipgen_task))"


subsection \<open>The sections of the document\<close>

fun first_index :: "('a \<Rightarrow> bool) \<Rightarrow> 'a list \<Rightarrow> nat option" where
  "first_index P [] = None"
| "first_index P (x # xs) = (if P x then Some 0 else map_option Suc (first_index P xs))"

text \<open>The members of a node other than \<open>mesh\<close>; \<open>k\<close> is the index of the node.\<close>

definition node_children :: "NodeInfo \<Rightarrow> (string \<times> json) list" where
  "node_children node =
     (if children node \<noteq> [] then [(''children'', JArray (map JNat (children node)))] else [])"

definition node_camera :: "SceneInformation \<Rightarrow> nat \<Rightarrow> (string \<times> json) list" where
  "node_camera scene k =
     (case first_index (\<lambda>c. cam_attached_to_node c \<and> cam_node_index c = k) (cameras scene) of
        Some c \<Rightarrow> [(''camera'', JNat c)]
      | None \<Rightarrow> [])"

definition node_light :: "SceneInformation \<Rightarrow> nat \<Rightarrow> (string \<times> json) list" where
  "node_light scene k =
     (case first_index (\<lambda>l. light_attached_to_node l \<and> light_node_index l = k) (lights scene) of
        Some l \<Rightarrow>
          [(''extensions'', JObject [(''KHR_lights_cmn'', JObject [(''light'', JNat l)])])]
      | None \<Rightarrow> [])"

definition node_transform :: "NodeInfo \<Rightarrow> (string \<times> json) list" where
  "node_transform node =
     (case rotation (transform node) of (x, y, z, w) \<Rightarrow>
        (if w \<noteq> 1 \<or> x \<noteq> 0 \<or> y \<noteq> 0 \<or> z \<noteq> 0
         then [(''rotation'', JArray (map JReal [x, y, z, w]))] else []))
     @ (if scale (transform node) \<noteq> (1, 1, 1)
        then [(''scale'', JArray (map JReal (vec3_list (scale (transform node)))))] else [])
     @ (if translation (transform node) \<noteq> (0, 0, 0)
        then [(''translation'', JArray (map JReal (vec3_list (translation (transform node)))))]
        else [])"

text \<open>The loop over the nodes, from node \<open>k\<close> on; it is the loop that fills the caches.\<close>

fun emit_nodes ::
  "hasher \<Rightarrow> SceneInformation \<Rightarrow> NodeInfo list \<Rightarrow> nat \<Rightarrow> RemapState
     \<Rightarrow> (json list \<times> RemapState) result" where
  "emit_nodes H scene [] k s = Inr ([], s)"
| "emit_nodes H scene (node # rest) k s =
     bind_result
       (if meshes node \<noteq> [] then
          bind_result (emit_meshes H s (meshes node))
            (\<lambda>(g, s'). Inr ([(''mesh'', JNat g)], s'))
        else Inr ([], s))
       (\<lambda>(mesh_member, s1).
          bind_result (emit_nodes H scene rest (k + 1) s1)
            (\<lambda>(ns, s2).
               Inr (JObject (node_children node @ mesh_member @ node_camera scene k
                              @ node_light scene k @ node_transform node) # ns, s2)))"

definition buffer_view_json :: "BufferView \<Rightarrow> json" where
  "buffer_view_json v = JObject [(''buffer'', JInt 0), (''byteLength'', JNat (bv_length v)),
     (''byteOffset'', JNat (bv_offset v)), (''byteStride'', JNat (bv_stride v))]"

definition accessor_components :: "string \<Rightarrow> nat" where
  "accessor_components t =
     (if t = ''SCALAR'' then 1 else if t = ''VEC2'' then 2 else if t = ''VEC3'' then 3
      else if t = ''VEC4'' then 4 else 0)"

definition accessor_json :: "EmittedAccessor \<Rightarrow> json" where
  "accessor_json accessor = JObject (
     [(''bufferView'', JNat (acc_view accessor)),
      (''componentType'', JNat (acc_component accessor)),
      (''type'', JString (acc_type accessor)),
      (''count'', JNat (acc_count accessor)),
      (''byteOffset'', JNat (acc_offset accessor))]
     @ (if acc_use_aabb accessor then
          (let lo = vec3_list (minimum (acc_aabb accessor)) @ [1];
               hi = vec3_list (maximum (acc_aabb accessor)) @ [1];
               components = accessor_components (acc_type accessor)
           in if components \<noteq> 0
              then [(''min'', JArray (map JReal (take components lo))),
                    (''max'', JArray (map JReal (take components hi)))]
              else [])
        else []))"

definition sampler_json :: "EmittedSampler \<Rightarrow> json" where
  "sampler_json smp = JObject (
     (if mag_filter smp \<noteq> 0 then [(''magFilter'', JNat (mag_filter smp))] else [])
     @ (if min_filter smp \<noteq> 0 then [(''minFilter'', JNat (min_filter smp))] else [])
     @ (if wrap_s smp \<noteq> 0 then [(''wrapS'', JNat (wrap_s smp))] else [])
     @ (if wrap_t smp \<noteq> 0 then [(''wrapT'', JNat (wrap_t smp))] else []))"

fun swiz_to_index :: "VkComponentSwizzle \<Rightarrow> nat \<Rightarrow> nat" where
  "swiz_to_index VK_COMPONENT_SWIZZLE_R identity = 0"
| "swiz_to_index VK_COMPONENT_SWIZZLE_G identity = 1"
| "swiz_to_index VK_COMPONENT_SWIZZLE_B identity = 2"
| "swiz_to_index VK_COMPONENT_SWIZZLE_A identity = 3"
| "swiz_to_index VK_COMPONENT_SWIZZLE_ONE identity = 4"
| "swiz_to_index VK_COMPONENT_SWIZZLE_ZERO identity = 5"
| "swiz_to_index VK_COMPONENT_SWIZZLE_IDENTITY identity = identity"

text \<open>The image entry uses the swizzle the analysis left in \<open>loaded_image\<close>.\<close>

definition image_json :: "EmittedImage \<Rightarrow> AnalysisResult \<Rightarrow> json" where
  "image_json img loaded =
     (let swiz = ar_swizzle loaded
      in JObject (
           [(''uri'', JString (img_target_relpath img)),
            (''mimeType'', JString (img_target_mime img))]
           @ (if swz_r swiz \<noteq> VK_COMPONENT_SWIZZLE_R \<or> swz_g swiz \<noteq> VK_COMPONENT_SWIZZLE_G \<or>
                 swz_b swiz \<noteq> VK_COMPONENT_SWIZZLE_B \<or> swz_a swiz \<noteq> VK_COMPONENT_SWIZZLE_A
              then [(''extras'', JObject [(''swizzle'', JArray
                      [JNat (swiz_to_index (swz_r swiz) 0), JNat (swiz_to_index (swz_g swiz) 1),
                       JNat (swiz_to_index (swz_b swiz) 2),
                       JNat (swiz_to_index (swz_a swiz) 3)])])]
              else [])))"

definition texture_json :: "EmittedTexture \<Rightarrow> json" where
  "texture_json t = JObject [(''sampler'', JNat (tex_sampler t)), (''source'', JNat (tex_image t))]"

definition material_json :: "EmittedMaterial \<Rightarrow> json" where
  "material_json m = JObject (
     (if mat_pipeline m = AlphaBlend then [(''alphaMode'', JString ''BLEND'')]
      else if mat_pipeline m = AlphaTest then [(''alphaMode'', JString ''MASK'')] else [])
     @ (if mat_two_sided m then [(''doubleSided'', JBool True)] else [])
     @ (if mat_uniform_emissive_color m \<noteq> (0, 0, 0)
        then [(''emissiveFactor'', JArray (map JReal (vec3_list (mat_uniform_emissive_color m))))]
        else [])
     @ [(''pbrMetallicRoughness'', JObject (
          (if mat_uniform_roughness m \<noteq> 1
           then [(''roughnessFactor'', JReal (mat_uniform_roughness m))] else [])
          @ (if mat_uniform_metallic m \<noteq> 1
             then [(''metallicFactor'', JReal (mat_uniform_metallic m))] else [])
          @ (if mat_uniform_base_color m \<noteq> (1, 1, 1, 1)
             then [(''baseColorFactor'',
                    JArray (map JReal (vec4_list (mat_uniform_base_color m))))] else [])
          @ (if mat_base_color m \<ge> 0
             then [(''baseColorTexture'', JObject [(''index'', JInt (mat_base_color m))])]
             else [])
          @ (if mat_metallic_roughness m \<ge> 0
             then [(''metallicRoughnessTexture'',
                    JObject [(''index'', JInt (mat_metallic_roughness m))])] else [])))]
     @ (if mat_normal m \<ge> 0
        then [(''normalTexture'', JObject [
                (''extras'', JObject [(''twoComponent'', JBool True)]),
                (''index'', JInt (mat_normal m)),
                (''scale'', JReal (mat_normal_scale m))])] else [])
     @ (if mat_emissive m \<ge> 0
        then [(''emissiveTexture'', JObject [(''index'', JInt (mat_emissive m))])] else [])
     @ (if mat_occlusion m \<ge> 0
        then [(''occlusionTexture'', JObject [(''index'', JInt (mat_occlusion m))])] else []))"

fun attribute_semantic :: "MeshAttribute \<Rightarrow> string" where
  "attribute_semantic Position = ''POSITION''"
| "attribute_semantic Normal = ''NORMAL''"
| "attribute_semantic BoneWeights = ''WEIGHTS_0''"
| "attribute_semantic BoneIndex = ''JOINTS_0''"
| "attribute_semantic VertexColor = ''COLOR_0''"
| "attribute_semantic Tangent = ''TANGENT''"
| "attribute_semantic UV = ''TEXCOORD_0''"

text \<open>
  A primitive of a mesh group. \<open>for_each_bit\<close> visits the set bits of the mask from the
  lowest; the submesh and its material index were checked when the mesh was emitted.
\<close>

definition primitive_json :: "RemapState \<Rightarrow> nat \<Rightarrow> json" where
  "primitive_json s submesh =
     (let m = mesh_cache s ! submesh;
          attribs = map (\<lambda>a. (attribute_semantic a, JInt (em_attribute_accessor m a)))
                      (filter (\<lambda>a. bit (em_attribute_mask m) (ecast_attribute a)) mesh_attributes)
      in JObject (
           (if em_index_accessor m \<ge> 0 then [(''indices'', JInt (em_index_accessor m))] else [])
           @ (if em_material m \<ge> 0
              then [(''material'', JNat (to_index (material s) ! nat (em_material m)))] else [])
           @ [(''attributes'', JObject attribs)]))"

definition mesh_group_json :: "RemapState \<Rightarrow> nat list \<Rightarrow> json" where
  "mesh_group_json s submeshes =
     JObject [(''primitives'', JArray (map (primitive_json s) submeshes))]"

definition camera_json :: "CameraInfo \<Rightarrow> json" where
  "camera_json camera = JObject (
     if cam_type camera = Perspective then
       [(''type'', JString ''perspective''),
        (''perspective'', JObject [(''aspectRatio'', JReal (aspect_ratio camera)),
           (''yfov'', JReal (yfov camera)), (''znear'', JReal (znear camera)),
           (''zfar'', JReal (zfar camera))])]
     else
       [(''type'', JString ''orthographic''),
        (''orthographic'', JObject [(''xmag'', JReal (xmag camera)),
           (''ymag'', JReal (ymag camera)), (''znear'', JReal (znear camera)),
           (''zfar'', JReal (zfar camera))])])"

definition light_attenuation :: "LightInfo \<Rightarrow> (string \<times> json) list" where
  "light_attenuation light =
     (if constant_falloff light \<noteq> 0
      then [(''constantAttenuation'', JReal (constant_falloff light))] else [])
     @ (if linear_falloff light \<noteq> 0
        then [(''linearAttenuation'', JReal (linear_falloff light))] else [])
     @ (if quadratic_falloff light \<noteq> 0
        then [(''quadraticAttenuation'', JReal (quadratic_falloff light))] else [])"

definition light_json :: "LightInfo \<Rightarrow> json" where
  "light_json light = JObject (
     [(''color'', JArray (map JReal (vec3_list (color light))))]
     @ (case light_type light of
          Spot \<Rightarrow>
            [(''type'', JString ''spot''), (''profile'', JString ''CMN''),
             (''positional'', JObject (light_attenuation light
                @ [(''spot'', JObject [
                      (''innerAngle'',
                       JReal (sqrt (max (1 - inner_cone light * inner_cone light) 0))),
                      (''outerAngle'',
                       JReal (sqrt (max (1 - outer_cone light * outer_cone light) 0)))])]))]
        | Point \<Rightarrow>
            [(''type'', JString ''point''), (''profile'', JString ''CMN''),
             (''positional'', JObject (light_attenuation light))]
        | Directional \<Rightarrow> [(''type'', JString ''directional''), (''profile'', JString ''CMN'')]
        | Ambient \<Rightarrow> [(''type'', JString ''ambient'')]))"

definition environment_json :: "EmittedEnvironment \<Rightarrow> json" where
  "environment_json env = JObject (
     (if ee_cube env \<ge> 0 then [(''cubeTexture'', JInt (ee_cube env))] else [])
     @ (if ee_reflection env \<ge> 0 then [(''reflectionTexture'', JInt (ee_reflection env))] else [])
     @ (if ee_irradiance env \<ge> 0 then [(''irradianceTexture'', JInt (ee_irradiance env))] else [])
     @ [(''intensity'', JReal (ee_intensity env)),
        (''fog'', JObject [(''color'', JArray (map JReal (vec3_list (ee_fog_color env)))),
                          (''falloff'', JReal (ee_fog_falloff env))])])"


subsection \<open>The GLB container\<close>

text \<open>\<open>aligned_size\<close>: \<open>(size + 3) & ~size_t(3)\<close>.\<close>

definition aligned_size :: "nat \<Rightarrow> nat" where
  "aligned_size n = nat ((int n + 3) AND NOT 3)"

text \<open>
  \<open>write_u32\<close> takes a \<open>uint32_t\<close>: a \<open>size_t\<close> argument is cut to its low 32 bits.
  The four bytes are copied in host order, which is little-endian on the platforms the
  exporter runs on.
\<close>

definition write_u32 :: "nat \<Rightarrow> byte list" where
  "write_u32 v =
     (let w = (word_of_nat v :: 32 word)
      in [ucast w, ucast (drop_bit 8 w), ucast (drop_bit 16 w), ucast (drop_bit 24 w)])"

definition bytes_of_string :: "string \<Rightarrow> byte list" where
  "bytes_of_string cs = map of_char cs"

definition glb_size :: "nat \<Rightarrow> nat \<Rightarrow> nat" where
  "glb_size json_length bin_length =
     12 + 8 + aligned_size json_length + 8 + aligned_size bin_length"

text \<open>
  The bytes written through \<open>mapped\<close>, in the order of the writes; every byte of the
  mapping of \<open>glb_size\<close> bytes is written once.
\<close>

definition glb_bytes :: "byte list \<Rightarrow> byte list \<Rightarrow> byte list" where
  "glb_bytes buffer bin =
     bytes_of_string ''glTF''
     @ write_u32 2
     @ write_u32 (glb_size (length buffer) (length bin))
     @ write_u32 (aligned_size (length buffer))
     @ bytes_of_string ''JSON''
     @ buffer
     @ replicate (aligned_size (length buffer) - length buffer) (of_char CHR '' '')
     @ write_u32 (aligned_size (length bin))
     @ bytes_of_string ''BIN'' @ [0]
     @ bin
     @ replicate (aligned_size (length bin) - length bin) 0"

subsection \<open>The export function\<close>

text \<open>
  An exception raised on the calling thread leaves \<open>export_scene_to_glb\<close>, which has no
  handler. An exception raised by an analysis task is raised on a worker thread of the
  pool; what becomes of it is decided by the pool, outside this file.
\<close>

datatype export_failure = Raised error | RaisedInWorker error

record export_result =
  returned :: bool
  written :: "byte list option"
  document :: json
  final_state :: RemapState
  loaded_images :: "AnalysisResult list"
  pool :: ThreadGroup

text \<open>
  The first part of the function: both filter passes, the environment, and the loop over
  the nodes.
\<close>

definition bake_scene ::
  "hasher \<Rightarrow> SceneInformation \<Rightarrow> ExportOptions \<Rightarrow> (json list \<times> RemapState) result" where
  "bake_scene H scene opts =
     (let state = initial_state opts
      in bind_result (filter_input (hash_MaterialInfo H) (material state) (materials scene))
           (\<lambda>mats.
              let s1 = state\<lparr>material := mats\<rparr>
              in bind_result
                   (filter_input (hash_Mesh H (to_index (material s1))) (mesh s1)
                      (scene_meshes scene))
                   (\<lambda>ms.
                      let s2 = s1\<lparr>mesh := ms\<rparr>;
                          env = environment opts;
                          s3 = (if cube env \<noteq> [] then
                                  emit_environment H s2 (cube env) (reflection env)
                                    (irradiance env) (intensity env) (fog_color env)
                                    (fog_falloff env) (env_compression env)
                                    (env_texcomp_quality env)
                                else s2)
                      in emit_nodes H scene (nodes scene) 0 s3)))"

fun analyze_images :: "collaborators \<Rightarrow> EmittedImage list \<Rightarrow> AnalysisResult list result" where
  "analyze_images ext [] = Inr []"
| "analyze_images ext (img # rest) =
     bind_result
       (analyze_image ext (img_source_path img) (img_swizzle img) (img_type img)
          (img_compression img) (img_mode img))
       (\<lambda>loaded. bind_result (analyze_images ext rest) (\<lambda>ls. Inr (loaded # ls)))"

text \<open>The second loop over the images: the JSON entry, then \<open>compress_image\<close>.\<close>

fun images_loop ::
  "collaborators \<Rightarrow> string \<Rightarrow> ThreadGroup \<Rightarrow> (EmittedImage \<times> AnalysisResult) list
     \<Rightarrow> json list \<times> ThreadGroup" where
  "images_loop ext out_path workers [] = ([], workers)"
| "images_loop ext out_path workers ((img, loaded) # rest) =
     (let w1 = compress_image ext workers (path_relpath ext out_path (img_target_relpath img))
                 loaded (img_compression_quality img)
      in case images_loop ext out_path w1 rest of
           (js, w2) \<Rightarrow> (image_json img loaded # js, w2))"

definition build_document ::
  "SceneInformation \<Rightarrow> RemapState \<Rightarrow> json list \<Rightarrow> json list \<Rightarrow> json" where
  "build_document scene s nodes_json images_json = JObject (
     [(''asset'', JObject [(''generator'', JString ''Granite glTF 2.0 exporter''),
                          (''version'', JString ''2.0'')])]
     @ (if lights scene \<noteq> []
        then [(''extensionsRequired'', JArray [JString ''KHR_lights_cmn'']),
              (''extensionsUsed'', JArray [JString ''KHR_lights_cmn''])]
        else [])
     @ [(''nodes'', JArray nodes_json),
        (''buffers'', JArray [JObject [(''byteLength'', JNat (length (glb_buffer_data s)))]]),
        (''bufferViews'', JArray (map buffer_view_json (buffer_views s))),
        (''accessors'', JArray (map accessor_json (accessor_cache s))),
        (''samplers'', JArray (map sampler_json (sampler_cache s))),
        (''images'', JArray images_json),
        (''textures'', JArray (map texture_json (texture_cache s))),
        (''materials'', JArray (map material_json (material_cache s))),
        (''meshes'', JArray (map (mesh_group_json s) (mesh_group_cache s))),
        (''cameras'', JArray (map camera_json (cameras scene)))]
     @ (if lights scene \<noteq> []
        then [(''extensions'', JObject [(''KHR_lights_cmn'',
                JObject [(''lights'', JArray (map light_json (lights scene)))])])]
        else [])
     @ (if environment_cache s \<noteq> []
        then [(''extras'', JObject [(''environments'',
                JArray (map environment_json (environment_cache s)))])]
        else []))"

definition export_scene_to_glb ::
  "collaborators \<Rightarrow> SceneInformation \<Rightarrow> string \<Rightarrow> ExportOptions
     \<Rightarrow> export_failure + export_result" where
  "export_scene_to_glb ext scene out_path opts =
     (let workers = \<lparr>tg_threads = (if threads opts \<noteq> 0 then threads opts
                                    else hardware_concurrency ext),
                     tg_tasks = [], tg_dependencies = []\<rparr>
      in case bake_scene (hasher_get ext) scene opts of
           Inl e \<Rightarrow> Inl (Raised e)
         | Inr (nodes_json, state) \<Rightarrow>
             (case analyze_images ext (image_cache state) of
                Inl e \<Rightarrow> Inl (RaisedInWorker e)
              | Inr loaded \<Rightarrow>
                  (case images_loop ext out_path workers (zip (image_cache state) loaded) of
                     (images_json, workers1) \<Rightarrow>
                       let doc = build_document scene state nodes_json images_json;
                           buffer = json_write ext doc;
                           size = glb_size (length buffer) (length (glb_buffer_data state));
                           failed = \<lparr>returned = False, written = None, document = doc,
                                     final_state = state, loaded_images = loaded,
                                     pool = workers1\<rparr>
                       in if \<not> fs_open ext out_path then Inr failed
                          else if \<not> fs_map_write ext out_path size then Inr failed
                          else Inr (failed\<lparr>returned := True,
                                      written := Some (glb_bytes buffer (glb_buffer_data state))\<rparr>))))"

section \<open>Stated properties and worked inputs\<close>

text \<open>
  The definitions of this section are not code of the exporter: they name the properties
  the theorems state and the concrete inputs the theorems are run on.
\<close>

subsection \<open>A hasher and options for the worked inputs\<close>

fun item_code :: "hash_item \<Rightarrow> nat" where
  "item_code (H_u32 n) = n"
| "item_code (H_s32 i) = nat \<bar>i\<bar>"
| "item_code (H_f32 x) = (if x = 0 then 0 else 1)"
| "item_code (H_bool b) = (if b then 1 else 0)"
| "item_code (H_data bs) = length bs"
| "item_code (H_string cs) = length cs"
| "item_code (H_textures t) = (if t = Emissive then 1 else 0)"
| "item_code (H_mode m) = (if m = HDR then 1 else 0)"
| "item_code _ = 0"

definition example_hasher :: hasher where
  "example_hasher items = word_of_nat (foldl (\<lambda>h c. 31 * h + c) 7 (map item_code items))"

definition example_options :: ExportOptions where
  "example_options = \<lparr>threads = 1, compression = BC, texcomp_quality = 3,
     environment = \<lparr>cube = [], reflection = [], irradiance = [], intensity = 1,
       fog_color = (0, 0, 0), fog_falloff = 0, env_compression = BC,
       env_texcomp_quality = 3\<rparr>\<rparr>"

subsection \<open>Buffer views inside the blob\<close>

definition views_in_blob :: "RemapState \<Rightarrow> bool" where
  "views_in_blob s =
     (\<forall>v \<in> set (buffer_views s).
        bv_offset v mod 16 = 0 \<and> bv_offset v + bv_length v \<le> length (glb_buffer_data s))"

text \<open>A sequence of \<open>emit_buffer\<close> calls, each with its bytes and its stride.\<close>

fun emit_buffers :: "hasher \<Rightarrow> RemapState \<Rightarrow> (byte list \<times> nat) list \<Rightarrow> RemapState" where
  "emit_buffers H s [] = s"
| "emit_buffers H s ((view, stride) # calls) =
     emit_buffers H (snd (emit_buffer H s view stride)) calls"

subsection \<open>The texels the metallic-roughness scan covers\<close>

text \<open>
  The number of texels of level 0, as the product of the two extents in the integers, and
  the texels the storage holds for them.
\<close>

definition texel_count :: "gli_texture \<Rightarrow> int" where
  "texel_count t = sint (fst (gt_extent t)) * sint (snd (gt_extent t))"

definition level0_texels :: "gli_texture \<Rightarrow> u8vec4 list" where
  "level0_texels t = take (nat (texel_count t)) (gt_texels t)"

definition example_texture :: gli_texture where
  "example_texture = \<lparr>gt_empty = False, gt_format = FORMAT_RGBA8_UNORM_PACK8, gt_layers = 1,
     gt_faces = 1, gt_levels = 1, gt_extent = (2, 2),
     gt_texels = [(0, 10, 255, 255), (0, 200, 255, 255), (0, 0, 255, 255), (0, 255, 255, 255)]\<rparr>"

definition example_analysis :: AnalysisResult where
  "example_analysis = \<lparr>ar_src_path = ''mr.png'', ar_image = example_texture,
     ar_compression = TextureCompression_Uncompressed, ar_mode = RGB,
     ar_type = MetallicRoughness, ar_swizzle = rgba_mapping\<rparr>"

subsection \<open>Collaborators and an analysed image for the worked inputs\<close>

definition example_stat :: "string \<Rightarrow> FileStat option" where
  "example_stat p =
     (if p = ''mr.png'' then Some \<lparr>fs_size = 16, last_modified = 100\<rparr>
      else if p = ''out/7.ktx'' then Some \<lparr>fs_size = 64, last_modified = 100\<rparr>
      else if p = ''out/8.ktx'' then Some \<lparr>fs_size = 64, last_modified = 101\<rparr>
      else None)"

definition example_collaborators :: collaborators where
  "example_collaborators = \<lparr>hasher_get = example_hasher,
     load_texture_from_file = (\<lambda>p cs. example_texture),
     fs_stat = example_stat,
     fs_open = (\<lambda>p. True),
     fs_map_write = (\<lambda>p n. True),
     path_relpath = (\<lambda>base rel. ''out/'' @ rel),
     json_write = (\<lambda>doc. bytes_of_string ''{}''),
     hardware_concurrency = 4,
     zero_compression = BC1\<rparr>"

definition example_workers :: ThreadGroup where
  "example_workers = \<lparr>tg_threads = 1, tg_tasks = [], tg_dependencies = []\<rparr>"

subsection \<open>Image jobs and their keys\<close>

text \<open>The fingerprint \<open>emit_image\<close> computes for a request.\<close>

definition image_key ::
  "hasher \<Rightarrow> string \<Rightarrow> Textures \<Rightarrow> TextureCompressionFamily \<Rightarrow> nat \<Rightarrow> TextureMode \<Rightarrow> Hash" where
  "image_key H p type compr quality mode =
     H [H_string p, H_textures type, H_family compr, H_u32 quality, H_mode mode]"

definition example_image_texture :: Texture where
  "example_image_texture = \<lparr>path = ''mr.png'', swizzle = rgba_mapping\<rparr>"

subsection \<open>Reading the GLB container\<close>

text \<open>
  The round-up to a multiple of 4 of the container layout, written arithmetically, and
  the value of a little-endian 32-bit field.
\<close>

definition align4 :: "nat \<Rightarrow> nat" where
  "align4 n = (n + 3) div 4 * 4"

definition read_u32 :: "byte list \<Rightarrow> nat" where
  "read_u32 bs = unat (bs ! 0) + 256 * unat (bs ! 1) + 65536 * unat (bs ! 2)
                 + 16777216 * unat (bs ! 3)"

text \<open>
  An empty scene, and a scene whose one mesh carries 4 GiB of positions, both exported
  with the collaborators of the worked inputs.
\<close>

definition empty_scene :: SceneInformation where
  "empty_scene = \<lparr>materials = [], scene_meshes = [], nodes = [], cameras = [], lights = []\<rparr>"

definition empty_export :: "export_failure + export_result" where
  "empty_export = export_scene_to_glb example_collaborators empty_scene ''out.glb'' example_options"

definition big_mesh :: Mesh where
  "big_mesh = \<lparr>topology = VK_PRIMITIVE_TOPOLOGY_TRIANGLE_LIST,
     index_type = VK_INDEX_TYPE_UINT16, position_stride = 12, attribute_stride = 0,
     attribute_layout = (\<lambda>a. if a = Position
        then \<lparr>format = VK_FORMAT_R32G32B32_SFLOAT, offset = 0\<rparr>
        else \<lparr>format = VK_FORMAT_UNDEFINED, offset = 0\<rparr>),
     positions = replicate 4294967296 0, attributes = [], indices = [], count = 0,
     static_aabb = \<lparr>minimum = (0, 0, 0), maximum = (0, 0, 0)\<rparr>,
     has_material = False, material_index = 0\<rparr>"

definition identity_transform :: Transform where
  "identity_transform = \<lparr>rotation = (0, 0, 0, 1), scale = (1, 1, 1), translation = (0, 0, 0)\<rparr>"

definition big_scene :: SceneInformation where
  "big_scene = \<lparr>materials = [], scene_meshes = [big_mesh],
     nodes = [\<lparr>children = [], meshes = [0], transform = identity_transform\<rparr>],
     cameras = [], lights = []\<rparr>"

definition big_export :: "export_failure + export_result" where
  "big_export = export_scene_to_glb example_collaborators big_scene ''out.glb'' example_options"

subsection \<open>How the caches grow, and the environment\<close>

text \<open>
  What every emit function keeps: the options and both remap tables, the environment
  cache, the entries of the append-only caches, the keys of the hash tables and the
  members of the sets.
\<close>

definition grows :: "RemapState \<Rightarrow> RemapState \<Rightarrow> bool" where
  "grows s s' =
     (options s' = options s \<and> mesh s' = mesh s \<and> material s' = material s \<and>
      environment_cache s' = environment_cache s \<and>
      prefix (buffer_views s) (buffer_views s') \<and>
      prefix (image_cache s) (image_cache s') \<and>
      prefix (sampler_cache s) (sampler_cache s') \<and>
      prefix (texture_cache s) (texture_cache s') \<and>
      length (accessor_cache s) \<le> length (accessor_cache s') \<and>
      length (material_cache s) \<le> length (material_cache s') \<and>
      length (mesh_cache s) \<le> length (mesh_cache s') \<and>
      buffer_hash s \<subseteq>\<^sub>m buffer_hash s' \<and>
      accessor_hash s \<subseteq>\<^sub>m accessor_hash s' \<and>
      image_hash s \<subseteq>\<^sub>m image_hash s' \<and>
      sampler_hash s \<subseteq>\<^sub>m sampler_hash s' \<and>
      texture_hash s \<subseteq>\<^sub>m texture_hash s' \<and>
      material_hash s \<subseteq> material_hash s' \<and>
      mesh_hash s \<subseteq> mesh_hash s')"

text \<open>
  The state after the two filter passes, and the state after the environment step of
  \<open>export_scene_to_glb\<close>.
\<close>

definition filtered_state :: "ExportOptions \<Rightarrow> MaterialInfo Remap \<Rightarrow> Mesh Remap \<Rightarrow> RemapState" where
  "filtered_state opts mats ms = (initial_state opts)\<lparr>material := mats, mesh := ms\<rparr>"

definition environment_state :: "hasher \<Rightarrow> ExportOptions \<Rightarrow> RemapState \<Rightarrow> RemapState" where
  "environment_state H opts s =
     (let env = environment opts
      in if cube env \<noteq> [] then
           emit_environment H s (cube env) (reflection env) (irradiance env) (intensity env)
             (fog_color env) (fog_falloff env) (env_compression env) (env_texcomp_quality env)
         else s)"

text \<open>
  A state in which every image is an HDR image and every sampler is \<open>LinearClamp\<close>,
  with all indices in range; and a texture index that names an HDR image with the
  \<open>LinearClamp\<close> sampler.
\<close>

definition hdr_clamp_only :: "RemapState \<Rightarrow> bool" where
  "hdr_clamp_only s =
     ((\<forall>img \<in> set (image_cache s). img_mode img = HDR) \<and>
      (\<forall>smp \<in> set (sampler_cache s). smp = sampler_codes LinearClamp) \<and>
      (\<forall>t \<in> set (texture_cache s).
         tex_image t < length (image_cache s) \<and> tex_sampler t < length (sampler_cache s)) \<and>
      (\<forall>h i. image_hash s h = Some i \<longrightarrow> i < length (image_cache s)) \<and>
      (\<forall>h i. sampler_hash s h = Some i \<longrightarrow> i < length (sampler_cache s)) \<and>
      (\<forall>h i. texture_hash s h = Some i \<longrightarrow> i < length (texture_cache s)))"

definition hdr_clamp_texture :: "RemapState \<Rightarrow> int \<Rightarrow> bool" where
  "hdr_clamp_texture s t =
     (0 \<le> t \<and> nat t < length (texture_cache s) \<and>
      (let tx = texture_cache s ! nat t
       in tex_image tx < length (image_cache s) \<and>
          img_mode (image_cache s ! tex_image tx) = HDR \<and>
          tex_sampler tx < length (sampler_cache s) \<and>
          sampler_cache s ! tex_sampler tx = sampler_codes LinearClamp))"

text \<open>
  One of the three texture slots of \<open>emit_environment\<close>.
\<close>

definition environment_slot ::
  "hasher \<Rightarrow> RemapState \<Rightarrow> string \<Rightarrow> TextureCompressionFamily \<Rightarrow> nat \<Rightarrow> int \<times> RemapState" where
  "environment_slot H s p compr quality =
     (if p \<noteq> [] then
        (case emit_texture H s \<lparr>path = p, swizzle = rgba_mapping\<rparr> LinearClamp Emissive
                compr quality HDR of (t, s') \<Rightarrow> (int t, s'))
      else (- 1, s))"

text \<open>
  Options with a cube and an irradiance path and no reflection path.
\<close>

definition environment_example_options :: ExportOptions where
  "environment_example_options = \<lparr>threads = 1, compression = BC, texcomp_quality = 3,
     environment = \<lparr>cube = ''sky.ktx'', reflection = [], irradiance = ''irradiance.ktx'',
       intensity = 2, fog_color = (0, 0, 0), fog_falloff = 1, env_compression = BC,
       env_texcomp_quality = 3\<rparr>\<rparr>"

definition environment_example_export :: "export_failure + export_result" where
  "environment_example_export =
     export_scene_to_glb example_collaborators empty_scene ''out.glb''
       environment_example_options"

subsection \<open>Validation errors\<close>

text \<open>
  The fingerprint \<open>emit_accessor\<close> computes, and the swizzle constants outside the
  range R, G, B, A.
\<close>

definition accessor_key :: "hasher \<Rightarrow> nat \<Rightarrow> VkFormat \<Rightarrow> nat \<Rightarrow> nat \<Rightarrow> nat \<Rightarrow> Hash" where
  "accessor_key H view_index fmt off stride cnt =
     H [H_u32 view_index, H_format fmt, H_u32 off, H_u32 stride, H_u32 cnt]"

definition outside_rgba :: "VkComponentSwizzle \<Rightarrow> bool" where
  "outside_rgba c =
     (c = VK_COMPONENT_SWIZZLE_IDENTITY \<or> c = VK_COMPONENT_SWIZZLE_ZERO \<or>
      c = VK_COMPONENT_SWIZZLE_ONE)"

text \<open>
  A mesh whose position attribute has a format outside the accessor table, in a scene
  whose node walks it and in a scene whose node does not; and a scene whose material
  asks for a base colour swizzle with the constant ONE.
\<close>

definition bad_format_mesh :: Mesh where
  "bad_format_mesh = \<lparr>topology = VK_PRIMITIVE_TOPOLOGY_TRIANGLE_LIST,
     index_type = VK_INDEX_TYPE_UINT16, position_stride = 24, attribute_stride = 0,
     attribute_layout = (\<lambda>a. if a = Position
        then \<lparr>format = VK_FORMAT_R64_SFLOAT, offset = 0\<rparr>
        else \<lparr>format = VK_FORMAT_UNDEFINED, offset = 0\<rparr>),
     positions = replicate 72 0, attributes = [], indices = [], count = 0,
     static_aabb = \<lparr>minimum = (0, 0, 0), maximum = (1, 1, 1)\<rparr>,
     has_material = False, material_index = 0\<rparr>"

definition bad_format_scene :: SceneInformation where
  "bad_format_scene = \<lparr>materials = [], scene_meshes = [bad_format_mesh],
     nodes = [\<lparr>children = [], meshes = [0], transform = identity_transform\<rparr>],
     cameras = [], lights = []\<rparr>"

definition unwalked_bad_format_scene :: SceneInformation where
  "unwalked_bad_format_scene = \<lparr>materials = [], scene_meshes = [bad_format_mesh],
     nodes = [\<lparr>children = [], meshes = [], transform = identity_transform\<rparr>],
     cameras = [], lights = []\<rparr>"

definition swizzled_material :: MaterialInfo where
  "swizzled_material = \<lparr>
     base_color = \<lparr>path = ''albedo.png'',
       swizzle = mapping_of VK_COMPONENT_SWIZZLE_R VK_COMPONENT_SWIZZLE_G
                   VK_COMPONENT_SWIZZLE_B VK_COMPONENT_SWIZZLE_ONE\<rparr>,
     normal = \<lparr>path = [], swizzle = rgba_mapping\<rparr>,
     metallic_roughness = \<lparr>path = [], swizzle = rgba_mapping\<rparr>,
     occlusion = \<lparr>path = [], swizzle = rgba_mapping\<rparr>,
     emissive = \<lparr>path = [], swizzle = rgba_mapping\<rparr>,
     sampler = TrilinearWrap,
     uniform_base_color = (1, 1, 1, 1), uniform_emissive_color = (0, 0, 0),
     uniform_metallic = 1, uniform_roughness = 1, lod_bias = 0, normal_scale = 1,
     pipeline = Opaque, two_sided = False\<rparr>"

definition triangle_mesh :: Mesh where
  "triangle_mesh = \<lparr>topology = VK_PRIMITIVE_TOPOLOGY_TRIANGLE_LIST,
     index_type = VK_INDEX_TYPE_UINT16, position_stride = 12, attribute_stride = 0,
     attribute_layout = (\<lambda>a. if a = Position
        then \<lparr>format = VK_FORMAT_R32G32B32_SFLOAT, offset = 0\<rparr>
        else \<lparr>format = VK_FORMAT_UNDEFINED, offset = 0\<rparr>),
     positions = replicate 36 0, attributes = [], indices = [], count = 3,
     static_aabb = \<lparr>minimum = (0, 0, 0), maximum = (1, 1, 1)\<rparr>,
     has_material = True, material_index = 0\<rparr>"

definition swizzled_scene :: SceneInformation where
  "swizzled_scene = \<lparr>materials = [swizzled_material], scene_meshes = [triangle_mesh],
     nodes = [\<lparr>children = [], meshes = [0], transform = identity_transform\<rparr>],
     cameras = [], lights = []\<rparr>"

subsection \<open>Accessors and the boxes they carry\<close>










subsection \<open>The materials array\<close>

text \<open>
  Between two states: the material cache, the set of emitted materials and the set of
  emitted meshes are the same; and the weaker relation in which entry \<open>rm\<close> of the
  material cache may differ.
\<close>

definition materials_kept :: "RemapState \<Rightarrow> RemapState \<Rightarrow> bool" where
  "materials_kept s s' =
     (material_cache s' = material_cache s \<and> material_hash s' = material_hash s \<and>
      mesh_hash s' = mesh_hash s)"

definition material_entry_only :: "nat \<Rightarrow> RemapState \<Rightarrow> RemapState \<Rightarrow> bool" where
  "material_entry_only rm s s' =
     (length (material_cache s') = length (material_cache s) \<and>
      (\<forall>j. j \<noteq> rm \<longrightarrow> material_cache s' ! j = material_cache s ! j) \<and>
      material_hash s' = material_hash s \<and> mesh_hash s' = mesh_hash s)"

text \<open>
  \<open>M\<close> for a set of canonical material indices: 0 for the empty set, else one more than
  the largest.
\<close>

definition material_count :: "nat set \<Rightarrow> nat" where
  "material_count R = (if R = {} then 0 else Max R + 1)"

text \<open>
  The canonical material a canonical mesh references (none if the mesh has no material),
  the canonical materials a set of canonical meshes references, and the canonical meshes
  the nodes list.
\<close>

definition mesh_materials :: "RemapState \<Rightarrow> nat \<Rightarrow> nat set" where
  "mesh_materials s c =
     (if has_material (info (mesh s) ! c)
      then {to_index (material s) ! material_index (info (mesh s) ! c)} else {})"

definition referenced_materials :: "RemapState \<Rightarrow> nat set \<Rightarrow> nat set" where
  "referenced_materials s W = (\<Union>c\<in>W. mesh_materials s c)"

definition walked_meshes :: "RemapState \<Rightarrow> NodeInfo list \<Rightarrow> nat set" where
  "walked_meshes s ns = (\<Union>node\<in>set ns. (\<lambda>i. to_index (mesh s) ! i) ` set (meshes node))"

text \<open>
  The material cache is as long as the emitted materials require, and an entry whose
  index was not emitted is the default entry; during the walk the emitted materials are
  those the emitted meshes reference.
\<close>

definition materials_inv :: "RemapState \<Rightarrow> bool" where
  "materials_inv s =
     (finite (material_hash s) \<and>
      length (material_cache s) = material_count (material_hash s) \<and>
      (\<forall>i < length (material_cache s).
         i \<notin> material_hash s \<longrightarrow> material_cache s ! i = default_EmittedMaterial))"

definition walk_inv :: "RemapState \<Rightarrow> bool" where
  "walk_inv s =
     (materials_inv s \<and> material_hash s = referenced_materials s (mesh_hash s))"

text \<open>
  A scene with two different materials, of which the only mesh references the second.
\<close>

definition unused_material :: MaterialInfo where
  "unused_material = \<lparr>
     base_color = \<lparr>path = [], swizzle = rgba_mapping\<rparr>,
     normal = \<lparr>path = [], swizzle = rgba_mapping\<rparr>,
     metallic_roughness = \<lparr>path = [], swizzle = rgba_mapping\<rparr>,
     occlusion = \<lparr>path = [], swizzle = rgba_mapping\<rparr>,
     emissive = \<lparr>path = [], swizzle = rgba_mapping\<rparr>,
     sampler = TrilinearWrap,
     uniform_base_color = (1, 0, 0, 1), uniform_emissive_color = (0, 0, 0),
     uniform_metallic = 1, uniform_roughness = 1, lod_bias = 0, normal_scale = 1,
     pipeline = AlphaBlend, two_sided = True\<rparr>"

definition used_material :: MaterialInfo where
  "used_material = \<lparr>
     base_color = \<lparr>path = [], swizzle = rgba_mapping\<rparr>,
     normal = \<lparr>path = [], swizzle = rgba_mapping\<rparr>,
     metallic_roughness = \<lparr>path = [], swizzle = rgba_mapping\<rparr>,
     occlusion = \<lparr>path = [], swizzle = rgba_mapping\<rparr>,
     emissive = \<lparr>path = [], swizzle = rgba_mapping\<rparr>,
     sampler = TrilinearWrap,
     uniform_base_color = (1, 1, 1, 1), uniform_emissive_color = (0, 0, 0),
     uniform_metallic = 0, uniform_roughness = 1, lod_bias = 0, normal_scale = 1,
     pipeline = Opaque, two_sided = False\<rparr>"

definition unused_material_scene :: SceneInformation where
  "unused_material_scene = \<lparr>materials = [unused_material, used_material],
     scene_meshes = [triangle_mesh\<lparr>material_index := 1\<rparr>],
     nodes = [\<lparr>children = [], meshes = [0], transform = identity_transform\<rparr>],
     cameras = [], lights = []\<rparr>"

subsection \<open>Sequences of image requests\<close>

text \<open>
  A call of \<open>emit_image\<close> as a value: the texture, the role, the compression family, the
  quality and the mode. \<open>request_key\<close> is the fingerprint the call computes,
  \<open>request_fields\<close> the values the fingerprint is computed from, and \<open>request_job\<close> the
  job the call appends when the fingerprint is not in the image table.
\<close>

type_synonym image_request = "Texture \<times> Textures \<times> TextureCompressionFamily \<times> nat \<times> TextureMode"

fun emit_image_request :: "hasher \<Rightarrow> RemapState \<Rightarrow> image_request \<Rightarrow> nat \<times> RemapState" where
  "emit_image_request H s (t, type, compr, quality, mode) = emit_image H s t type compr quality mode"

fun request_key :: "hasher \<Rightarrow> image_request \<Rightarrow> Hash" where
  "request_key H (t, type, compr, quality, mode) = image_key H (path t) type compr quality mode"

fun request_fields ::
  "image_request \<Rightarrow> string \<times> Textures \<times> TextureCompressionFamily \<times> nat \<times> TextureMode" where
  "request_fields (t, type, compr, quality, mode) = (path t, type, compr, quality, mode)"

fun request_job :: "hasher \<Rightarrow> image_request \<Rightarrow> EmittedImage" where
  "request_job H (t, type, compr, quality, mode) =
     \<lparr>img_source_path = path t,
      img_target_relpath = to_string (image_key H (path t) type compr quality mode) @ ''.ktx'',
      img_target_mime = ''image/ktx'',
      img_compression = compr, img_compression_quality = quality,
      img_mode = mode, img_type = type, img_swizzle = swizzle t\<rparr>"

text \<open>
  A sequence of \<open>emit_image\<close> calls, in order: the indices they return and the state
  they leave.
\<close>

fun emit_images :: "hasher \<Rightarrow> RemapState \<Rightarrow> image_request list \<Rightarrow> nat list \<times> RemapState" where
  "emit_images H s [] = ([], s)"
| "emit_images H s (r # rs) =
     (case emit_image_request H s r of (i, s1) \<Rightarrow>
      case emit_images H s1 rs of (idx, s2) \<Rightarrow> (i # idx, s2))"

text \<open>
  The image cache holds one job for each key of the list, in order: the table sends the
  key at position \<open>i\<close> to \<open>i\<close> and knows no other key, and job \<open>i\<close> carries the file
  name and the MIME type made from that key.
\<close>

definition image_jobs_of :: "RemapState \<Rightarrow> Hash list \<Rightarrow> bool" where
  "image_jobs_of s keys =
     (distinct keys \<and> length keys = length (image_cache s) \<and>
      (\<forall>i < length keys.
         image_hash s (keys ! i) = Some i \<and>
         img_target_relpath (image_cache s ! i) = to_string (keys ! i) @ ''.ktx'' \<and>
         img_target_mime (image_cache s ! i) = ''image/ktx'') \<and>
      (\<forall>h. h \<notin> set keys \<longrightarrow> image_hash s h = None))"

text \<open>
  Three requests: a metallic-roughness map, a base colour map, and the first map again
  with another swizzle.
\<close>

definition example_image_requests :: "image_request list" where
  "example_image_requests =
     [(example_image_texture, MetallicRoughness, BC, 3, RGB),
      (\<lparr>path = ''albedo.png'', swizzle = rgba_mapping\<rparr>, BaseColor, BC, 3, sRGB),
      (example_image_texture\<lparr>swizzle := mapping_of VK_COMPONENT_SWIZZLE_G
         VK_COMPONENT_SWIZZLE_G VK_COMPONENT_SWIZZLE_G VK_COMPONENT_SWIZZLE_G\<rparr>,
       MetallicRoughness, BC, 3, RGB)]"

subsection \<open>The walk up to a mesh attribute, and an image as it is loaded\<close>

text \<open>
  The state in which the loop over the nodes starts: both filter passes and the
  environment step of \<open>export_scene_to_glb\<close>.
\<close>

definition walk_start :: "hasher \<Rightarrow> SceneInformation \<Rightarrow> ExportOptions \<Rightarrow> RemapState result" where
  "walk_start H scene opts =
     bind_result (filter_input (hash_MaterialInfo H) empty_Remap (materials scene)) (\<lambda>mats.
     bind_result (filter_input (hash_Mesh H (to_index mats)) empty_Remap (scene_meshes scene))
       (\<lambda>ms. Inr (environment_state H opts (filtered_state opts mats ms))))"

text \<open>
  The statements of \<open>emit_mesh\<close> before its attribute loop: the result is the two vertex
  buffers and the state in which the loop starts.
\<close>

definition emit_mesh_prologue ::
  "hasher \<Rightarrow> RemapState \<Rightarrow> nat \<Rightarrow> (nat \<times> nat \<times> RemapState) result" where
  "emit_mesh_prologue H s remapped_index =
     (if \<not> remapped_index < length (info (mesh s)) then Inl UndefinedBehaviour
      else
        let m = info (mesh s) ! remapped_index;
            s0 = s\<lparr>mesh_cache := resize (mesh_cache s)
                     (max (length (mesh_cache s)) (remapped_index + 1)) default_EmittedMesh\<rparr>;
            s1 = upd_mesh s0 remapped_index (\<lambda>emit. emit\<lparr>em_material :=
                   (if has_material m then int (material_index m) else - 1)\<rparr>)
        in
        bind_result (emit_mesh_indices H m remapped_index s1) (\<lambda>s2.
        bind_result (emit_mesh_material H m s2) (\<lambda>s3.
          case emit_mesh_buffers H m s3 of (position_buffer, attribute_buffer, s5) \<Rightarrow>
            Inr (position_buffer, attribute_buffer,
                 upd_mesh s5 remapped_index (\<lambda>emit. emit\<lparr>em_attribute_mask := 0\<rparr>)))))"

text \<open>
  The fingerprint of the accessor the attribute loop asks for, for an attribute of a mesh
  whose positions are in view \<open>pb\<close> and whose other attributes are in view \<open>ab\<close>.
\<close>

definition attribute_accessor_key :: "hasher \<Rightarrow> Mesh \<Rightarrow> nat \<Rightarrow> nat \<Rightarrow> MeshAttribute \<Rightarrow> Hash" where
  "attribute_accessor_key H m pb ab a =
     (if a = Position
      then accessor_key H pb (format (attribute_layout m a)) (offset (attribute_layout m a))
             (position_stride m) (length (positions m) div position_stride m)
      else accessor_key H ab (format (attribute_layout m a)) (offset (attribute_layout m a))
             (attribute_stride m) (length (attributes m) div attribute_stride m))"

text \<open>
  The texture \<open>load_image\<close> gets from the loader for a path and a mode, and a swizzle
  with a component outside R, G, B, A.
\<close>

definition loaded_texture :: "collaborators \<Rightarrow> string \<Rightarrow> TextureMode \<Rightarrow> gli_texture" where
  "loaded_texture ext src mode =
     load_texture_from_file ext src
       (if mode = sRGBA \<or> mode = sRGB then ColorSpace_sRGB else ColorSpace_Linear)"

definition swizzle_outside_rgba :: "VkComponentMapping \<Rightarrow> bool" where
  "swizzle_outside_rgba sw =
     (outside_rgba (swz_r sw) \<or> outside_rgba (swz_g sw) \<or> outside_rgba (swz_b sw) \<or>
      outside_rgba (swz_a sw))"

text \<open>
  A mesh whose position format is in the accessor table and whose normal format is not,
  a mesh with positions only, and a scene whose first node walks the mesh with positions
  only and whose second node walks both.
\<close>

definition bad_normal_mesh :: Mesh where
  "bad_normal_mesh = \<lparr>topology = VK_PRIMITIVE_TOPOLOGY_TRIANGLE_LIST,
     index_type = VK_INDEX_TYPE_UINT16, position_stride = 12, attribute_stride = 8,
     attribute_layout = (\<lambda>a. if a = Position
        then \<lparr>format = VK_FORMAT_R32G32B32_SFLOAT, offset = 0\<rparr>
        else if a = Normal then \<lparr>format = VK_FORMAT_R64_SFLOAT, offset = 0\<rparr>
        else \<lparr>format = VK_FORMAT_UNDEFINED, offset = 0\<rparr>),
     positions = replicate 36 0, attributes = replicate 24 0, indices = [], count = 3,
     static_aabb = \<lparr>minimum = (0, 0, 0), maximum = (1, 1, 1)\<rparr>,
     has_material = False, material_index = 0\<rparr>"

definition plain_mesh :: Mesh where
  "plain_mesh = triangle_mesh\<lparr>has_material := False\<rparr>"

definition bad_normal_scene :: SceneInformation where
  "bad_normal_scene = \<lparr>materials = [], scene_meshes = [plain_mesh, bad_normal_mesh],
     nodes = [\<lparr>children = [], meshes = [0], transform = identity_transform\<rparr>,
              \<lparr>children = [], meshes = [0, 1], transform = identity_transform\<rparr>],
     cameras = [], lights = []\<rparr>"

section \<open>Properties\<close>

lemmas gl_codes =
  GL_BYTE_def GL_UNSIGNED_BYTE_def GL_SHORT_def GL_UNSIGNED_SHORT_def GL_INT_def
  GL_UNSIGNED_INT_def GL_FLOAT_def GL_REPEAT_def GL_CLAMP_TO_EDGE_def GL_NEAREST_def
  GL_LINEAR_def GL_NEAREST_MIPMAP_NEAREST_def GL_LINEAR_MIPMAP_NEAREST_def
  GL_NEAREST_MIPMAP_LINEAR_def GL_LINEAR_MIPMAP_LINEAR_def

subsection \<open>Alignment\<close>

lemma and_not_mask_int: "(k::int) AND NOT (mask n) = k - k mod 2 ^ n"
proof -
  have "k AND NOT (mask n) = push_bit n (drop_bit n k)"
    by (rule bit_eqI) (auto simp add: bit_simps)
  also have "\<dots> = k - k mod 2 ^ n"
    by (simp add: push_bit_eq_mult drop_bit_eq_div minus_mod_eq_div_mult)
  finally show ?thesis .
qed

lemma align16_eq: "align16 n = (n + 15) div 16 * 16"
proof -
  have "(int n + 15) AND NOT 15 = (int n + 15) - (int n + 15) mod 16"
    using and_not_mask_int [of "int n + 15" 4] by (simp add: mask_eq_exp_minus_1)
  then show ?thesis
    unfolding align16_def
    by (simp add: minus_mod_eq_div_mult nat_mult_distrib nat_div_distrib nat_add_distrib)
qed

lemma align16_ge: "n \<le> align16 n"
  unfolding align16_eq by presburger

lemma align16_mod: "align16 n mod 16 = 0"
  unfolding align16_eq by simp

subsection \<open>The accessor component type of the 8-bit signed formats\<close>

text \<open>
  Claim C3. For every 8-bit SNORM or SINT format the accessor component type should be
  \<open>BYTE\<close> (0x1400). The code returns \<open>UNSIGNED_BYTE\<close> (0x1401) for all eight of them:
  the \<open>return GL_BYTE\<close> of their case group stands behind a \<open>return GL_UNSIGNED_BYTE\<close>.
\<close>

theorem get_accessor_component_signed8_unsigned_byte:
  "get_accessor_component VK_FORMAT_R8_SNORM = Inr 0x1401 \<and>
   get_accessor_component VK_FORMAT_R8G8_SNORM = Inr 0x1401 \<and>
   get_accessor_component VK_FORMAT_R8G8B8_SNORM = Inr 0x1401 \<and>
   get_accessor_component VK_FORMAT_R8G8B8A8_SNORM = Inr 0x1401 \<and>
   get_accessor_component VK_FORMAT_R8_SINT = Inr 0x1401 \<and>
   get_accessor_component VK_FORMAT_R8G8_SINT = Inr 0x1401 \<and>
   get_accessor_component VK_FORMAT_R8G8B8_SINT = Inr 0x1401 \<and>
   get_accessor_component VK_FORMAT_R8G8B8A8_SINT = Inr 0x1401 \<and>
   GL_BYTE = 0x1400 \<and> GL_UNSIGNED_BYTE = 0x1401"
  by (simp add: GL_BYTE_def GL_UNSIGNED_BYTE_def)

subsection \<open>Buffer views lie in the blob, 16-byte aligned\<close>

lemma emit_buffer_blob:
  "buffer_hash s (H [H_data view, H_u32 stride]) = None \<Longrightarrow>
   glb_buffer_data (snd (emit_buffer H s view stride))
     = glb_buffer_data s
       @ replicate (align16 (length (glb_buffer_data s)) - length (glb_buffer_data s)) 0 @ view"
  using align16_ge [of "length (glb_buffer_data s)"]
  by (simp add: emit_buffer_def Let_def resize_def memcpy_at_def)

lemma emit_buffer_views_in_blob:
  assumes "views_in_blob s"
  shows "views_in_blob (snd (emit_buffer H s view stride))"
proof (cases "buffer_hash s (H [H_data view, H_u32 stride])")
  case (Some found)
  then show ?thesis using assms by (simp add: emit_buffer_def Let_def)
next
  case None
  let ?off = "align16 (length (glb_buffer_data s))"
  have blob: "length (glb_buffer_data (snd (emit_buffer H s view stride))) = ?off + length view"
    using emit_buffer_blob [of s H view stride, OF None] align16_ge [of "length (glb_buffer_data s)"] by simp
  have views: "buffer_views (snd (emit_buffer H s view stride))
       = buffer_views s @ [\<lparr>bv_offset = ?off, bv_length = length view, bv_stride = stride\<rparr>]"
    using None by (simp add: emit_buffer_def Let_def)
  show ?thesis
    unfolding views_in_blob_def blob views
    using assms align16_ge [of "length (glb_buffer_data s)"] align16_mod
    by (auto simp add: views_in_blob_def)
qed

lemma emit_buffers_views_in_blob:
  "views_in_blob s \<Longrightarrow> views_in_blob (emit_buffers H s calls)"
proof (induction calls arbitrary: s)
  case Nil
  then show ?case by simp
next
  case (Cons c calls)
  obtain view stride where c: "c = (view, stride)" by (cases c)
  show ?case
    unfolding c emit_buffers.simps
    by (rule Cons.IH) (rule emit_buffer_views_in_blob [OF Cons.prems])
qed

text \<open>
  Claim C2. After any sequence of \<open>emit_buffer\<close> calls on the empty state, every recorded
  buffer view starts at a multiple of 16 and ends inside the blob.
\<close>

theorem emit_buffer_views_aligned_in_blob:
  "views_in_blob (emit_buffers H (initial_state opts) calls)"
  by (rule emit_buffers_views_in_blob) (simp add: views_in_blob_def initial_state_def)

theorem emit_buffer_views_aligned_in_blob_witness:
  "buffer_views (emit_buffers example_hasher (initial_state example_options)
                   [([1, 2, 3], 1), ([4, 5, 6, 7, 8], 1), ([1, 2, 3], 1)])
     = [\<lparr>bv_offset = 0, bv_length = 3, bv_stride = 1\<rparr>,
        \<lparr>bv_offset = 16, bv_length = 5, bv_stride = 1\<rparr>] \<and>
   length (glb_buffer_data (emit_buffers example_hasher (initial_state example_options)
                   [([1, 2, 3], 1), ([4, 5, 6, 7, 8], 1), ([1, 2, 3], 1)])) = 21 \<and>
   views_in_blob (emit_buffers example_hasher (initial_state example_options)
                   [([1, 2, 3], 1), ([4, 5, 6, 7, 8], 1), ([1, 2, 3], 1)])"
  using emit_buffer_views_aligned_in_blob [of example_hasher example_options
          "[([1, 2, 3], 1), ([4, 5, 6, 7, 8], 1), ([1, 2, 3], 1)]"]
  by (simp add: emit_buffer_def Let_def initial_state_def example_hasher_def align16_eq
        resize_def memcpy_at_def)

subsection \<open>The metallic-roughness planner\<close>

lemma mr_scan_foldl:
  "0 \<le> i \<Longrightarrow> cnt \<le> int (length src) \<Longrightarrow>
   mr_scan src cnt i f = Inr (foldl mr_step f (drop (nat i) (take (nat cnt) src)))"
proof (induction src cnt i f rule: mr_scan.induct)
  case (1 src cnt i f)
  show ?case
  proof (cases "i < cnt")
    case True
    with "1.prems" have inb: "nat i < length src" by linarith
    have step: "drop (nat i) (take (nat cnt) src)
                = src ! nat i # drop (nat (i + 1)) (take (nat cnt) src)"
    proof -
      have "nat i < length (take (nat cnt) src)" using True "1.prems" by simp
      then have "drop (nat i) (take (nat cnt) src)
                 = take (nat cnt) src ! nat i # drop (Suc (nat i)) (take (nat cnt) src)"
        by (rule Cons_nth_drop_Suc [symmetric])
      moreover have "take (nat cnt) src ! nat i = src ! nat i" using True "1.prems" by simp
      moreover have "Suc (nat i) = nat (i + 1)" using "1.prems" by simp
      ultimately show ?thesis by simp
    qed
    have "mr_scan src cnt i f = mr_scan src cnt (i + 1) (mr_step f (src ! nat i))"
      using True inb "1.prems" by (subst mr_scan.simps) simp
    also have "\<dots> = Inr (foldl mr_step (mr_step f (src ! nat i))
                              (drop (nat (i + 1)) (take (nat cnt) src)))"
      using "1.IH" [OF True] inb "1.prems" by simp
    finally show ?thesis by (simp add: step)
  next
    case False
    then have "drop (nat i) (take (nat cnt) src) = []" using "1.prems" by simp
    with False show ?thesis by (subst mr_scan.simps) simp
  qed
qed

lemma foldl_mr_step_flags:
  "foldl mr_step f px =
     \<lparr>metallic_zero_only = (metallic_zero_only f \<and> (\<forall>p \<in> set px. px_g p = 0)),
      metallic_one_only = (metallic_one_only f \<and> (\<forall>p \<in> set px. px_g p = 0xff)),
      roughness_zero_only = (roughness_zero_only f \<and> (\<forall>p \<in> set px. px_b p = 0)),
      roughness_one_only = (roughness_one_only f \<and> (\<forall>p \<in> set px. px_b p = 0xff))\<rparr>"
proof (induction px arbitrary: f)
  case Nil
  show ?case by simp
next
  case (Cons p px)
  show ?case
    unfolding foldl_Cons Cons.IH
    by (auto simp add: mr_step_def Let_def)
qed

text \<open>
  Claim C6. An image with more than one layer or more than one face is planned as
  \<open>Default\<close> without a scan. For any other image, a product of width and height outside
  the range of \<open>int\<close> is a signed overflow in \<open>int count = width * height\<close>, which is
  undefined behaviour. When the product is in the range of \<open>int\<close> and the texel storage
  holds the width times height texels of level 0, the loop is one left-to-right pass over
  exactly those texels, its four flags say whether G is 0 everywhere, G is 255 everywhere,
  B is 0 everywhere and B is 255 everywhere, and the mode is \<open>MetallicRough\<close> when G is
  not constant and B is 255, \<open>MetallicSmooth\<close> when G is not constant and B is 0,
  \<open>RoughnessMetal\<close> when B is not constant and G is 255, \<open>RoughnessDielectric\<close> when
  B is not constant and G is 0, and \<open>Default\<close> in every other case.
\<close>

theorem deduce_metallic_roughness_mode_spec:
  "(gt_layers (ar_image res) > 1 \<or> gt_faces (ar_image res) > 1
      \<longrightarrow> deduce_metallic_roughness_mode res = Inr Default) \<and>
   (\<not> (gt_layers (ar_image res) > 1 \<or> gt_faces (ar_image res) > 1) \<and>
    (texel_count (ar_image res) < - (2 ^ 31) \<or> 2 ^ 31 \<le> texel_count (ar_image res))
      \<longrightarrow> deduce_metallic_roughness_mode res = Inl UndefinedBehaviour) \<and>
   (\<not> (gt_layers (ar_image res) > 1 \<or> gt_faces (ar_image res) > 1) \<and>
    - (2 ^ 31) \<le> texel_count (ar_image res) \<and> texel_count (ar_image res) < 2 ^ 31 \<and>
    texel_count (ar_image res) \<le> int (length (gt_texels (ar_image res)))
      \<longrightarrow>
      (let px = level0_texels (ar_image res);
           g_all_0 = (\<forall>p \<in> set px. px_g p = 0);
           g_all_255 = (\<forall>p \<in> set px. px_g p = 255);
           b_all_0 = (\<forall>p \<in> set px. px_b p = 0);
           b_all_255 = (\<forall>p \<in> set px. px_b p = 255)
       in mr_scan (gt_texels (ar_image res)) (texel_count (ar_image res)) 0 mr_initial
            = Inr (foldl mr_step mr_initial px) \<and>
          foldl mr_step mr_initial px
            = \<lparr>metallic_zero_only = g_all_0, metallic_one_only = g_all_255,
               roughness_zero_only = b_all_0, roughness_one_only = b_all_255\<rparr> \<and>
          deduce_metallic_roughness_mode res = Inr
            (if \<not> g_all_0 \<and> \<not> g_all_255 \<and> b_all_255 then MetallicRough
             else if \<not> g_all_0 \<and> \<not> g_all_255 \<and> b_all_0 then MetallicSmooth
             else if \<not> b_all_0 \<and> \<not> b_all_255 \<and> g_all_255 then RoughnessMetal
             else if \<not> b_all_0 \<and> \<not> b_all_255 \<and> g_all_0 then RoughnessDielectric
             else Default)))"
proof (intro conjI impI)
  assume "gt_layers (ar_image res) > 1 \<or> gt_faces (ar_image res) > 1"
  then show "deduce_metallic_roughness_mode res = Inr Default"
    by (simp add: deduce_metallic_roughness_mode_def Let_def)
next
  assume "\<not> (gt_layers (ar_image res) > 1 \<or> gt_faces (ar_image res) > 1) \<and>
    (texel_count (ar_image res) < - (2 ^ 31) \<or> 2 ^ 31 \<le> texel_count (ar_image res))"
  then show "deduce_metallic_roughness_mode res = Inl UndefinedBehaviour"
    by (simp add: deduce_metallic_roughness_mode_def Let_def texel_count_def)
next
  let ?img = "ar_image res"
  let ?cnt = "texel_count ?img"
  let ?px = "level0_texels ?img"
  assume a: "\<not> (gt_layers ?img > 1 \<or> gt_faces ?img > 1) \<and>
    - (2 ^ 31) \<le> ?cnt \<and> ?cnt < 2 ^ 31 \<and> ?cnt \<le> int (length (gt_texels ?img))"
  have scan: "mr_scan (gt_texels ?img) ?cnt 0 mr_initial = Inr (foldl mr_step mr_initial ?px)"
    using a mr_scan_foldl [of 0 ?cnt "gt_texels ?img" mr_initial]
    by (simp add: level0_texels_def)
  have flags: "foldl mr_step mr_initial ?px
      = \<lparr>metallic_zero_only = (\<forall>p \<in> set ?px. px_g p = 0),
         metallic_one_only = (\<forall>p \<in> set ?px. px_g p = 255),
         roughness_zero_only = (\<forall>p \<in> set ?px. px_b p = 0),
         roughness_one_only = (\<forall>p \<in> set ?px. px_b p = 255)\<rparr>"
    by (simp add: foldl_mr_step_flags mr_initial_def)
  have range: "\<not> (?cnt < - (2 ^ 31) \<or> 2 ^ 31 \<le> ?cnt)" using a by simp
  have mode: "deduce_metallic_roughness_mode res = Inr (mr_decide (foldl mr_step mr_initial ?px))"
    using a range scan [unfolded texel_count_def] range [unfolded texel_count_def]
    by (simp add: deduce_metallic_roughness_mode_def Let_def bind_result_def)
  have excl_g: "(\<forall>p \<in> set ?px. px_g p = 0) \<Longrightarrow> (\<forall>p \<in> set ?px. px_g p = 255) \<Longrightarrow> ?px = []"
    by (cases ?px) auto
  have excl_b: "(\<forall>p \<in> set ?px. px_b p = 0) \<Longrightarrow> (\<forall>p \<in> set ?px. px_b p = 255) \<Longrightarrow> ?px = []"
    by (cases ?px) auto
  show "let px = ?px;
            g_all_0 = (\<forall>p \<in> set px. px_g p = 0);
            g_all_255 = (\<forall>p \<in> set px. px_g p = 255);
            b_all_0 = (\<forall>p \<in> set px. px_b p = 0);
            b_all_255 = (\<forall>p \<in> set px. px_b p = 255)
        in mr_scan (gt_texels ?img) ?cnt 0 mr_initial = Inr (foldl mr_step mr_initial px) \<and>
           foldl mr_step mr_initial px
             = \<lparr>metallic_zero_only = g_all_0, metallic_one_only = g_all_255,
                roughness_zero_only = b_all_0, roughness_one_only = b_all_255\<rparr> \<and>
           deduce_metallic_roughness_mode res = Inr
             (if \<not> g_all_0 \<and> \<not> g_all_255 \<and> b_all_255 then MetallicRough
              else if \<not> g_all_0 \<and> \<not> g_all_255 \<and> b_all_0 then MetallicSmooth
              else if \<not> b_all_0 \<and> \<not> b_all_255 \<and> g_all_255 then RoughnessMetal
              else if \<not> b_all_0 \<and> \<not> b_all_255 \<and> g_all_0 then RoughnessDielectric
              else Default)"
    unfolding Let_def
  proof (intro conjI)
    show "mr_scan (gt_texels ?img) ?cnt 0 mr_initial = Inr (foldl mr_step mr_initial ?px)"
      by (rule scan)
    show "foldl mr_step mr_initial ?px
      = \<lparr>metallic_zero_only = (\<forall>p \<in> set ?px. px_g p = 0),
         metallic_one_only = (\<forall>p \<in> set ?px. px_g p = 255),
         roughness_zero_only = (\<forall>p \<in> set ?px. px_b p = 0),
         roughness_one_only = (\<forall>p \<in> set ?px. px_b p = 255)\<rparr>"
      by (rule flags)
    show "deduce_metallic_roughness_mode res = Inr
             (if \<not> (\<forall>p \<in> set ?px. px_g p = 0) \<and> \<not> (\<forall>p \<in> set ?px. px_g p = 255) \<and>
                 (\<forall>p \<in> set ?px. px_b p = 255) then MetallicRough
              else if \<not> (\<forall>p \<in> set ?px. px_g p = 0) \<and> \<not> (\<forall>p \<in> set ?px. px_g p = 255) \<and>
                 (\<forall>p \<in> set ?px. px_b p = 0) then MetallicSmooth
              else if \<not> (\<forall>p \<in> set ?px. px_b p = 0) \<and> \<not> (\<forall>p \<in> set ?px. px_b p = 255) \<and>
                 (\<forall>p \<in> set ?px. px_g p = 255) then RoughnessMetal
              else if \<not> (\<forall>p \<in> set ?px. px_b p = 0) \<and> \<not> (\<forall>p \<in> set ?px. px_b p = 255) \<and>
                 (\<forall>p \<in> set ?px. px_g p = 0) then RoughnessDielectric
              else Default)"
      unfolding mode flags mr_decide_def
      using excl_g excl_b by (auto simp: Let_def)
  qed
qed

theorem deduce_metallic_roughness_mode_witness:
  "deduce_metallic_roughness_mode example_analysis = Inr MetallicRough \<and>
   deduce_metallic_roughness_mode
     (example_analysis\<lparr>ar_image := example_texture\<lparr>gt_faces := 6\<rparr>\<rparr>) = Inr Default \<and>
   deduce_metallic_roughness_mode
     (example_analysis\<lparr>ar_image := example_texture\<lparr>gt_extent := (65536, 65536)\<rparr>\<rparr>)
     = Inl UndefinedBehaviour"
proof -
  have px: "level0_texels example_texture
            = [(0, 10, 255, 255), (0, 200, 255, 255), (0, 0, 255, 255), (0, 255, 255, 255)]"
    by (simp add: level0_texels_def texel_count_def example_texture_def)
  have cnt: "texel_count example_texture = 4"
    by (simp add: texel_count_def example_texture_def)
  have a: "deduce_metallic_roughness_mode example_analysis = Inr MetallicRough"
    using deduce_metallic_roughness_mode_spec [of example_analysis]
    by (simp add: example_analysis_def px cnt Let_def px_g_def px_b_def)
       (simp add: example_texture_def)
  have b: "deduce_metallic_roughness_mode
     (example_analysis\<lparr>ar_image := example_texture\<lparr>gt_faces := 6\<rparr>\<rparr>) = Inr Default"
    using deduce_metallic_roughness_mode_spec
            [of "example_analysis\<lparr>ar_image := example_texture\<lparr>gt_faces := 6\<rparr>\<rparr>"]
    by simp
  have big: "texel_count (example_texture\<lparr>gt_extent := (65536, 65536)\<rparr>) = 4294967296"
    by (simp add: texel_count_def)
  have c: "deduce_metallic_roughness_mode
     (example_analysis\<lparr>ar_image := example_texture\<lparr>gt_extent := (65536, 65536)\<rparr>\<rparr>)
     = Inl UndefinedBehaviour"
    using deduce_metallic_roughness_mode_spec
            [of "example_analysis\<lparr>ar_image := example_texture\<lparr>gt_extent := (65536, 65536)\<rparr>\<rparr>"]
    by (simp add: big) (simp add: example_texture_def)
  show ?thesis using a b c by simp
qed

subsection \<open>Skipping the encode of an up-to-date target\<close>

text \<open>
  Claim C4, as the code has it. When both the source file and the target file can be
  stat'ed and the modification time of the target is strictly greater than that of the
  source, \<open>compress_image\<close> returns with the worker pool as it was: no mipmap task, no
  compression or save task, nothing that writes the target.
\<close>

theorem compress_image_skips_when_target_newer:
  assumes "fs_stat ext (ar_src_path result) = Some src_stat"
    and "fs_stat ext target_path = Some dst_stat"
    and "last_modified src_stat < last_modified dst_stat"
  shows "compress_image ext workers target_path result quality = workers"
  using assms by (simp add: compress_image_def)

theorem compress_image_skips_when_target_newer_witness:
  "compress_image example_collaborators example_workers ''out/8.ktx'' example_analysis 3
     = example_workers"
  using compress_image_skips_when_target_newer
          [of example_collaborators example_analysis "\<lparr>fs_size = 16, last_modified = 100\<rparr>"
              "''out/8.ktx''" "\<lparr>fs_size = 64, last_modified = 101\<rparr>" example_workers 3]
  by (simp add: example_collaborators_def example_analysis_def example_stat_def)

text \<open>
  With equal modification times the encode is not skipped: the comparison is \<open><\<close>.
  Source and target both stat, both with time 100, and a mipmap task and a save task are
  scheduled.
\<close>

theorem compress_image_equal_mtime_counterexample:
  "fs_stat example_collaborators (ar_src_path example_analysis)
     = Some \<lparr>fs_size = 16, last_modified = 100\<rparr> \<and>
   fs_stat example_collaborators ''out/7.ktx'' = Some \<lparr>fs_size = 64, last_modified = 100\<rparr> \<and>
   tg_tasks (compress_image example_collaborators example_workers ''out/7.ktx''
               example_analysis 3)
     = [MipgenTask ''mr.png'', SaveTask ''out/7.ktx'']"
  by (simp add: compress_image_def example_collaborators_def example_analysis_def
        example_stat_def example_workers_def create_task_def add_dependency_def Let_def)

subsection \<open>The GLB container\<close>

lemma aligned_size_eq: "aligned_size n = (n + 3) div 4 * 4"
proof -
  have "(int n + 3) AND NOT 3 = (int n + 3) - (int n + 3) mod 4"
    using and_not_mask_int [of "int n + 3" 2] by (simp add: mask_eq_exp_minus_1)
  then show ?thesis
    unfolding aligned_size_def
    by (simp add: minus_mod_eq_div_mult nat_mult_distrib nat_div_distrib nat_add_distrib)
qed

lemma length_write_u32: "length (write_u32 v) = 4"
  by (simp add: write_u32_def Let_def)

lemma read_write_u32: "read_u32 (write_u32 v) = v mod 2 ^ 32"
proof -
  define w where "w = (word_of_nat v :: 32 word)"
  have uw: "unat w = v mod 2 ^ 32" by (simp add: w_def unat_of_nat)
  have b0: "unat (ucast w :: byte) = unat w mod 256"
    by (simp add: unsigned_ucast_eq take_bit_eq_mod)
  have b1: "unat (ucast (drop_bit 8 w) :: byte) = unat w div 256 mod 256"
    by (simp add: unsigned_ucast_eq unat_drop_bit_eq drop_bit_eq_div take_bit_eq_mod unat_div_distrib)
  have b2: "unat (ucast (drop_bit 16 w) :: byte) = unat w div 65536 mod 256"
    by (simp add: unsigned_ucast_eq unat_drop_bit_eq drop_bit_eq_div take_bit_eq_mod unat_div_distrib)
  have b3: "unat (ucast (drop_bit 24 w) :: byte) = unat w div 16777216 mod 256"
    by (simp add: unsigned_ucast_eq unat_drop_bit_eq drop_bit_eq_div take_bit_eq_mod unat_div_distrib)
  have lt: "unat w < 4294967296" using unsigned_less [of w] by simp
  have "read_u32 (write_u32 v) = unat w mod 256 + 256 * (unat w div 256 mod 256)
          + 65536 * (unat w div 65536 mod 256) + 16777216 * (unat w div 16777216 mod 256)"
    by (simp add: read_u32_def write_u32_def Let_def w_def [symmetric] b0 b1 b2 b3)
  also have "\<dots> = unat w"
  proof -
    define x where "x = unat w"
    define a where "a = x div 256"
    define b where "b = a div 256"
    define c where "c = b div 256"
    have x: "x = 256 * a + x mod 256" unfolding a_def by simp
    have a: "a = 256 * b + a mod 256" unfolding b_def by simp
    have b: "b = 256 * c + b mod 256" unfolding c_def by simp
    have d2: "x div 65536 = b" unfolding b_def a_def by (simp add: div_mult2_eq)
    have d3: "x div 16777216 = c" unfolding c_def b_def a_def by (simp add: div_mult2_eq)
    have "c < 256" using lt unfolding d3 [symmetric] x_def by simp
    then have c: "c mod 256 = c" by simp
    have "x mod 256 + 256 * (a mod 256) + 65536 * (b mod 256) + 16777216 * c = x"
      using x a b by linarith
    then show ?thesis
      unfolding x_def [symmetric] d2 d3 c a_def [symmetric] by simp
  qed
  finally show ?thesis by (simp add: uw)
qed


lemma aligned_size_align4: "aligned_size n = align4 n"
  by (simp add: aligned_size_eq align4_def)

lemma align4_ge: "n \<le> align4 n"
  unfolding align4_def by presburger

lemma align4_pad: "align4 n - n < 4"
  unfolding align4_def by presburger

lemma align4_dvd: "4 dvd align4 n"
  unfolding align4_def by simp

lemma glb_bytes_layout:
  "glb_bytes buffer bin =
     bytes_of_string ''glTF''
     @ write_u32 2
     @ write_u32 (12 + (8 + align4 (length buffer)) + (8 + align4 (length bin)))
     @ write_u32 (align4 (length buffer))
     @ bytes_of_string ''JSON''
     @ buffer @ replicate (align4 (length buffer) - length buffer) 0x20
     @ write_u32 (align4 (length bin))
     @ bytes_of_string ''BIN'' @ [0]
     @ bin @ replicate (align4 (length bin) - length bin) 0"
  by (simp add: glb_bytes_def glb_size_def aligned_size_align4 add.assoc)

lemma length_glb_bytes:
  "length (glb_bytes buffer bin)
     = 12 + (8 + align4 (length buffer)) + (8 + align4 (length bin))"
  using align4_ge [of "length buffer"] align4_ge [of "length bin"]
  by (simp add: glb_bytes_layout length_write_u32 bytes_of_string_def)

lemma glb_bytes_total_field:
  "take 4 (drop 8 (glb_bytes buffer bin))
     = write_u32 (12 + (8 + align4 (length buffer)) + (8 + align4 (length bin)))"
  by (simp add: glb_bytes_layout length_write_u32 bytes_of_string_def)

lemma export_written:
  assumes "export_scene_to_glb ext scene out_path opts = Inr r" and "returned r"
  shows "written r = Some (glb_bytes (json_write ext (document r))
                            (glb_buffer_data (final_state r)))"
  using assms
  by (auto simp add: export_scene_to_glb_def Let_def
        split: sum.splits prod.splits if_splits)

text \<open>
  Claim C1, as the code has it. For every successful export the written file is the
  12-byte header (magic \<open>glTF\<close>, version 2, total length), the JSON chunk and the BIN
  chunk; its length is 12 + (8 + align4 (JSON length)) + (8 + align4 (BIN length)); the
  JSON payload is padded with spaces (0x20) and the binary payload with zero bytes, each
  by fewer than 4 bytes to a multiple of 4; and the stored total length is that sum
  whenever the sum is below \<open>2^32\<close>.
\<close>

theorem glb_container_layout:
  assumes "export_scene_to_glb ext scene out_path opts = Inr r" and "returned r"
  shows "let buffer = json_write ext (document r);
             bin = glb_buffer_data (final_state r);
             json_padded = align4 (length buffer);
             bin_padded = align4 (length bin);
             total = 12 + (8 + json_padded) + (8 + bin_padded)
         in written r = Some (
              bytes_of_string ''glTF'' @ write_u32 2 @ write_u32 total
              @ write_u32 json_padded @ bytes_of_string ''JSON''
              @ buffer @ replicate (json_padded - length buffer) 0x20
              @ write_u32 bin_padded @ bytes_of_string ''BIN'' @ [0]
              @ bin @ replicate (bin_padded - length bin) 0x00) \<and>
            length (the (written r)) = total \<and>
            read_u32 (take 4 (drop 4 (the (written r)))) = 2 \<and>
            (total < 2 ^ 32 \<longrightarrow> read_u32 (take 4 (drop 8 (the (written r)))) = total) \<and>
            4 dvd json_padded \<and> length buffer \<le> json_padded \<and> json_padded - length buffer < 4 \<and>
            4 dvd bin_padded \<and> length bin \<le> bin_padded \<and> bin_padded - length bin < 4"
proof -
  let ?buffer = "json_write ext (document r)"
  let ?bin = "glb_buffer_data (final_state r)"
  have w: "written r = Some (glb_bytes ?buffer ?bin)"
    by (rule export_written [OF assms])
  have version: "read_u32 (take 4 (drop 4 (glb_bytes ?buffer ?bin))) = 2"
    using read_write_u32 [of 2]
    by (simp add: glb_bytes_layout length_write_u32 bytes_of_string_def)
  have total: "12 + (8 + align4 (length ?buffer)) + (8 + align4 (length ?bin)) < 2 ^ 32 \<Longrightarrow>
      read_u32 (take 4 (drop 8 (glb_bytes ?buffer ?bin)))
        = 12 + (8 + align4 (length ?buffer)) + (8 + align4 (length ?bin))"
    unfolding glb_bytes_total_field read_write_u32 by simp
  show ?thesis
    unfolding Let_def w option.sel
  proof (intro conjI impI)
    show "Some (glb_bytes ?buffer ?bin) = Some (
              bytes_of_string ''glTF'' @ write_u32 2
              @ write_u32 (12 + (8 + align4 (length ?buffer)) + (8 + align4 (length ?bin)))
              @ write_u32 (align4 (length ?buffer)) @ bytes_of_string ''JSON''
              @ ?buffer @ replicate (align4 (length ?buffer) - length ?buffer) 0x20
              @ write_u32 (align4 (length ?bin)) @ bytes_of_string ''BIN'' @ [0]
              @ ?bin @ replicate (align4 (length ?bin) - length ?bin) 0x00)"
      by (simp only: glb_bytes_layout)
    show "length (glb_bytes ?buffer ?bin)
            = 12 + (8 + align4 (length ?buffer)) + (8 + align4 (length ?bin))"
      by (rule length_glb_bytes)
    show "read_u32 (take 4 (drop 4 (glb_bytes ?buffer ?bin))) = 2"
      by (rule version)
    show "read_u32 (take 4 (drop 8 (glb_bytes ?buffer ?bin)))
            = 12 + (8 + align4 (length ?buffer)) + (8 + align4 (length ?bin))"
      if "12 + (8 + align4 (length ?buffer)) + (8 + align4 (length ?bin)) < 2 ^ 32"
      using that by (rule total)
    show "4 dvd align4 (length ?buffer)" by (rule align4_dvd)
    show "length ?buffer \<le> align4 (length ?buffer)" by (rule align4_ge)
    show "align4 (length ?buffer) - length ?buffer < 4" by (rule align4_pad)
    show "4 dvd align4 (length ?bin)" by (rule align4_dvd)
    show "length ?bin \<le> align4 (length ?bin)" by (rule align4_ge)
    show "align4 (length ?bin) - length ?bin < 4" by (rule align4_pad)
  qed
qed

lemma write_u32_examples:
  "write_u32 2 = [2, 0, 0, 0]" "write_u32 32 = [32, 0, 0, 0]" "write_u32 4 = [4, 0, 0, 0]"
  "write_u32 0 = [0, 0, 0, 0]"
  by (simp_all add: write_u32_def Let_def drop_bit_eq_div)

theorem glb_container_layout_witness:
  "\<not> isl empty_export \<and> returned (projr empty_export) \<and>
   written (projr empty_export)
     = Some (bytes_of_string ''glTF'' @ [2, 0, 0, 0] @ [32, 0, 0, 0]
             @ [4, 0, 0, 0] @ bytes_of_string ''JSON'' @ bytes_of_string ''{}  ''
             @ [0, 0, 0, 0] @ bytes_of_string ''BIN'' @ [0]) \<and>
   length (the (written (projr empty_export))) = 32 \<and>
   read_u32 (take 4 (drop 8 (the (written (projr empty_export))))) = 32"
proof -
  have bake: "bake_scene example_hasher empty_scene example_options
                = Inr ([], initial_state example_options)"
    by (simp add: bake_scene_def empty_scene_def bind_result_def Let_def initial_state_def
          empty_Remap_def example_options_def)
  have threads: "threads example_options = 1" by (simp add: example_options_def)
  define r where "r = \<lparr>returned = True,
      written = Some (glb_bytes (bytes_of_string ''{}'') []),
      document = build_document empty_scene (initial_state example_options) [] [],
      final_state = initial_state example_options, loaded_images = [],
      pool = \<lparr>tg_threads = 1, tg_tasks = [], tg_dependencies = []\<rparr>\<rparr>"
  have ex: "export_scene_to_glb example_collaborators empty_scene ''out.glb'' example_options
              = Inr r"
    by (simp add: export_scene_to_glb_def example_collaborators_def bake Let_def threads r_def
          initial_state_def)
  have ret: "returned r" by (simp add: r_def)
  have buf: "json_write example_collaborators (document r) = bytes_of_string ''{}''"
    by (simp add: example_collaborators_def)
  have bin: "glb_buffer_data (final_state r) = []"
    by (simp add: r_def initial_state_def)
  have pad: "replicate 2 (32 :: byte) = [32, 32]" by (simp add: numeral_2_eq_2)
  show ?thesis
    using glb_container_layout [OF ex ret] ret
    unfolding empty_export_def ex Let_def buf bin
    by (simp add: align4_def bytes_of_string_def write_u32_examples pad read_u32_def)
qed

lemma big_bake:
  "\<exists>js s. bake_scene example_hasher big_scene example_options = Inr (js, s) \<and>
          image_cache s = [] \<and> glb_buffer_data s = replicate 4294967296 0"
  by (simp add: bake_scene_def big_scene_def big_mesh_def bind_result_def Let_def
        initial_state_def empty_Remap_def hash_MaterialInfo_def hash_Mesh_def
        example_options_def emit_meshes_def emit_mesh_def emit_mesh_indices_def
        emit_mesh_material_def emit_mesh_buffers_def emit_buffer_def
        emit_accessor_def set_accessor_type_def upd_mesh_def resize_def memcpy_at_def
        mesh_attributes_def align16_eq)

text \<open>
  The stored total length is a 32-bit field. The export of the scene with 4 GiB of
  positions succeeds; the JSON text has 2 bytes and the blob 4294967296, so the total is
  4294967328, and the field holds 32.
\<close>

theorem glb_total_length_counterexample:
  "\<not> isl big_export \<and> returned (projr big_export) \<and>
   length (json_write example_collaborators (document (projr big_export))) = 2 \<and>
   length (glb_buffer_data (final_state (projr big_export))) = 4294967296 \<and>
   12 + (8 + align4 2) + (8 + align4 4294967296) = (4294967328 :: nat) \<and>
   read_u32 (take 4 (drop 8 (the (written (projr big_export))))) = 32"
proof -
  obtain js s where bake: "bake_scene example_hasher big_scene example_options = Inr (js, s)"
    and images: "image_cache s = []"
    and blob: "glb_buffer_data s = replicate 4294967296 0"
    using big_bake by blast
  define doc where "doc = build_document big_scene s js []"
  have ex: "big_export = Inr \<lparr>returned = True,
      written = Some (glb_bytes (bytes_of_string ''{}'') (replicate 4294967296 0)),
      document = doc, final_state = s, loaded_images = [],
      pool = \<lparr>tg_threads = 1, tg_tasks = [], tg_dependencies = []\<rparr>\<rparr>"
  proof -
    have threads: "threads example_options = 1" by (simp add: example_options_def)
    show ?thesis
      by (simp add: big_export_def export_scene_to_glb_def example_collaborators_def bake
            images blob Let_def doc_def threads)
  qed
  have field: "read_u32 (take 4 (drop 8 (glb_bytes (bytes_of_string ''{}'')
                  (replicate 4294967296 0)))) = 32"
    unfolding glb_bytes_total_field read_write_u32
    by (simp add: align4_def bytes_of_string_def)
  show ?thesis
    unfolding ex using field
    by (simp add: example_collaborators_def bytes_of_string_def blob align4_def)
qed

subsection \<open>The caches only grow during the walk\<close>

lemma grows_refl: "grows s s"
  by (simp add: grows_def)

lemma grows_trans: "grows s s' \<Longrightarrow> grows s' s'' \<Longrightarrow> grows s s''"
  unfolding grows_def
  by (auto intro: prefix_order.trans map_le_trans)

lemma map_le_fresh: "m k = None \<Longrightarrow> m \<subseteq>\<^sub>m m(k \<mapsto> v)"
  by (auto simp add: map_le_def)

lemma emit_buffer_grows: "grows s (snd (emit_buffer H s view stride))"
  by (simp add: emit_buffer_def Let_def grows_def map_le_fresh split: option.splits)

lemma emit_accessor_grows:
  "emit_accessor H s v fmt off stride cnt = Inr (a, s') \<Longrightarrow> grows s s'"
  by (auto simp add: emit_accessor_def Let_def grows_def map_le_fresh bind_result_def
        split: option.splits sum.splits)

lemma emit_sampler_grows: "grows s (snd (emit_sampler H s smp))"
  by (simp add: emit_sampler_def Let_def grows_def map_le_fresh split: option.splits)

lemma emit_image_grows: "grows s (snd (emit_image H s t type compr quality mode))"
  by (simp add: emit_image_def Let_def grows_def map_le_fresh split: option.splits)

lemma emit_texture_grows: "grows s (snd (emit_texture H s t smp type compr quality mode))"
proof -
  obtain i s1 where 1: "emit_image H s t type compr quality mode = (i, s1)" by force
  obtain j s2 where 2: "emit_sampler H s1 smp = (j, s2)" by force
  have g1: "grows s s1" using emit_image_grows [of s H t type compr quality mode] 1 by simp
  have g2: "grows s1 s2" using emit_sampler_grows [of s1 H smp] 2 by simp
  have g3: "grows s2 (snd (emit_texture H s t smp type compr quality mode))"
    by (simp add: emit_texture_def 1 2 Let_def grows_def map_le_fresh split: option.splits)
  show ?thesis by (rule grows_trans [OF grows_trans [OF g1 g2] g3])
qed

lemma upd_material_grows: "grows s (upd_material s i f)"
  by (simp add: upd_material_def grows_def)

lemma upd_mesh_grows: "grows s (upd_mesh s i f)"
  by (simp add: upd_mesh_def grows_def)

lemma material_slot_grows: "grows s (material_slot H s rm tex smp type mode set_slot)"
proof (cases "path tex = []")
  case True
  then show ?thesis by (simp add: material_slot_def grows_refl)
next
  case False
  obtain t s' where e: "emit_texture H s tex smp type (compression (options s))
                (texcomp_quality (options s)) mode = (t, s')" by force
  have "grows s s'"
    using emit_texture_grows [of s H tex smp type "compression (options s)"
            "texcomp_quality (options s)" mode] e by simp
  then show ?thesis
    using False e by (simp add: material_slot_def grows_trans [OF _ upd_material_grows])
qed

lemma resize_material_grows:
  "grows s (s\<lparr>material_cache := resize (material_cache s)
                 (max (length (material_cache s)) n) d\<rparr>)"
  by (simp add: grows_def resize_def)

lemma resize_mesh_grows:
  "grows s (s\<lparr>mesh_cache := resize (mesh_cache s) (max (length (mesh_cache s)) n) d\<rparr>)"
  by (simp add: grows_def resize_def)

lemma emit_material_grows:
  assumes "emit_material H s rm = Inr s'"
  shows "grows s s'"
proof -
  have inb: "rm < length (info (material s))"
    using assms by (auto simp add: emit_material_def split: if_splits)
  show ?thesis
    using assms inb
    unfolding emit_material_def Let_def
    by (auto intro!: grows_trans [OF _ upd_material_grows]
          grows_trans [OF _ material_slot_grows] resize_material_grows)
qed

lemma emit_mesh_indices_grows:
  assumes "emit_mesh_indices H m ri s = Inr s'"
  shows "grows s s'"
proof (cases "indices m = []")
  case True
  then show ?thesis
    using assms by (auto simp add: emit_mesh_indices_def Let_def upd_mesh_grows)
next
  case False
  define st :: nat where "st = (if index_type m = VK_INDEX_TYPE_UINT16 then 2 else 4)"
  obtain index s1 where b: "emit_buffer H s (indices m) st = (index, s1)" by force
  have g1: "grows s s1" using emit_buffer_grows [of s H "indices m" st] b by simp
  from assms False b obtain a s2 where
    acc: "emit_accessor H s1 index
            (if index_type m = VK_INDEX_TYPE_UINT16 then VK_FORMAT_R16_UINT
             else VK_FORMAT_R32_UINT) 0 st (count m) = Inr (a, s2)"
    and s': "s' = upd_mesh s2 ri (\<lambda>emit. emit\<lparr>em_index_accessor := int a\<rparr>)"
    by (auto simp add: emit_mesh_indices_def Let_def st_def bind_result_def
          split: sum.splits prod.splits)
  have g2: "grows s1 s2" by (rule emit_accessor_grows [OF acc])
  show ?thesis
    unfolding s' by (rule grows_trans [OF grows_trans [OF g1 g2] upd_mesh_grows])
qed

lemma insert_material_hash_grows: "grows s (s\<lparr>material_hash := insert x (material_hash s)\<rparr>)"
  by (auto simp add: grows_def)

lemma insert_mesh_hash_grows: "grows s (s\<lparr>mesh_hash := insert x (mesh_hash s)\<rparr>)"
  by (auto simp add: grows_def)

lemma emit_mesh_material_grows:
  assumes "emit_mesh_material H m s = Inr s'"
  shows "grows s s'"
  using assms
  by (auto simp add: emit_mesh_material_def Let_def bind_result_def grows_refl
        split: if_splits sum.splits
        intro: grows_trans [OF emit_material_grows insert_material_hash_grows])

lemma emit_mesh_buffers_grows:
  assumes "emit_mesh_buffers H m s = (pb, ab, s')"
  shows "grows s s'"
proof -
  define r1 where "r1 = (if positions m \<noteq> [] then emit_buffer H s (positions m) (position_stride m)
             else (0, s))"
  define r2 where "r2 = (if attributes m \<noteq> []
             then emit_buffer H (snd r1) (attributes m) (attribute_stride m) else (0, snd r1))"
  have g1: "grows s (snd r1)"
    unfolding r1_def by (simp add: emit_buffer_grows grows_refl)
  have g2: "grows (snd r1) (snd r2)"
    unfolding r2_def by (simp add: emit_buffer_grows grows_refl)
  have "s' = snd r2"
    using assms
    by (simp add: emit_mesh_buffers_def Let_def r1_def r2_def split_beta split: if_splits)
  then show ?thesis using grows_trans [OF g1 g2] by simp
qed

lemma accessor_update_grows:
  "grows s (s\<lparr>accessor_cache := (accessor_cache s)[a := x]\<rparr>)"
  by (simp add: grows_def)

lemma emit_mesh_attributes_grows:
  "emit_mesh_attributes H m ri pb ab attrs s = Inr s' \<Longrightarrow> grows s s'"
proof (induction attrs arbitrary: s)
  case Nil
  then show ?case by (simp add: grows_refl)
next
  case (Cons i rest)
  show ?case
  proof (cases "format (attribute_layout m i) = VK_FORMAT_UNDEFINED")
    case True
    then show ?thesis using Cons by simp
  next
    case False
    define s1 where "s1 = upd_mesh s ri (\<lambda>emit. emit\<lparr>em_attribute_mask :=
                   em_attribute_mask emit OR push_bit (ecast_attribute i) 1\<rparr>)"
    have g1: "grows s s1" unfolding s1_def by (rule upd_mesh_grows)
    show ?thesis
    proof (cases "i = Position")
      case True
      from Cons.prems False True obtain a s2 where
        acc: "emit_accessor H s1 pb (format (attribute_layout m i))
                (offset (attribute_layout m i)) (position_stride m)
                (length (positions m) div position_stride m) = Inr (a, s2)"
        and rest: "emit_mesh_attributes H m ri pb ab rest
            ((upd_mesh s2 ri (\<lambda>emit. emit\<lparr>em_attribute_accessor :=
                                  (em_attribute_accessor emit)(i := int a)\<rparr>))
               \<lparr>accessor_cache := (accessor_cache (upd_mesh s2 ri (\<lambda>emit. emit\<lparr>em_attribute_accessor :=
                                  (em_attribute_accessor emit)(i := int a)\<rparr>)))
                  [a := (accessor_cache (upd_mesh s2 ri (\<lambda>emit. emit\<lparr>em_attribute_accessor :=
                                  (em_attribute_accessor emit)(i := int a)\<rparr>)) ! a)
                        \<lparr>acc_aabb := static_aabb m, acc_use_aabb := True\<rparr>]\<rparr>) = Inr s'"
        by (auto simp add: Let_def s1_def bind_result_def split: if_splits sum.splits)
      have g2: "grows s1 s2" by (rule emit_accessor_grows [OF acc])
      show ?thesis
        by (rule grows_trans [OF grows_trans [OF grows_trans [OF grows_trans [OF g1 g2]
                upd_mesh_grows] accessor_update_grows] Cons.IH [OF rest]])
    next
      case nonpos: False
      from Cons.prems False nonpos obtain a s2 where
        acc: "emit_accessor H s1 ab (format (attribute_layout m i))
                (offset (attribute_layout m i)) (attribute_stride m)
                (length (attributes m) div attribute_stride m) = Inr (a, s2)"
        and rest: "emit_mesh_attributes H m ri pb ab rest
            (upd_mesh s2 ri (\<lambda>emit. emit\<lparr>em_attribute_accessor :=
                                  (em_attribute_accessor emit)(i := int a)\<rparr>)) = Inr s'"
        by (auto simp add: Let_def s1_def bind_result_def split: if_splits sum.splits)
      have g2: "grows s1 s2" by (rule emit_accessor_grows [OF acc])
      show ?thesis
        by (rule grows_trans [OF grows_trans [OF grows_trans [OF g1 g2]
                upd_mesh_grows] Cons.IH [OF rest]])
    qed
  qed
qed

lemma emit_mesh_grows:
  assumes "emit_mesh H s ri = Inr s'"
  shows "grows s s'"
proof -
  define m where "m = info (mesh s) ! ri"
  define s1 where "s1 = upd_mesh (s\<lparr>mesh_cache := resize (mesh_cache s)
                     (max (length (mesh_cache s)) (ri + 1)) default_EmittedMesh\<rparr>) ri
                 (\<lambda>emit. emit\<lparr>em_material :=
                   (if has_material m then int (material_index m) else - 1)\<rparr>)"
  from assms obtain s2 s3 pb ab s5 where
    i: "emit_mesh_indices H m ri s1 = Inr s2"
    and ma: "emit_mesh_material H m s2 = Inr s3"
    and bu: "emit_mesh_buffers H m s3 = (pb, ab, s5)"
    and at: "emit_mesh_attributes H m ri pb ab mesh_attributes
               (upd_mesh s5 ri (\<lambda>emit. emit\<lparr>em_attribute_mask := 0\<rparr>)) = Inr s'"
    by (auto simp add: emit_mesh_def Let_def m_def s1_def bind_result_def
          split: if_splits sum.splits prod.splits)
  have g1: "grows s s1"
    unfolding s1_def by (rule grows_trans [OF resize_mesh_grows upd_mesh_grows])
  show ?thesis
    by (rule grows_trans [OF grows_trans [OF grows_trans [OF grows_trans [OF grows_trans
            [OF g1 emit_mesh_indices_grows [OF i]] emit_mesh_material_grows [OF ma]]
            emit_mesh_buffers_grows [OF bu]] upd_mesh_grows] emit_mesh_attributes_grows [OF at]])
qed

lemma emit_meshes_loop_grows:
  "emit_meshes_loop H ms eh mg s = Inr (eh', mg', s') \<Longrightarrow> grows s s'"
proof (induction ms arbitrary: eh mg s)
  case Nil
  then show ?case by (simp add: grows_refl)
next
  case (Cons i rest)
  define ri where "ri = to_index (mesh s) ! i"
  from Cons.prems obtain s1 where
    step: "(if ri \<notin> mesh_hash s then
              bind_result (emit_mesh H s ri)
                (\<lambda>s'. Inr (s'\<lparr>mesh_hash := insert ri (mesh_hash s')\<rparr>))
            else Inr s) = Inr s1"
    and rest: "emit_meshes_loop H rest (eh @ [H_u32 ri]) (mg @ [ri]) s1 = Inr (eh', mg', s')"
    by (auto simp add: Let_def ri_def bind_result_def split: if_splits sum.splits)
  have g1: "grows s s1"
    using step
    by (auto simp add: bind_result_def grows_refl split: if_splits sum.splits
          intro: grows_trans [OF emit_mesh_grows insert_mesh_hash_grows])
  show ?case by (rule grows_trans [OF g1 Cons.IH [OF rest]])
qed

lemma mesh_group_grows:
  "grows s (s\<lparr>mesh_group_cache := c, mesh_group_hash := h\<rparr>)"
  by (simp add: grows_def)

lemma emit_meshes_grows:
  assumes "emit_meshes H s ms = Inr (g, s')"
  shows "grows s s'"
proof -
  from assms obtain eh mg s1 where
    loop: "emit_meshes_loop H ms [] [] s = Inr (eh, mg, s1)"
    and s': "s' = s1 \<or> s' = s1\<lparr>mesh_group_cache := mesh_group_cache s1 @ [mg],
                       mesh_group_hash := (mesh_group_hash s1)(H eh \<mapsto> length (mesh_group_cache s1))\<rparr>"
    by (auto simp add: emit_meshes_def bind_result_def Let_def
          split: sum.splits option.splits prod.splits)
  have g1: "grows s s1" by (rule emit_meshes_loop_grows [OF loop])
  show ?thesis
    using s' g1 grows_trans [OF g1 mesh_group_grows] by auto
qed

lemma emit_nodes_grows:
  "emit_nodes H scene ns k s = Inr (js, s') \<Longrightarrow> grows s s'"
proof (induction ns arbitrary: k s js)
  case Nil
  then show ?case by (simp add: grows_refl)
next
  case (Cons node rest)
  from Cons.prems obtain mm s1 js' where
    step: "(if meshes node \<noteq> [] then
          bind_result (emit_meshes H s (meshes node))
            (\<lambda>(g, s'). Inr ([(''mesh'', JNat g)], s'))
        else Inr ([], s)) = Inr (mm, s1)"
    and rest: "emit_nodes H scene rest (k + 1) s1 = Inr (js', s')"
    by (auto simp add: bind_result_def split: sum.splits prod.splits)
  have g1: "grows s s1"
    using step
    by (auto simp add: bind_result_def grows_refl split: if_splits sum.splits prod.splits
          intro: emit_meshes_grows)
  show ?case by (rule grows_trans [OF g1 Cons.IH [OF rest]])
qed

subsection \<open>The shape of a finished export\<close>

lemma bake_scene_Inr:
  assumes "bake_scene H scene opts = Inr (js, s)"
  shows "\<exists>mats ms.
           filter_input (hash_MaterialInfo H) empty_Remap (materials scene) = Inr mats \<and>
           filter_input (hash_Mesh H (to_index mats)) empty_Remap (scene_meshes scene) = Inr ms \<and>
           emit_nodes H scene (nodes scene) 0
             (environment_state H opts (filtered_state opts mats ms)) = Inr (js, s)"
  using assms
  by (auto simp add: bake_scene_def bind_result_def Let_def filtered_state_def
        environment_state_def initial_state_def split: sum.splits)

lemma export_Inr:
  assumes "export_scene_to_glb ext scene out_path opts = Inr r"
  shows "\<exists>js loaded.
           bake_scene (hasher_get ext) scene opts = Inr (js, final_state r) \<and>
           analyze_images ext (image_cache (final_state r)) = Inr loaded \<and>
           document r = build_document scene (final_state r) js
             (fst (images_loop ext out_path
                \<lparr>tg_threads = (if threads opts \<noteq> 0 then threads opts
                                else hardware_concurrency ext),
                 tg_tasks = [], tg_dependencies = []\<rparr>
                (zip (image_cache (final_state r)) loaded))) \<and>
           returned r = (fs_open ext out_path \<and>
             fs_map_write ext out_path
               (glb_size (length (json_write ext (document r)))
                  (length (glb_buffer_data (final_state r)))))"
  using assms
  by (auto simp add: export_scene_to_glb_def Let_def
        split: sum.splits prod.splits if_splits)

lemma document_extras:
  "json_member (build_document scene s nodes_json images_json) ''extras''
     = (if environment_cache s \<noteq> []
        then Some (JObject [(''environments'',
               JArray (map environment_json (environment_cache s)))])
        else None)"
  by (simp add: build_document_def)

subsection \<open>The environment\<close>

lemma prefix_nth: "prefix xs ys \<Longrightarrow> i < length xs \<Longrightarrow> ys ! i = xs ! i"
  by (auto simp add: prefix_def nth_append)

lemma hdr_clamp_texture_grows:
  assumes "grows s s'" and "hdr_clamp_texture s t"
  shows "hdr_clamp_texture s' t"
proof -
  have p: "prefix (texture_cache s) (texture_cache s')" "prefix (image_cache s) (image_cache s')"
    "prefix (sampler_cache s) (sampler_cache s')"
    using assms(1) by (simp_all add: grows_def)
  have l: "length (texture_cache s) \<le> length (texture_cache s')"
    "length (image_cache s) \<le> length (image_cache s')"
    "length (sampler_cache s) \<le> length (sampler_cache s')"
    using p by (simp_all add: prefix_length_le)
  show ?thesis
    using assms(2) l
    unfolding hdr_clamp_texture_def Let_def
    by (auto simp add: prefix_nth [OF p(1)] prefix_nth [OF p(2)] prefix_nth [OF p(3)])
qed

lemma hdr_clamp_only_texture:
  "hdr_clamp_only s \<Longrightarrow> x < length (texture_cache s) \<Longrightarrow> hdr_clamp_texture s (int x)"
  by (auto simp add: hdr_clamp_only_def hdr_clamp_texture_def Let_def)

lemma emit_image_hdr:
  assumes "hdr_clamp_only s" and "emit_image H s t type compr quality HDR = (i, s')"
  shows "hdr_clamp_only s' \<and> i < length (image_cache s')"
  using assms
  by (auto simp add: emit_image_def Let_def hdr_clamp_only_def less_Suc_eq
        split: option.splits if_splits)

lemma emit_sampler_clamp:
  assumes "hdr_clamp_only s" and "emit_sampler H s LinearClamp = (j, s')"
  shows "hdr_clamp_only s' \<and> j < length (sampler_cache s') \<and>
         length (image_cache s') = length (image_cache s)"
  using assms
  by (auto simp add: emit_sampler_def Let_def hdr_clamp_only_def less_Suc_eq
        split: option.splits if_splits)

lemma emit_texture_hdr_clamp:
  assumes "hdr_clamp_only s"
    and "emit_texture H s t LinearClamp type compr quality HDR = (x, s')"
  shows "hdr_clamp_only s' \<and> x < length (texture_cache s')"
proof -
  obtain i s1 where 1: "emit_image H s t type compr quality HDR = (i, s1)" by force
  obtain j s2 where 2: "emit_sampler H s1 LinearClamp = (j, s2)" by force
  have h1: "hdr_clamp_only s1" "i < length (image_cache s1)"
    using emit_image_hdr [OF assms(1) 1] by simp_all
  have h2: "hdr_clamp_only s2" "j < length (sampler_cache s2)" "i < length (image_cache s2)"
    using emit_sampler_clamp [OF h1(1) 2] h1(2) by simp_all
  show ?thesis
    using assms(2) h2
    by (auto simp add: emit_texture_def 1 2 Let_def hdr_clamp_only_def less_Suc_eq
          split: option.splits if_splits)
qed

lemma filtered_state_hdr_clamp: "hdr_clamp_only (filtered_state opts mats ms)"
  by (simp add: hdr_clamp_only_def filtered_state_def initial_state_def)

lemma environment_slot_ok:
  assumes "hdr_clamp_only s" and "environment_slot H s p compr quality = (t, s')"
  shows "hdr_clamp_only s' \<and> grows s s' \<and>
         (if p \<noteq> [] then hdr_clamp_texture s' t else t = - 1)"
proof (cases "p = []")
  case True
  then show ?thesis using assms by (simp add: environment_slot_def grows_refl)
next
  case False
  obtain x s1 where e: "emit_texture H s \<lparr>path = p, swizzle = rgba_mapping\<rparr> LinearClamp
        Emissive compr quality HDR = (x, s1)" by force
  have ts: "t = int x" "s' = s1" using assms(2) False e by (simp_all add: environment_slot_def)
  have ok: "hdr_clamp_only s1" "x < length (texture_cache s1)"
    using emit_texture_hdr_clamp [OF assms(1) e] by simp_all
  have g: "grows s s1"
    using emit_texture_grows [of s H "\<lparr>path = p, swizzle = rgba_mapping\<rparr>" LinearClamp
            Emissive compr quality HDR] e by simp
  show ?thesis
    using False ok g hdr_clamp_only_texture [OF ok] by (simp add: ts)
qed

lemma emit_environment_slots:
  "emit_environment H s c r i intens fogc fogf compr quality =
     (case environment_slot H s c compr quality of (t1, s1) \<Rightarrow>
      case environment_slot H s1 r compr quality of (t2, s2) \<Rightarrow>
      case environment_slot H s2 i compr quality of (t3, s3) \<Rightarrow>
        s3\<lparr>environment_cache := environment_cache s3
             @ [\<lparr>ee_cube = t1, ee_reflection = t2, ee_irradiance = t3, ee_intensity = intens,
                 ee_fog_color = fogc, ee_fog_falloff = fogf\<rparr>]\<rparr>)"
  by (simp add: emit_environment_def environment_slot_def Let_def split: prod.splits)

lemma emit_environment_ok:
  assumes "hdr_clamp_only s" and "environment_cache s = []"
  shows "\<exists>env s3. emit_environment H s c r i intens fogc fogf compr quality
             = s3\<lparr>environment_cache := [env]\<rparr> \<and>
           (if c \<noteq> [] then hdr_clamp_texture s3 (ee_cube env) else ee_cube env = - 1) \<and>
           (if r \<noteq> [] then hdr_clamp_texture s3 (ee_reflection env) else ee_reflection env = - 1) \<and>
           (if i \<noteq> [] then hdr_clamp_texture s3 (ee_irradiance env) else ee_irradiance env = - 1) \<and>
           ee_intensity env = intens \<and> ee_fog_color env = fogc \<and> ee_fog_falloff env = fogf"
proof -
  obtain t1 s1 where 1: "environment_slot H s c compr quality = (t1, s1)" by force
  obtain t2 s2 where 2: "environment_slot H s1 r compr quality = (t2, s2)" by force
  obtain t3 s3 where 3: "environment_slot H s2 i compr quality = (t3, s3)" by force
  note o1 = environment_slot_ok [OF assms(1) 1]
  note o2 = environment_slot_ok [OF conjunct1 [OF o1] 2]
  note o3 = environment_slot_ok [OF conjunct1 [OF o2] 3]
  have g23: "grows s2 s3" using o3 by simp
  have g13: "grows s1 s3" using o2 o3 grows_trans by blast
  have g03: "grows s s3" using o1 g13 grows_trans by blast
  have e0: "environment_cache s3 = []" using g03 assms(2) by (simp add: grows_def)
  have c1: "if c \<noteq> [] then hdr_clamp_texture s3 t1 else t1 = - 1"
    using o1 hdr_clamp_texture_grows [OF g13] by (auto split: if_splits)
  have c2: "if r \<noteq> [] then hdr_clamp_texture s3 t2 else t2 = - 1"
    using o2 hdr_clamp_texture_grows [OF g23] by (auto split: if_splits)
  have c3: "if i \<noteq> [] then hdr_clamp_texture s3 t3 else t3 = - 1"
    using o3 by (auto split: if_splits)
  define env where "env = \<lparr>ee_cube = t1, ee_reflection = t2, ee_irradiance = t3,
          ee_intensity = intens, ee_fog_color = fogc, ee_fog_falloff = fogf\<rparr>"
  have eq: "emit_environment H s c r i intens fogc fogf compr quality
              = s3\<lparr>environment_cache := [env]\<rparr>"
    by (simp add: emit_environment_slots 1 2 3 e0 env_def)
  have fields: "ee_cube env = t1" "ee_reflection env = t2" "ee_irradiance env = t3"
    "ee_intensity env = intens" "ee_fog_color env = fogc" "ee_fog_falloff env = fogf"
    by (simp_all add: env_def)
  show ?thesis
    apply (rule exI [of _ env])
    apply (rule exI [of _ s3])
    unfolding fields
    using eq c1 c2 c3 by blast
qed

lemma environment_json_members:
  "json_member (environment_json env) ''cubeTexture''
     = (if ee_cube env \<ge> 0 then Some (JInt (ee_cube env)) else None)"
  "json_member (environment_json env) ''reflectionTexture''
     = (if ee_reflection env \<ge> 0 then Some (JInt (ee_reflection env)) else None)"
  "json_member (environment_json env) ''irradianceTexture''
     = (if ee_irradiance env \<ge> 0 then Some (JInt (ee_irradiance env)) else None)"
  by (simp_all add: environment_json_def)

text \<open>
  Claim C10. For an export that returns: when \<open>options.environment.cube\<close> is empty,
  no environment is emitted and the document has no \<open>extras\<close> member, whatever the
  reflection and irradiance paths are; when it is not empty, exactly one environment is
  emitted, \<open>extras.environments\<close> holds it, its cube texture is present, and its
  reflection and irradiance textures are present exactly when their own path is not
  empty (index \<open>-1\<close> and no JSON member otherwise). Every texture it names is a
  texture of the final state whose image has mode HDR and whose sampler is
  \<open>LinearClamp\<close>.
\<close>

theorem environment_emitted_iff_cube:
  assumes "export_scene_to_glb ext scene out_path opts = Inr r"
  shows "(cube (environment opts) = [] \<longrightarrow>
           environment_cache (final_state r) = [] \<and>
           json_member (document r) ''extras'' = None) \<and>
         (cube (environment opts) \<noteq> [] \<longrightarrow>
           (\<exists>env. environment_cache (final_state r) = [env] \<and>
              json_member (document r) ''extras''
                = Some (JObject [(''environments'', JArray [environment_json env])]) \<and>
              hdr_clamp_texture (final_state r) (ee_cube env) \<and>
              json_member (environment_json env) ''cubeTexture'' = Some (JInt (ee_cube env)) \<and>
              (if reflection (environment opts) \<noteq> []
               then hdr_clamp_texture (final_state r) (ee_reflection env) \<and>
                    json_member (environment_json env) ''reflectionTexture''
                      = Some (JInt (ee_reflection env))
               else ee_reflection env = - 1 \<and>
                    json_member (environment_json env) ''reflectionTexture'' = None) \<and>
              (if irradiance (environment opts) \<noteq> []
               then hdr_clamp_texture (final_state r) (ee_irradiance env) \<and>
                    json_member (environment_json env) ''irradianceTexture''
                      = Some (JInt (ee_irradiance env))
               else ee_irradiance env = - 1 \<and>
                    json_member (environment_json env) ''irradianceTexture'' = None)))"
proof -
  let ?H = "hasher_get ext"
  let ?s = "final_state r"
  from export_Inr [OF assms] obtain js imgs where
    bake: "bake_scene ?H scene opts = Inr (js, ?s)"
    and doc: "document r = build_document scene ?s js imgs"
    by blast
  from bake_scene_Inr [OF bake] obtain mats ms where
    walk: "emit_nodes ?H scene (nodes scene) 0
             (environment_state ?H opts (filtered_state opts mats ms)) = Inr (js, ?s)"
    by blast
  let ?s2 = "filtered_state opts mats ms"
  let ?s3 = "environment_state ?H opts ?s2"
  have g: "grows ?s3 ?s" by (rule emit_nodes_grows [OF walk])
  then have cache: "environment_cache ?s = environment_cache ?s3" by (simp add: grows_def)
  have empty2: "environment_cache ?s2 = []"
    by (simp add: filtered_state_def initial_state_def)
  show ?thesis
  proof (intro conjI impI)
    assume c: "cube (environment opts) = []"
    then have "environment_cache ?s = []"
      using cache empty2 by (simp add: environment_state_def)
    then show "environment_cache ?s = []" "json_member (document r) ''extras'' = None"
      by (simp_all add: doc document_extras)
  next
    assume c: "cube (environment opts) \<noteq> []"
    let ?e = "environment opts"
    from emit_environment_ok [OF filtered_state_hdr_clamp empty2,
           where H = ?H and c = "cube ?e" and r = "reflection ?e" and i = "irradiance ?e"
             and intens = "intensity ?e" and fogc = "fog_color ?e"
             and fogf = "fog_falloff ?e" and compr = "env_compression ?e"
             and quality = "env_texcomp_quality ?e"]
    obtain env s3 where
      s3: "?s3 = s3\<lparr>environment_cache := [env]\<rparr>"
      and t1: "hdr_clamp_texture s3 (ee_cube env)"
      and t2: "if reflection ?e \<noteq> [] then hdr_clamp_texture s3 (ee_reflection env)
               else ee_reflection env = - 1"
      and t3: "if irradiance ?e \<noteq> [] then hdr_clamp_texture s3 (ee_irradiance env)
               else ee_irradiance env = - 1"
      using c by (auto simp add: environment_state_def Let_def)
    have lift: "hdr_clamp_texture s3 t \<Longrightarrow> hdr_clamp_texture ?s t" for t
    proof -
      assume "hdr_clamp_texture s3 t"
      then have "hdr_clamp_texture ?s3 t"
        unfolding s3 by (simp add: hdr_clamp_texture_def)
      then show ?thesis by (rule hdr_clamp_texture_grows [OF g])
    qed
    have pos: "hdr_clamp_texture ?s t \<Longrightarrow> 0 \<le> t" for t
      by (simp add: hdr_clamp_texture_def)
    have ec: "environment_cache ?s = [env]" using cache s3 by simp
    show "\<exists>env. environment_cache ?s = [env] \<and>
              json_member (document r) ''extras''
                = Some (JObject [(''environments'', JArray [environment_json env])]) \<and>
              hdr_clamp_texture ?s (ee_cube env) \<and>
              json_member (environment_json env) ''cubeTexture'' = Some (JInt (ee_cube env)) \<and>
              (if reflection ?e \<noteq> []
               then hdr_clamp_texture ?s (ee_reflection env) \<and>
                    json_member (environment_json env) ''reflectionTexture''
                      = Some (JInt (ee_reflection env))
               else ee_reflection env = - 1 \<and>
                    json_member (environment_json env) ''reflectionTexture'' = None) \<and>
              (if irradiance ?e \<noteq> []
               then hdr_clamp_texture ?s (ee_irradiance env) \<and>
                    json_member (environment_json env) ''irradianceTexture''
                      = Some (JInt (ee_irradiance env))
               else ee_irradiance env = - 1 \<and>
                    json_member (environment_json env) ''irradianceTexture'' = None)"
    proof (intro exI [of _ env] conjI)
      show "environment_cache ?s = [env]" by (rule ec)
      show "json_member (document r) ''extras''
                = Some (JObject [(''environments'', JArray [environment_json env])])"
        by (simp add: doc document_extras ec)
      show "hdr_clamp_texture ?s (ee_cube env)" by (rule lift [OF t1])
      show "json_member (environment_json env) ''cubeTexture'' = Some (JInt (ee_cube env))"
        using pos [OF lift [OF t1]] by (simp add: environment_json_members)
      show "if reflection ?e \<noteq> []
               then hdr_clamp_texture ?s (ee_reflection env) \<and>
                    json_member (environment_json env) ''reflectionTexture''
                      = Some (JInt (ee_reflection env))
               else ee_reflection env = - 1 \<and>
                    json_member (environment_json env) ''reflectionTexture'' = None"
        using t2 lift [of "ee_reflection env"] pos [of "ee_reflection env"]
        by (auto simp add: environment_json_members split: if_splits)
      show "if irradiance ?e \<noteq> []
               then hdr_clamp_texture ?s (ee_irradiance env) \<and>
                    json_member (environment_json env) ''irradianceTexture''
                      = Some (JInt (ee_irradiance env))
               else ee_irradiance env = - 1 \<and>
                    json_member (environment_json env) ''irradianceTexture'' = None"
        using t3 lift [of "ee_irradiance env"] pos [of "ee_irradiance env"]
        by (auto simp add: environment_json_members split: if_splits)
    qed
  qed
qed

theorem environment_emitted_iff_cube_witness:
  "\<not> isl environment_example_export \<and>
   environment_cache (final_state (projr environment_example_export))
     = [\<lparr>ee_cube = 0, ee_reflection = - 1, ee_irradiance = 1, ee_intensity = 2,
         ee_fog_color = (0, 0, 0), ee_fog_falloff = 1\<rparr>] \<and>
   hdr_clamp_texture (final_state (projr environment_example_export)) 0 \<and>
   hdr_clamp_texture (final_state (projr environment_example_export)) 1 \<and>
   json_member (document (projr environment_example_export)) ''extras''
     = Some (JObject [(''environments'', JArray [JObject
         [(''cubeTexture'', JInt 0), (''irradianceTexture'', JInt 1), (''intensity'', JReal 2),
          (''fog'', JObject [(''color'', JArray [JReal 0, JReal 0, JReal 0]),
                            (''falloff'', JReal 1)])]])])"
proof -
  define s3 where "s3 = environment_state example_hasher environment_example_options
     (filtered_state environment_example_options empty_Remap empty_Remap)"
  have bake: "bake_scene example_hasher empty_scene environment_example_options = Inr ([], s3)"
    by (simp add: bake_scene_def empty_scene_def bind_result_def Let_def s3_def
          environment_state_def filtered_state_def empty_Remap_def initial_state_def)
  have images: "image_cache s3
    = [\<lparr>img_source_path = ''sky.ktx'', img_target_relpath = ''206898589.ktx'',
         img_target_mime = ''image/ktx'', img_compression = BC,
         img_compression_quality = 3, img_mode = HDR, img_type = Emissive,
         img_swizzle = rgba_mapping\<rparr>,
       \<lparr>img_source_path = ''irradiance.ktx'', img_target_relpath = ''213363236.ktx'',
         img_target_mime = ''image/ktx'', img_compression = BC,
         img_compression_quality = 3, img_mode = HDR, img_type = Emissive,
         img_swizzle = rgba_mapping\<rparr>]"
    by (simp add: s3_def environment_state_def filtered_state_def
          environment_example_options_def emit_environment_def emit_texture_def
          emit_image_def emit_sampler_def Let_def initial_state_def example_hasher_def
          to_string_def to_string_nat.simps digit_char_def)
  have envs: "environment_cache s3
     = [\<lparr>ee_cube = 0, ee_reflection = - 1, ee_irradiance = 1, ee_intensity = 2,
         ee_fog_color = (0, 0, 0), ee_fog_falloff = 1\<rparr>]"
    by (simp add: s3_def environment_state_def filtered_state_def
          environment_example_options_def emit_environment_def emit_texture_def
          emit_image_def emit_sampler_def Let_def initial_state_def example_hasher_def)
  have analysed: "\<exists>loaded. analyze_images example_collaborators (image_cache s3) = Inr loaded"
    unfolding images
    by (simp add: analyze_image_def load_image_def swizzle_image_def deduce_compression_def
          example_collaborators_def example_texture_def rgba_mapping_def bind_result_def
          Let_def)
  then obtain loaded where an: "analyze_images example_collaborators (image_cache s3) = Inr loaded"
    by blast
  have "\<exists>r. environment_example_export = Inr r \<and> final_state r = s3"
    using bake an
    by (simp add: environment_example_export_def export_scene_to_glb_def Let_def
          example_collaborators_def split: prod.splits)
  then obtain r where ex: "environment_example_export = Inr r" and fs: "final_state r = s3"
    by blast
  have opts: "cube (environment environment_example_options) \<noteq> []"
    "reflection (environment environment_example_options) = []"
    "irradiance (environment environment_example_options) \<noteq> []"
    by (simp_all add: environment_example_options_def)
  show ?thesis
    using environment_emitted_iff_cube [OF ex [unfolded environment_example_export_def]]
      opts envs
    unfolding ex fs
    by (auto simp add: fs environment_json_def vec3_list_def)
qed

subsection \<open>Validation errors are raised, not returned\<close>

lemma get_accessor_component_unsupported:
  "get_accessor_type fmt = Inl e \<Longrightarrow>
   e = InvalidArgument ''Unsupported format.'' \<and>
   get_accessor_component fmt = Inl (InvalidArgument ''Unsupported format.'')"
  by (cases fmt) simp_all

lemma emit_accessor_unsupported:
  assumes "get_accessor_type fmt = Inl e"
    and "accessor_hash s (accessor_key H view_index fmt off stride cnt) = None"
  shows "emit_accessor H s view_index fmt off stride cnt
           = Inl (InvalidArgument ''Unsupported format.'')"
  using assms get_accessor_component_unsupported [OF assms(1)]
  by (simp add: emit_accessor_def accessor_key_def Let_def set_accessor_type_def
        bind_result_def)

lemma export_raises:
  "bake_scene (hasher_get ext) scene opts = Inl e \<Longrightarrow>
   export_scene_to_glb ext scene out_path opts = Inl (Raised e)"
  by (simp add: export_scene_to_glb_def Let_def)

lemma export_worker_raises:
  "bake_scene (hasher_get ext) scene opts = Inr (js, s) \<Longrightarrow>
   analyze_images ext (image_cache s) = Inl e \<Longrightarrow>
   export_scene_to_glb ext scene out_path opts = Inl (RaisedInWorker e)"
  by (simp add: export_scene_to_glb_def Let_def)

lemma conv_swizzle_outside: "outside_rgba c \<Longrightarrow>
   conv_swizzle c = Inl (InvalidArgument ''Unrecognized swizzle parameter.'')"
  by (auto simp add: outside_rgba_def)

lemma conv_swizzle_cases:
  "conv_swizzle c = Inl (InvalidArgument ''Unrecognized swizzle parameter.'') \<or>
   (\<exists>g. conv_swizzle c = Inr g)"
  by (cases c) simp_all

lemma swizzle_image_outside:
  assumes "outside_rgba (swz_r sw) \<or> outside_rgba (swz_g sw) \<or> outside_rgba (swz_b sw) \<or>
           outside_rgba (swz_a sw)"
  shows "swizzle_image res sw =
           (if gt_format (ar_image res) \<noteq> FORMAT_RGBA8_SRGB_PACK8 \<and>
               gt_format (ar_image res) \<noteq> FORMAT_RGBA8_UNORM_PACK8
            then Inl (InvalidArgument ''Can only swizzle RGBA textures.'')
            else Inl (InvalidArgument ''Unrecognized swizzle parameter.''))"
proof -
  have nonid: "swz_r sw \<noteq> VK_COMPONENT_SWIZZLE_R \<or> swz_g sw \<noteq> VK_COMPONENT_SWIZZLE_G \<or>
         swz_b sw \<noteq> VK_COMPONENT_SWIZZLE_B \<or> swz_a sw \<noteq> VK_COMPONENT_SWIZZLE_A"
    using assms by (auto simp add: outside_rgba_def)
  have conv: "bind_result (conv_swizzle (swz_r sw)) (\<lambda>r.
           bind_result (conv_swizzle (swz_g sw)) (\<lambda>g.
           bind_result (conv_swizzle (swz_b sw)) (\<lambda>b.
           bind_result (conv_swizzle (swz_a sw)) (\<lambda>a. Inr (f r g b a)))))
         = Inl (InvalidArgument ''Unrecognized swizzle parameter.'')" for f :: "_ \<Rightarrow> _ \<Rightarrow> _ \<Rightarrow> _ \<Rightarrow> AnalysisResult"
    using assms conv_swizzle_cases [of "swz_r sw"] conv_swizzle_cases [of "swz_g sw"]
      conv_swizzle_cases [of "swz_b sw"] conv_swizzle_cases [of "swz_a sw"]
    by (auto simp add: bind_result_def conv_swizzle_outside)
  show ?thesis
    using nonid conv by (simp add: swizzle_image_def)
qed

lemma deduce_compression_invalid_role:
  "ar_type res = Count \<Longrightarrow>
   deduce_compression res family =
     (if family = Uncompressed
      then Inr (res\<lparr>ar_compression := TextureCompression_Uncompressed\<rparr>)
      else Inl (InvalidArgument ''Invalid material type.''))"
  by (cases family) (simp_all add: deduce_compression_def bind_result_def)

lemma upd_mesh_accessor_hash: "accessor_hash (upd_mesh s i f) = accessor_hash s"
  by (simp add: upd_mesh_def)

lemma emit_mesh_attributes_unsupported:
  assumes "\<forall>j \<in> set pre. format (attribute_layout m j) = VK_FORMAT_UNDEFINED"
    and "format (attribute_layout m i) \<noteq> VK_FORMAT_UNDEFINED"
    and "get_accessor_type (format (attribute_layout m i)) = Inl e"
    and "(if i = Position then position_stride m else attribute_stride m) \<noteq> 0"
    and "accessor_hash s
           (if i = Position
            then accessor_key H pb (format (attribute_layout m i)) (offset (attribute_layout m i))
                   (position_stride m) (length (positions m) div position_stride m)
            else accessor_key H ab (format (attribute_layout m i)) (offset (attribute_layout m i))
                   (attribute_stride m) (length (attributes m) div attribute_stride m)) = None"
  shows "emit_mesh_attributes H m ri pb ab (pre @ i # post) s
           = Inl (InvalidArgument ''Unsupported format.'')"
  using assms(1)
proof (induction pre)
  case Nil
  show ?case
  proof (cases "i = Position")
    case True
    have "emit_accessor H (upd_mesh s ri (\<lambda>emit. emit\<lparr>em_attribute_mask :=
                   em_attribute_mask emit OR push_bit (ecast_attribute i) 1\<rparr>)) pb
            (format (attribute_layout m i)) (offset (attribute_layout m i)) (position_stride m)
            (length (positions m) div position_stride m)
          = Inl (InvalidArgument ''Unsupported format.'')"
      using assms(5) True
      by (intro emit_accessor_unsupported [OF assms(3)]) (simp add: upd_mesh_accessor_hash)
    then show ?thesis
      using assms(2,4) True by (simp add: Let_def bind_result_def)
  next
    case False
    have "emit_accessor H (upd_mesh s ri (\<lambda>emit. emit\<lparr>em_attribute_mask :=
                   em_attribute_mask emit OR push_bit (ecast_attribute i) 1\<rparr>)) ab
            (format (attribute_layout m i)) (offset (attribute_layout m i)) (attribute_stride m)
            (length (attributes m) div attribute_stride m)
          = Inl (InvalidArgument ''Unsupported format.'')"
      using assms(5) False
      by (intro emit_accessor_unsupported [OF assms(3)]) (simp add: upd_mesh_accessor_hash)
    then show ?thesis
      using assms(2,4) False by (simp add: Let_def bind_result_def)
  qed
next
  case (Cons j pre)
  then show ?case by simp
qed

lemma bad_format_bake:
  "bake_scene example_hasher bad_format_scene example_options
     = Inl (InvalidArgument ''Unsupported format.'')"
  by (simp add: bake_scene_def bad_format_scene_def bad_format_mesh_def bind_result_def Let_def
        initial_state_def empty_Remap_def hash_MaterialInfo_def hash_Mesh_def
        example_options_def emit_meshes_def emit_mesh_def emit_mesh_indices_def
        emit_mesh_material_def emit_mesh_buffers_def emit_buffer_def
        emit_accessor_def set_accessor_type_def upd_mesh_def resize_def memcpy_at_def
        mesh_attributes_def align16_eq)

lemma unwalked_bad_format_bake:
  "\<exists>js s. bake_scene example_hasher unwalked_bad_format_scene example_options = Inr (js, s) \<and>
     image_cache s = []"
  by (simp add: bake_scene_def unwalked_bad_format_scene_def bad_format_mesh_def
        bind_result_def Let_def
        initial_state_def empty_Remap_def hash_MaterialInfo_def hash_Mesh_def
        example_options_def mesh_attributes_def)

text \<open>
  The export of a scene whose walked mesh has the position format
  \<open>VK_FORMAT_R64_SFLOAT\<close> does not return false: it raises. With the same mesh not
  walked by any node, the export returns true.
\<close>

theorem unsupported_format_counterexample:
  "export_scene_to_glb example_collaborators bad_format_scene ''out.glb'' example_options
     = Inl (Raised (InvalidArgument ''Unsupported format.'')) \<and>
   \<not> isl (export_scene_to_glb example_collaborators unwalked_bad_format_scene ''out.glb''
            example_options) \<and>
   returned (projr (export_scene_to_glb example_collaborators unwalked_bad_format_scene
                      ''out.glb'' example_options))"
proof -
  have hg: "hasher_get example_collaborators = example_hasher"
    by (simp add: example_collaborators_def)
  have a: "export_scene_to_glb example_collaborators bad_format_scene ''out.glb'' example_options
     = Inl (Raised (InvalidArgument ''Unsupported format.''))"
    using bad_format_bake by (simp add: export_scene_to_glb_def hg Let_def)
  obtain js s where b: "bake_scene example_hasher unwalked_bad_format_scene example_options
      = Inr (js, s)" and i: "image_cache s = []"
    using unwalked_bad_format_bake by blast
  have c: "\<exists>r. export_scene_to_glb example_collaborators unwalked_bad_format_scene ''out.glb''
            example_options = Inr r \<and> returned r"
    using b i by (simp add: export_scene_to_glb_def hg Let_def)
       (simp add: example_collaborators_def)
  show ?thesis using a c by auto
qed

lemma export_returned:
  assumes "export_scene_to_glb ext scene out_path opts = Inr r"
  shows "returned r = (fs_open ext out_path \<and>
             fs_map_write ext out_path
               (glb_size (length (json_write ext (document r)))
                  (length (glb_buffer_data (final_state r)))))"
  using export_Inr [OF assms] by blast

lemma swizzled_bake:
  "\<exists>js s. bake_scene example_hasher swizzled_scene example_options = Inr (js, s) \<and>
     map img_swizzle (image_cache s)
       = [mapping_of VK_COMPONENT_SWIZZLE_R VK_COMPONENT_SWIZZLE_G
            VK_COMPONENT_SWIZZLE_B VK_COMPONENT_SWIZZLE_ONE] \<and>
     map img_mode (image_cache s) = [sRGB]"
  by (simp add: bake_scene_def swizzled_scene_def triangle_mesh_def swizzled_material_def
        bind_result_def Let_def
        initial_state_def empty_Remap_def hash_MaterialInfo_def hash_Mesh_def
        example_options_def emit_meshes_def emit_mesh_def emit_mesh_indices_def
        emit_mesh_material_def emit_mesh_buffers_def emit_buffer_def emit_material_def
        material_slot_def emit_texture_def emit_image_def emit_sampler_def upd_material_def
        emit_accessor_def set_accessor_type_def upd_mesh_def resize_def memcpy_at_def
        mesh_attributes_def align16_eq example_hasher_def vec3_list_def vec4_list_def)

subsection \<open>A shared position accessor carries the box of the mesh emitted last\<close>








































subsection \<open>The materials array is as long as the largest emitted material index requires\<close>

lemma materials_kept_refl: "materials_kept s s"
  by (simp add: materials_kept_def)

lemma materials_kept_trans:
  "materials_kept s s' \<Longrightarrow> materials_kept s' s'' \<Longrightarrow> materials_kept s s''"
  by (simp add: materials_kept_def)

lemma material_entry_only_refl: "material_entry_only rm s s"
  by (simp add: material_entry_only_def)

lemma material_entry_only_trans:
  "material_entry_only rm s s' \<Longrightarrow> material_entry_only rm s' s'' \<Longrightarrow>
   material_entry_only rm s s''"
  by (simp add: material_entry_only_def)

lemma materials_kept_entry_only: "materials_kept s s' \<Longrightarrow> material_entry_only rm s s'"
  by (simp add: materials_kept_def material_entry_only_def)

lemma emit_buffer_materials: "materials_kept s (snd (emit_buffer H s view stride))"
  by (simp add: emit_buffer_def Let_def materials_kept_def split: option.splits)

lemma emit_accessor_materials:
  "emit_accessor H s v fmt off stride cnt = Inr (a, s') \<Longrightarrow> materials_kept s s'"
  by (auto simp add: emit_accessor_def Let_def bind_result_def materials_kept_def
        split: option.splits sum.splits)

lemma emit_image_materials: "materials_kept s (snd (emit_image H s t type compr quality mode))"
  by (simp add: emit_image_def Let_def materials_kept_def split: option.splits)

lemma emit_sampler_materials: "materials_kept s (snd (emit_sampler H s smp))"
  by (simp add: emit_sampler_def Let_def materials_kept_def split: option.splits)

lemma emit_texture_materials:
  "materials_kept s (snd (emit_texture H s t smp type compr quality mode))"
proof -
  obtain i s1 where 1: "emit_image H s t type compr quality mode = (i, s1)" by force
  obtain j s2 where 2: "emit_sampler H s1 smp = (j, s2)" by force
  have g1: "materials_kept s s1"
    using emit_image_materials [of s H t type compr quality mode] 1 by simp
  have g2: "materials_kept s1 s2" using emit_sampler_materials [of s1 H smp] 2 by simp
  have g3: "materials_kept s2 (snd (emit_texture H s t smp type compr quality mode))"
    by (simp add: emit_texture_def 1 2 Let_def materials_kept_def split: option.splits)
  show ?thesis by (rule materials_kept_trans [OF materials_kept_trans [OF g1 g2] g3])
qed

lemma upd_mesh_materials: "materials_kept s (upd_mesh s i f)"
  by (simp add: upd_mesh_def materials_kept_def)

lemma upd_material_entry_only: "material_entry_only rm s (upd_material s rm f)"
  by (simp add: upd_material_def material_entry_only_def)

lemma material_slot_entry_only:
  "material_entry_only rm s (material_slot H s rm tex smp type mode set_slot)"
proof (cases "path tex = []")
  case True
  then show ?thesis by (simp add: material_slot_def material_entry_only_refl)
next
  case False
  obtain t s' where e: "emit_texture H s tex smp type (compression (options s))
                (texcomp_quality (options s)) mode = (t, s')" by force
  have "materials_kept s s'"
    using emit_texture_materials [of s H tex smp type "compression (options s)"
            "texcomp_quality (options s)" mode] e by simp
  then have "material_entry_only rm s s'" by (rule materials_kept_entry_only)
  then show ?thesis
    using False e
    by (simp add: material_slot_def
          material_entry_only_trans [OF _ upd_material_entry_only])
qed

lemma emit_material_cache:
  assumes "emit_material H s rm = Inr s'"
  shows "length (material_cache s') = max (length (material_cache s)) (rm + 1) \<and>
         (\<forall>j. j \<noteq> rm \<and> j < length (material_cache s) \<longrightarrow>
              material_cache s' ! j = material_cache s ! j) \<and>
         (\<forall>j. j \<noteq> rm \<and> length (material_cache s) \<le> j \<and> j < rm + 1 \<longrightarrow>
              material_cache s' ! j = default_EmittedMaterial) \<and>
         material_hash s' = material_hash s \<and> mesh_hash s' = mesh_hash s"
proof -
  define s0 where "s0 = s\<lparr>material_cache := resize (material_cache s)
                     (max (length (material_cache s)) (rm + 1)) default_EmittedMaterial\<rparr>"
  have "material_entry_only rm s0 s'"
    using assms
    unfolding emit_material_def Let_def s0_def [symmetric]
    by (auto split: if_splits
          intro!: material_entry_only_trans [OF _ upd_material_entry_only]
            material_entry_only_trans [OF _ material_slot_entry_only]
            material_entry_only_refl)
  moreover have "length (material_cache s0) = max (length (material_cache s)) (rm + 1)"
    by (simp add: s0_def resize_def)
  moreover have "j < length (material_cache s) \<Longrightarrow> material_cache s0 ! j = material_cache s ! j"
    for j by (simp add: s0_def resize_def nth_append)
  moreover have "length (material_cache s) \<le> j \<Longrightarrow> j < rm + 1 \<Longrightarrow>
      material_cache s0 ! j = default_EmittedMaterial" for j
    by (simp add: s0_def resize_def nth_append)
  moreover have "material_hash s0 = material_hash s" "mesh_hash s0 = mesh_hash s"
    by (simp_all add: s0_def)
  ultimately show ?thesis
    by (simp add: material_entry_only_def)
qed

lemma material_count_insert:
  "finite R \<Longrightarrow> material_count (insert x R) = max (material_count R) (x + 1)"
proof (cases "R = {}")
  case True
  then show ?thesis by (simp add: material_count_def)
next
  case False
  assume "finite R"
  then have "Max (insert x R) = max x (Max R)" using False by (rule Max_insert)
  then show ?thesis using False by (simp add: material_count_def max_def)
qed

lemma materials_inv_kept:
  "materials_kept s s' \<Longrightarrow> materials_inv s \<Longrightarrow> materials_inv s'"
  by (simp add: materials_kept_def materials_inv_def)

lemma emit_mesh_material_inv:
  assumes e: "emit_mesh_material H m s = Inr s'" and inv: "materials_inv s"
  shows "materials_inv s' \<and> mesh_hash s' = mesh_hash s \<and>
         material_hash s' = material_hash s \<union>
           (if has_material m then {to_index (material s) ! material_index m} else {})"
proof (cases "has_material m \<and> to_index (material s) ! material_index m \<notin> material_hash s")
  case False
  then have "s' = s"
    using e by (auto simp add: emit_mesh_material_def Let_def split: if_splits)
  then show ?thesis using inv False by auto
next
  case True
  define rm where "rm = to_index (material s) ! material_index m"
  from e True obtain s1 where
    em: "emit_material H s rm = Inr s1"
    and s': "s' = s1\<lparr>material_hash := insert rm (material_hash s1)\<rparr>"
    by (auto simp add: emit_mesh_material_def Let_def rm_def bind_result_def
          split: if_splits sum.splits)
  note c = emit_material_cache [OF em]
  have len: "length (material_cache s') = max (length (material_cache s)) (rm + 1)"
    using c by (simp add: s')
  have hash: "material_hash s' = insert rm (material_hash s)"
    using c by (simp add: s')
  have fin: "finite (material_hash s)" using inv by (simp add: materials_inv_def)
  have l0: "length (material_cache s) = material_count (material_hash s)"
    using inv by (simp add: materials_inv_def)
  have d0: "\<And>i. i < length (material_cache s) \<Longrightarrow> i \<notin> material_hash s \<Longrightarrow>
               material_cache s ! i = default_EmittedMaterial"
    using inv by (simp add: materials_inv_def)
  have i1: "finite (material_hash s')" using fin hash by simp
  have i2: "length (material_cache s') = material_count (material_hash s')"
    by (simp add: len hash material_count_insert [OF fin] l0)
  have i3: "material_cache s' ! i = default_EmittedMaterial"
    if "i < length (material_cache s')" "i \<notin> material_hash s'" for i
  proof (cases "i < length (material_cache s)")
    case True
    then have "material_cache s' ! i = material_cache s ! i"
      using c that hash by (simp add: s')
    then show ?thesis using d0 [OF True] that hash by simp
  next
    case False
    then have "length (material_cache s) \<le> i" "i < rm + 1" "i \<noteq> rm"
      using that len hash by auto
    then show ?thesis using c by (simp add: s')
  qed
  have "mesh_hash s' = mesh_hash s" using c by (simp add: s')
  then show ?thesis
    using i1 i2 i3 hash True
    by (simp add: materials_inv_def rm_def)
qed

lemma emit_mesh_indices_materials:
  assumes "emit_mesh_indices H m ri s = Inr s'"
  shows "materials_kept s s'"
proof (cases "indices m = []")
  case True
  then show ?thesis
    using assms by (auto simp add: emit_mesh_indices_def Let_def upd_mesh_materials)
next
  case False
  define st :: nat where "st = (if index_type m = VK_INDEX_TYPE_UINT16 then 2 else 4)"
  obtain index s1 where b: "emit_buffer H s (indices m) st = (index, s1)" by force
  have g1: "materials_kept s s1" using emit_buffer_materials [of s H "indices m" st] b by simp
  from assms False b obtain a s2 where
    acc: "emit_accessor H s1 index
            (if index_type m = VK_INDEX_TYPE_UINT16 then VK_FORMAT_R16_UINT
             else VK_FORMAT_R32_UINT) 0 st (count m) = Inr (a, s2)"
    and s': "s' = upd_mesh s2 ri (\<lambda>emit. emit\<lparr>em_index_accessor := int a\<rparr>)"
    by (auto simp add: emit_mesh_indices_def Let_def st_def bind_result_def
          split: sum.splits prod.splits)
  have g2: "materials_kept s1 s2" by (rule emit_accessor_materials [OF acc])
  show ?thesis
    unfolding s'
    by (rule materials_kept_trans [OF materials_kept_trans [OF g1 g2] upd_mesh_materials])
qed

lemma emit_mesh_buffers_materials:
  assumes "emit_mesh_buffers H m s = (pb, ab, s')"
  shows "materials_kept s s'"
proof -
  define r1 where "r1 = (if positions m \<noteq> [] then emit_buffer H s (positions m) (position_stride m)
             else (0, s))"
  define r2 where "r2 = (if attributes m \<noteq> []
             then emit_buffer H (snd r1) (attributes m) (attribute_stride m) else (0, snd r1))"
  have g1: "materials_kept s (snd r1)"
    unfolding r1_def by (simp add: emit_buffer_materials materials_kept_refl)
  have g2: "materials_kept (snd r1) (snd r2)"
    unfolding r2_def by (simp add: emit_buffer_materials materials_kept_refl)
  have "s' = snd r2"
    using assms
    by (simp add: emit_mesh_buffers_def Let_def r1_def r2_def split_beta split: if_splits)
  then show ?thesis using materials_kept_trans [OF g1 g2] by simp
qed

lemma accessor_update_materials:
  "materials_kept s (s\<lparr>accessor_cache := x\<rparr>)"
  by (simp add: materials_kept_def)

lemma emit_mesh_attributes_materials:
  "emit_mesh_attributes H m ri pb ab attrs s = Inr s' \<Longrightarrow> materials_kept s s'"
proof (induction attrs arbitrary: s)
  case Nil
  then show ?case by (simp add: materials_kept_refl)
next
  case (Cons i rest)
  show ?case
  proof (cases "format (attribute_layout m i) = VK_FORMAT_UNDEFINED")
    case True
    then show ?thesis using Cons by simp
  next
    case False
    define s1 where "s1 = upd_mesh s ri (\<lambda>emit. emit\<lparr>em_attribute_mask :=
                   em_attribute_mask emit OR push_bit (ecast_attribute i) 1\<rparr>)"
    have g1: "materials_kept s s1" unfolding s1_def by (rule upd_mesh_materials)
    show ?thesis
    proof (cases "i = Position")
      case True
      from Cons.prems False True obtain a s2 where
        acc: "emit_accessor H s1 pb (format (attribute_layout m i))
                (offset (attribute_layout m i)) (position_stride m)
                (length (positions m) div position_stride m) = Inr (a, s2)"
        and rest: "emit_mesh_attributes H m ri pb ab rest
            ((upd_mesh s2 ri (\<lambda>emit. emit\<lparr>em_attribute_accessor :=
                                  (em_attribute_accessor emit)(i := int a)\<rparr>))
               \<lparr>accessor_cache := (accessor_cache (upd_mesh s2 ri (\<lambda>emit. emit\<lparr>em_attribute_accessor :=
                                  (em_attribute_accessor emit)(i := int a)\<rparr>)))
                  [a := (accessor_cache (upd_mesh s2 ri (\<lambda>emit. emit\<lparr>em_attribute_accessor :=
                                  (em_attribute_accessor emit)(i := int a)\<rparr>)) ! a)
                        \<lparr>acc_aabb := static_aabb m, acc_use_aabb := True\<rparr>]\<rparr>) = Inr s'"
        by (auto simp add: Let_def s1_def bind_result_def split: if_splits sum.splits)
      have g2: "materials_kept s1 s2" by (rule emit_accessor_materials [OF acc])
      show ?thesis
        by (rule materials_kept_trans [OF materials_kept_trans [OF materials_kept_trans
              [OF materials_kept_trans [OF g1 g2]
                upd_mesh_materials] accessor_update_materials] Cons.IH [OF rest]])
    next
      case nonpos: False
      from Cons.prems False nonpos obtain a s2 where
        acc: "emit_accessor H s1 ab (format (attribute_layout m i))
                (offset (attribute_layout m i)) (attribute_stride m)
                (length (attributes m) div attribute_stride m) = Inr (a, s2)"
        and rest: "emit_mesh_attributes H m ri pb ab rest
            (upd_mesh s2 ri (\<lambda>emit. emit\<lparr>em_attribute_accessor :=
                                  (em_attribute_accessor emit)(i := int a)\<rparr>)) = Inr s'"
        by (auto simp add: Let_def s1_def bind_result_def split: if_splits sum.splits)
      have g2: "materials_kept s1 s2" by (rule emit_accessor_materials [OF acc])
      show ?thesis
        by (rule materials_kept_trans [OF materials_kept_trans [OF materials_kept_trans
              [OF g1 g2] upd_mesh_materials] Cons.IH [OF rest]])
    qed
  qed
qed

lemma resize_mesh_materials: "materials_kept s (s\<lparr>mesh_cache := x\<rparr>)"
  by (simp add: materials_kept_def)

lemma emit_mesh_materials:
  assumes e: "emit_mesh H s ri = Inr s'" and inv: "materials_inv s"
  shows "materials_inv s' \<and> mesh_hash s' = mesh_hash s \<and>
         material_hash s' = material_hash s \<union> mesh_materials s ri"
proof -
  define m where "m = info (mesh s) ! ri"
  define s1 where "s1 = upd_mesh (s\<lparr>mesh_cache := resize (mesh_cache s)
                     (max (length (mesh_cache s)) (ri + 1)) default_EmittedMesh\<rparr>) ri
                 (\<lambda>emit. emit\<lparr>em_material :=
                   (if has_material m then int (material_index m) else - 1)\<rparr>)"
  from e obtain s2 s3 pb ab s5 where
    i: "emit_mesh_indices H m ri s1 = Inr s2"
    and ma: "emit_mesh_material H m s2 = Inr s3"
    and bu: "emit_mesh_buffers H m s3 = (pb, ab, s5)"
    and at: "emit_mesh_attributes H m ri pb ab mesh_attributes
               (upd_mesh s5 ri (\<lambda>emit. emit\<lparr>em_attribute_mask := 0\<rparr>)) = Inr s'"
    by (auto simp add: emit_mesh_def Let_def m_def s1_def bind_result_def
          split: if_splits sum.splits prod.splits)
  have k1: "materials_kept s s1"
    unfolding s1_def by (rule materials_kept_trans [OF resize_mesh_materials upd_mesh_materials])
  have k2: "materials_kept s s2"
    by (rule materials_kept_trans [OF k1 emit_mesh_indices_materials [OF i]])
  have g1: "grows s s1"
    unfolding s1_def by (rule grows_trans [OF resize_mesh_grows upd_mesh_grows])
  have g2: "grows s s2"
    by (rule grows_trans [OF g1 emit_mesh_indices_grows [OF i]])
  have inv2: "materials_inv s2" by (rule materials_inv_kept [OF k2 inv])
  note step = emit_mesh_material_inv [OF ma inv2]
  have k3: "materials_kept s3 s'"
    by (rule materials_kept_trans [OF materials_kept_trans
          [OF emit_mesh_buffers_materials [OF bu] upd_mesh_materials]
          emit_mesh_attributes_materials [OF at]])
  have mat: "material s2 = material s" using g2 by (simp add: grows_def)
  show ?thesis
    using step k2 k3 materials_inv_kept [OF k3]
    by (simp add: materials_kept_def mesh_materials_def m_def mat)
qed

lemma mesh_materials_grows: "grows s s' \<Longrightarrow> mesh_materials s' c = mesh_materials s c"
  by (simp add: grows_def mesh_materials_def)

lemma referenced_materials_grows:
  "grows s s' \<Longrightarrow> referenced_materials s' W = referenced_materials s W"
  by (simp add: referenced_materials_def mesh_materials_grows)

lemma walked_meshes_grows: "grows s s' \<Longrightarrow> walked_meshes s' ns = walked_meshes s ns"
  by (simp add: grows_def walked_meshes_def)

lemma referenced_materials_insert:
  "referenced_materials s (insert c W) = mesh_materials s c \<union> referenced_materials s W"
  by (simp add: referenced_materials_def)

lemma referenced_materials_union:
  "referenced_materials s (V \<union> W) = referenced_materials s V \<union> referenced_materials s W"
  by (simp add: referenced_materials_def)

lemma walk_inv_kept:
  assumes k: "materials_kept s s'" and g: "grows s s'" and inv: "walk_inv s"
  shows "walk_inv s'"
  using inv materials_inv_kept [OF k] k referenced_materials_grows [OF g]
  by (simp add: walk_inv_def materials_kept_def)

lemma emit_meshes_step_walk:
  assumes step: "(if ri \<notin> mesh_hash s then
              bind_result (emit_mesh H s ri)
                (\<lambda>s'. Inr (s'\<lparr>mesh_hash := insert ri (mesh_hash s')\<rparr>))
            else Inr s) = Inr s1"
    and inv: "walk_inv s"
  shows "walk_inv s1 \<and> mesh_hash s1 = insert ri (mesh_hash s) \<and> grows s s1"
proof (cases "ri \<in> mesh_hash s")
  case True
  then have "s1 = s" using step by simp
  then show ?thesis using inv True by (auto simp add: grows_refl)
next
  case False
  from step False obtain s0 where
    em: "emit_mesh H s ri = Inr s0"
    and s1: "s1 = s0\<lparr>mesh_hash := insert ri (mesh_hash s0)\<rparr>"
    by (auto simp add: bind_result_def split: sum.splits)
  have mi: "materials_inv s" using inv by (simp add: walk_inv_def)
  note r = emit_mesh_materials [OF em mi]
  have g0: "grows s s0" by (rule emit_mesh_grows [OF em])
  have g1: "grows s s1"
    unfolding s1 by (rule grows_trans [OF g0 insert_mesh_hash_grows])
  have h: "mesh_hash s1 = insert ri (mesh_hash s)" using r by (simp add: s1)
  have mh: "material_hash s1 = material_hash s \<union> mesh_materials s ri"
    using r by (simp add: s1)
  have m0: "materials_inv s0" using r by simp
  have m1: "materials_inv s1"
    using m0 by (simp add: s1 materials_inv_def)
  have "material_hash s1 = referenced_materials s1 (mesh_hash s1)"
    using inv
    by (simp add: mh h referenced_materials_grows [OF g1] referenced_materials_insert
          mesh_materials_grows [OF g1] walk_inv_def Un_commute)
  then show ?thesis using m1 h g1 by (simp add: walk_inv_def)
qed

lemma emit_meshes_loop_walk:
  "emit_meshes_loop H ms eh mg s = Inr (eh', mg', s') \<Longrightarrow> walk_inv s \<Longrightarrow>
   walk_inv s' \<and> mesh_hash s' = mesh_hash s \<union> (\<lambda>i. to_index (mesh s) ! i) ` set ms"
proof (induction ms arbitrary: eh mg s)
  case Nil
  then show ?case by simp
next
  case (Cons i rest)
  define ri where "ri = to_index (mesh s) ! i"
  from Cons.prems(1) obtain s1 where
    step: "(if ri \<notin> mesh_hash s then
              bind_result (emit_mesh H s ri)
                (\<lambda>s'. Inr (s'\<lparr>mesh_hash := insert ri (mesh_hash s')\<rparr>))
            else Inr s) = Inr s1"
    and rest: "emit_meshes_loop H rest (eh @ [H_u32 ri]) (mg @ [ri]) s1 = Inr (eh', mg', s')"
    by (auto simp add: Let_def ri_def bind_result_def split: if_splits sum.splits)
  note r = emit_meshes_step_walk [OF step Cons.prems(2)]
  have m: "mesh s1 = mesh s" using r by (simp add: grows_def)
  from Cons.IH [OF rest] r
  show ?case by (auto simp add: m ri_def)
qed

lemma mesh_group_materials:
  "materials_kept s (s\<lparr>mesh_group_cache := c, mesh_group_hash := h\<rparr>)"
  by (simp add: materials_kept_def)

lemma emit_meshes_walk:
  assumes e: "emit_meshes H s ms = Inr (g, s')" and inv: "walk_inv s"
  shows "walk_inv s' \<and> mesh_hash s' = mesh_hash s \<union> (\<lambda>i. to_index (mesh s) ! i) ` set ms"
proof -
  from e obtain eh mg s1 where
    loop: "emit_meshes_loop H ms [] [] s = Inr (eh, mg, s1)"
    and s': "s' = s1 \<or> s' = s1\<lparr>mesh_group_cache := mesh_group_cache s1 @ [mg],
                       mesh_group_hash := (mesh_group_hash s1)(H eh \<mapsto> length (mesh_group_cache s1))\<rparr>"
    by (auto simp add: emit_meshes_def bind_result_def Let_def
          split: sum.splits option.splits prod.splits)
  note r = emit_meshes_loop_walk [OF loop inv]
  have w: "walk_inv s1" using r by simp
  show ?thesis
    using s' r walk_inv_kept [OF mesh_group_materials mesh_group_grows w]
    by auto
qed

lemma emit_nodes_walk:
  "emit_nodes H scene ns k s = Inr (js, s') \<Longrightarrow> walk_inv s \<Longrightarrow>
   walk_inv s' \<and> mesh_hash s' = mesh_hash s \<union> walked_meshes s ns"
proof (induction ns arbitrary: k s js)
  case Nil
  then show ?case by (simp add: walked_meshes_def)
next
  case (Cons node rest)
  from Cons.prems(1) obtain mm s1 js' where
    step: "(if meshes node \<noteq> [] then
          bind_result (emit_meshes H s (meshes node))
            (\<lambda>(g, s'). Inr ([(''mesh'', JNat g)], s'))
        else Inr ([], s)) = Inr (mm, s1)"
    and rest: "emit_nodes H scene rest (k + 1) s1 = Inr (js', s')"
    by (auto simp add: bind_result_def split: sum.splits prod.splits)
  have r: "walk_inv s1 \<and>
           mesh_hash s1 = mesh_hash s \<union> (\<lambda>i. to_index (mesh s) ! i) ` set (meshes node) \<and>
           grows s s1"
  proof (cases "meshes node = []")
    case True
    then have "s1 = s" using step by simp
    then show ?thesis using Cons.prems(2) True by (simp add: grows_refl)
  next
    case False
    from step False obtain g where em: "emit_meshes H s (meshes node) = Inr (g, s1)"
      by (auto simp add: bind_result_def split: sum.splits prod.splits)
    show ?thesis
      using emit_meshes_walk [OF em Cons.prems(2)] emit_meshes_grows [OF em] by simp
  qed
  have w: "walked_meshes s1 rest = walked_meshes s rest"
    using r by (simp add: walked_meshes_grows)
  have c: "walked_meshes s (node # rest)
             = (\<lambda>i. to_index (mesh s) ! i) ` set (meshes node) \<union> walked_meshes s rest"
    by (simp add: walked_meshes_def)
  from Cons.IH [OF rest] r
  show ?case by (simp add: w c Un_assoc)
qed

lemma environment_slot_materials:
  "materials_kept s (snd (environment_slot H s p compr quality))"
proof (cases "p = []")
  case True
  then show ?thesis by (simp add: environment_slot_def materials_kept_refl)
next
  case False
  then show ?thesis
    using emit_texture_materials [of s H "\<lparr>path = p, swizzle = rgba_mapping\<rparr>" LinearClamp
            Emissive compr quality HDR]
    by (simp add: environment_slot_def split_beta)
qed

lemma environment_slot_state_grows:
  "grows s (snd (environment_slot H s p compr quality))"
proof (cases "p = []")
  case True
  then show ?thesis by (simp add: environment_slot_def grows_refl)
next
  case False
  then show ?thesis
    using emit_texture_grows [of s H "\<lparr>path = p, swizzle = rgba_mapping\<rparr>" LinearClamp
            Emissive compr quality HDR]
    by (simp add: environment_slot_def split_beta)
qed

lemma emit_environment_walk:
  "material_cache (emit_environment H s c r i intens fogc fogf compr quality) = material_cache s \<and>
   material_hash (emit_environment H s c r i intens fogc fogf compr quality) = material_hash s \<and>
   mesh_hash (emit_environment H s c r i intens fogc fogf compr quality) = mesh_hash s \<and>
   mesh (emit_environment H s c r i intens fogc fogf compr quality) = mesh s \<and>
   material (emit_environment H s c r i intens fogc fogf compr quality) = material s"
proof -
  obtain t1 s1 where 1: "environment_slot H s c compr quality = (t1, s1)" by force
  obtain t2 s2 where 2: "environment_slot H s1 r compr quality = (t2, s2)" by force
  obtain t3 s3 where 3: "environment_slot H s2 i compr quality = (t3, s3)" by force
  have k: "materials_kept s s1" "materials_kept s1 s2" "materials_kept s2 s3"
    using environment_slot_materials [of s H c compr quality]
      environment_slot_materials [of s1 H r compr quality]
      environment_slot_materials [of s2 H i compr quality] 1 2 3 by simp_all
  have g: "grows s s1" "grows s1 s2" "grows s2 s3"
    using environment_slot_state_grows [of s H c compr quality]
      environment_slot_state_grows [of s1 H r compr quality]
      environment_slot_state_grows [of s2 H i compr quality] 1 2 3 by simp_all
  show ?thesis
    using k g by (simp add: emit_environment_slots 1 2 3 materials_kept_def grows_def)
qed

lemma material_count_empty: "material_count {} = 0"
  by (simp add: material_count_def)

lemma environment_state_walk:
  "walk_inv (environment_state H opts (filtered_state opts mats ms)) \<and>
   mesh_hash (environment_state H opts (filtered_state opts mats ms)) = {}"
  by (simp add: environment_state_def Let_def emit_environment_walk walk_inv_def
        materials_inv_def referenced_materials_def filtered_state_def initial_state_def
        material_count_empty)

lemma bake_scene_materials:
  assumes "bake_scene H scene opts = Inr (js, s)"
  shows "materials_inv s \<and>
         material_hash s = referenced_materials s (walked_meshes s (nodes scene))"
proof -
  from bake_scene_Inr [OF assms] obtain mats ms where
    walk: "emit_nodes H scene (nodes scene) 0
             (environment_state H opts (filtered_state opts mats ms)) = Inr (js, s)"
    by blast
  define s3 where "s3 = environment_state H opts (filtered_state opts mats ms)"
  have inv: "walk_inv s3" and e: "mesh_hash s3 = {}"
    using environment_state_walk [of H opts mats ms] by (simp_all add: s3_def)
  note r = emit_nodes_walk [OF walk [folded s3_def] inv]
  have g: "grows s3 s" by (rule emit_nodes_grows [OF walk [folded s3_def]])
  show ?thesis
    using r e by (simp add: walk_inv_def walked_meshes_grows [OF g])
qed

lemma document_materials:
  "json_member (build_document scene s nodes_json images_json) ''materials''
     = Some (JArray (map material_json (material_cache s)))"
  by (simp add: build_document_def)

lemma material_json_default:
  "material_json default_EmittedMaterial = JObject [(''pbrMetallicRoughness'', JObject [])]"
  by (simp add: material_json_def default_EmittedMaterial_def)

text \<open>
  Claim C9. When the export returns, the \<open>materials\<close> member of the document is an
  array with one entry for each entry of the material cache. With \<open>R\<close> the canonical
  material indices referenced by the canonical meshes of the meshes the nodes list, the
  array has \<open>M\<close> entries, where \<open>M\<close> is 0 if \<open>R\<close> is empty and one more than the largest
  member of \<open>R\<close> otherwise; so no index from \<open>M\<close> on has an entry. An index below \<open>M\<close>
  that is not in \<open>R\<close> has the default entry, whatever the input material at that index
  holds: no texture slot, the default uniforms, opaque and single-sided, written as an
  object whose only member is an empty \<open>pbrMetallicRoughness\<close>.
\<close>

theorem materials_array_length:
  assumes "export_scene_to_glb ext scene out_path opts = Inr r"
    and "s = final_state r"
    and "R = referenced_materials s (walked_meshes s (nodes scene))"
    and "M = material_count R"
  shows "\<exists>entries.
           json_member (document r) ''materials'' = Some (JArray entries) \<and>
           entries = map material_json (material_cache s) \<and>
           length entries = M \<and>
           (\<forall>i < M. i \<notin> R \<longrightarrow>
              material_cache s ! i = default_EmittedMaterial \<and>
              entries ! i = JObject [(''pbrMetallicRoughness'', JObject [])])"
proof -
  from export_Inr [OF assms(1)] obtain js imgs where
    bake: "bake_scene (hasher_get ext) scene opts = Inr (js, s)"
    and doc: "document r = build_document scene s js imgs"
    unfolding assms(2) by blast
  note b = bake_scene_materials [OF bake]
  have len: "length (material_cache s) = M"
    using b by (simp add: materials_inv_def assms(3,4))
  have d: "material_cache s ! i = default_EmittedMaterial" if "i < M" "i \<notin> R" for i
    using b that len by (simp add: materials_inv_def assms(3))
  show ?thesis
    using len d
    by (simp add: doc document_materials material_json_default)
qed

lemma unused_material_bake:
  "\<exists>js s. bake_scene example_hasher unused_material_scene example_options = Inr (js, s) \<and>
     to_index (mesh s) = [0] \<and> info (mesh s) = [triangle_mesh\<lparr>material_index := 1\<rparr>] \<and>
     to_index (material s) = [0, 1] \<and> info (material s) = [unused_material, used_material] \<and>
     image_cache s = [] \<and>
     material_cache s ! 1 = default_EmittedMaterial\<lparr>mat_uniform_metallic := 0\<rparr>"
  by (simp add: bake_scene_def unused_material_scene_def triangle_mesh_def unused_material_def
        used_material_def bind_result_def Let_def
        initial_state_def empty_Remap_def hash_MaterialInfo_def hash_Mesh_def
        example_options_def emit_meshes_def emit_mesh_def emit_mesh_indices_def
        emit_mesh_material_def emit_mesh_buffers_def emit_buffer_def emit_material_def
        material_slot_def upd_material_def default_EmittedMaterial_def
        emit_accessor_def set_accessor_type_def upd_mesh_def resize_def memcpy_at_def
        mesh_attributes_def align16_eq example_hasher_def vec3_list_def vec4_list_def)

theorem materials_array_length_witness:
  "\<exists>r. export_scene_to_glb example_collaborators unused_material_scene ''out.glb'' example_options
          = Inr r \<and>
       info (material (final_state r)) = [unused_material, used_material] \<and>
       referenced_materials (final_state r)
         (walked_meshes (final_state r) (nodes unused_material_scene)) = {1} \<and>
       json_member (document r) ''materials''
         = Some (JArray [JObject [(''pbrMetallicRoughness'', JObject [])],
                         JObject [(''pbrMetallicRoughness'',
                                   JObject [(''metallicFactor'', JReal 0)])]])"
proof -
  from unused_material_bake obtain js s where
    bake: "bake_scene example_hasher unused_material_scene example_options = Inr (js, s)"
    and ms: "to_index (mesh s) = [0]" "info (mesh s) = [triangle_mesh\<lparr>material_index := 1\<rparr>]"
    and mats: "to_index (material s) = [0, 1]"
      "info (material s) = [unused_material, used_material]"
    and images: "image_cache s = []"
    and used: "material_cache s ! 1 = default_EmittedMaterial\<lparr>mat_uniform_metallic := 0\<rparr>"
    by (elim exE conjE)
  have "\<exists>r. export_scene_to_glb example_collaborators unused_material_scene ''out.glb''
               example_options = Inr r \<and> final_state r = s"
    using bake images
    by (simp add: export_scene_to_glb_def Let_def example_collaborators_def split: prod.splits)
  then obtain r where
    ex: "export_scene_to_glb example_collaborators unused_material_scene ''out.glb''
           example_options = Inr r"
    and fs: "final_state r = s"
    by blast
  have R: "referenced_materials s (walked_meshes s (nodes unused_material_scene)) = {1}"
    by (simp add: referenced_materials_def walked_meshes_def mesh_materials_def ms mats
          unused_material_scene_def triangle_mesh_def)
  from materials_array_length [OF ex fs [symmetric] refl refl] obtain entries where
    doc: "json_member (document r) ''materials'' = Some (JArray entries)"
    and entries: "entries = map material_json (material_cache s)"
    and len: "length entries = 2"
    and first: "entries ! 0 = JObject [(''pbrMetallicRoughness'', JObject [])]"
    unfolding R by (auto simp add: material_count_def)
  have second: "entries ! 1
      = JObject [(''pbrMetallicRoughness'', JObject [(''metallicFactor'', JReal 0)])]"
    using len
    by (simp add: entries used [unfolded One_nat_def] material_json_def
          default_EmittedMaterial_def)
  have "entries = [entries ! 0, entries ! 1]"
    using len by (cases entries; cases "tl entries") auto
  then have "entries = [JObject [(''pbrMetallicRoughness'', JObject [])],
                        JObject [(''pbrMetallicRoughness'',
                                 JObject [(''metallicFactor'', JReal 0)])]]"
    by (simp only: first second)
  then show ?thesis
    using ex doc R mats by (simp add: fs)
qed

subsection \<open>One image job per key\<close>

lemma digit_char_inj: "a < 10 \<Longrightarrow> b < 10 \<Longrightarrow> digit_char a = digit_char b \<Longrightarrow> a = b"
proof -
  assume a: "a < 10" and b: "b < 10" and e: "digit_char a = digit_char b"
  have d: "distinct ''0123456789''" by simp
  have "length ''0123456789'' = 10" by simp
  with a b e d show ?thesis
    unfolding digit_char_def by (simp add: nth_eq_iff_index_eq)
qed

lemma to_string_nat_nonempty: "to_string_nat n \<noteq> []"
  by (subst to_string_nat.simps) simp

lemma to_string_nat_inj: "to_string_nat a = to_string_nat b \<Longrightarrow> a = b"
proof (induction a arbitrary: b rule: to_string_nat.induct)
  case (1 n)
  show ?case
  proof (cases "n < 10")
    case True
    have n: "to_string_nat n = [digit_char n]" using True by (subst to_string_nat.simps) simp
    show ?thesis
    proof (cases "b < 10")
      case b: True
      have "to_string_nat b = [digit_char b]" using b by (subst to_string_nat.simps) simp
      with n "1.prems" True b show ?thesis by (simp add: digit_char_inj)
    next
      case b: False
      have "to_string_nat b = to_string_nat (b div 10) @ [digit_char (b mod 10)]"
        using b by (subst to_string_nat.simps) simp
      with n "1.prems" to_string_nat_nonempty [of "b div 10"] show ?thesis by simp
    qed
  next
    case False
    have n: "to_string_nat n = to_string_nat (n div 10) @ [digit_char (n mod 10)]"
      using False by (subst to_string_nat.simps) simp
    show ?thesis
    proof (cases "b < 10")
      case b: True
      have "to_string_nat b = [digit_char b]" using b by (subst to_string_nat.simps) simp
      with n "1.prems" to_string_nat_nonempty [of "n div 10"] show ?thesis by simp
    next
      case b: False
      have bb: "to_string_nat b = to_string_nat (b div 10) @ [digit_char (b mod 10)]"
        using b by (subst to_string_nat.simps) simp
      from n bb "1.prems" have
        e1: "to_string_nat (n div 10) = to_string_nat (b div 10)"
        and e2: "digit_char (n mod 10) = digit_char (b mod 10)" by simp_all
      have "n div 10 = b div 10" using "1.IH" [OF False e1] .
      moreover have "n mod 10 = b mod 10" using e2 by (simp add: digit_char_inj)
      ultimately show ?thesis by (metis div_mult_mod_eq)
    qed
  qed
qed

lemma to_string_inj: "to_string a = to_string b \<Longrightarrow> a = b"
proof -
  assume "to_string a = to_string b"
  then have "unat a = unat b" by (simp add: to_string_def to_string_nat_inj)
  then show ?thesis by (simp add: word_unat_eq_iff)
qed

lemma to_string_ktx_inj: "to_string a @ ''.ktx'' = to_string b @ ''.ktx'' \<Longrightarrow> a = b"
  by (simp add: to_string_inj)

lemma emit_image_request_hit:
  "image_hash s (request_key H r) = Some i \<Longrightarrow> emit_image_request H s r = (i, s)"
  by (cases r) (simp add: emit_image_def image_key_def)

lemma emit_image_request_miss:
  "image_hash s (request_key H r) = None \<Longrightarrow>
   emit_image_request H s r =
     (length (image_cache s),
      s\<lparr>image_hash := (image_hash s)(request_key H r \<mapsto> length (image_cache s)),
        image_cache := image_cache s @ [request_job H r]\<rparr>)"
  by (cases r) (simp add: emit_image_def image_key_def Let_def)

lemma request_job_target:
  "img_target_relpath (request_job H r) = to_string (request_key H r) @ ''.ktx'' \<and>
   img_target_mime (request_job H r) = ''image/ktx''"
  by (cases r) simp

lemma image_jobs_of_lookup:
  assumes "image_jobs_of s keys"
  shows "image_hash s h = Some i \<longleftrightarrow> i < length keys \<and> keys ! i = h"
proof
  assume l: "image_hash s h = Some i"
  then have "h \<in> set keys" using assms by (auto simp add: image_jobs_of_def)
  then obtain j where j: "j < length keys" "keys ! j = h" by (auto simp add: in_set_conv_nth)
  then have "image_hash s h = Some j" using assms by (auto simp add: image_jobs_of_def)
  with l j show "i < length keys \<and> keys ! i = h" by simp
next
  assume "i < length keys \<and> keys ! i = h"
  then show "image_hash s h = Some i" using assms by (auto simp add: image_jobs_of_def)
qed

lemma emit_image_request_step:
  assumes inv: "image_jobs_of s keys" and e: "emit_image_request H s r = (i, s1)"
  shows "\<exists>keys1. image_jobs_of s1 keys1 \<and> prefix keys keys1 \<and>
           set keys1 = insert (request_key H r) (set keys) \<and>
           prefix (image_cache s) (image_cache s1) \<and>
           image_hash s1 (request_key H r) = Some i \<and>
           (request_key H r \<in> set keys \<longrightarrow> s1 = s) \<and>
           (request_key H r \<notin> set keys \<longrightarrow>
              i = length (image_cache s) \<and>
              image_cache s1 = image_cache s @ [request_job H r])"
proof (cases "image_hash s (request_key H r)")
  case (Some j)
  then have s1: "s1 = s" "i = j" using e by (simp_all add: emit_image_request_hit)
  have "request_key H r \<in> set keys"
    using Some inv by (auto simp add: image_jobs_of_def)
  then show ?thesis
    using inv Some s1 by (intro exI [of _ keys]) auto
next
  case None
  let ?h = "request_key H r"
  have fresh: "?h \<notin> set keys"
    using None inv by (auto simp add: image_jobs_of_def in_set_conv_nth)
  have i: "i = length (image_cache s)"
    and s1: "s1 = s\<lparr>image_hash := (image_hash s)(?h \<mapsto> length (image_cache s)),
                     image_cache := image_cache s @ [request_job H r]\<rparr>"
    using e by (auto simp add: emit_image_request_miss [OF None])
  have len: "length keys = length (image_cache s)" using inv by (simp add: image_jobs_of_def)
  have last: "(image_cache s @ [request_job H r]) ! length keys = request_job H r"
    by (simp add: len)
  have "image_jobs_of s1 (keys @ [?h])"
    unfolding image_jobs_of_def
  proof (intro conjI allI impI)
    show "distinct (keys @ [?h])" using inv fresh by (simp add: image_jobs_of_def)
    show "length (keys @ [?h]) = length (image_cache s1)" using len by (simp add: s1)
  next
    fix j assume j: "j < length (keys @ [?h])"
    show "image_hash s1 ((keys @ [?h]) ! j) = Some j"
    proof (cases "j < length keys")
      case True
      then have "keys ! j \<in> set keys" by simp
      then have "keys ! j \<noteq> ?h" using fresh by metis
      then show ?thesis using True inv by (simp add: s1 nth_append image_jobs_of_def)
    next
      case False
      then have "j = length keys" using j by simp
      then show ?thesis by (simp add: s1 len [symmetric])
    qed
    show "img_target_relpath (image_cache s1 ! j) = to_string ((keys @ [?h]) ! j) @ ''.ktx''"
    proof (cases "j < length keys")
      case True
      then show ?thesis using inv len by (simp add: s1 nth_append image_jobs_of_def)
    next
      case False
      then have "j = length keys" using j by simp
      then show ?thesis by (simp add: s1 last request_job_target)
    qed
    show "img_target_mime (image_cache s1 ! j) = ''image/ktx''"
    proof (cases "j < length keys")
      case True
      then show ?thesis using inv len by (simp add: s1 nth_append image_jobs_of_def)
    next
      case False
      then have "j = length keys" using j by simp
      then show ?thesis by (simp add: s1 last request_job_target)
    qed
  next
    fix h assume "h \<notin> set (keys @ [?h])"
    then show "image_hash s1 h = None" using inv by (simp add: s1 image_jobs_of_def)
  qed
  then show ?thesis
    using fresh i by (intro exI [of _ "keys @ [?h]"]) (simp add: s1)
qed

lemma emit_images_run:
  "image_jobs_of s keys \<Longrightarrow> emit_images H s reqs = (idx, s') \<Longrightarrow>
   \<exists>keys'. image_jobs_of s' keys' \<and> prefix keys keys' \<and>
     set keys' = set keys \<union> request_key H ` set reqs \<and>
     prefix (image_cache s) (image_cache s') \<and>
     length idx = length reqs \<and>
     (\<forall>a < length reqs. image_hash s' (request_key H (reqs ! a)) = Some (idx ! a)) \<and>
     (\<forall>b < length reqs.
        request_key H (reqs ! b) \<notin> set keys \<and>
        (\<forall>a < b. request_key H (reqs ! a) \<noteq> request_key H (reqs ! b)) \<longrightarrow>
        image_cache s' ! (idx ! b) = request_job H (reqs ! b))"
proof (induction reqs arbitrary: s keys idx)
  case Nil
  then show ?case by (intro exI [of _ keys]) simp
next
  case (Cons r rest)
  obtain i s1 where e: "emit_image_request H s r = (i, s1)" by force
  obtain idx1 where rest: "emit_images H s1 rest = (idx1, s')" and idx: "idx = i # idx1"
    using Cons.prems(2) e by (auto split: prod.splits)
  from emit_image_request_step [OF Cons.prems(1) e] obtain keys1 where
    inv1: "image_jobs_of s1 keys1" and p1: "prefix keys keys1"
    and set1: "set keys1 = insert (request_key H r) (set keys)"
    and c1: "prefix (image_cache s) (image_cache s1)"
    and h1: "image_hash s1 (request_key H r) = Some i"
    and new1: "request_key H r \<notin> set keys \<longrightarrow>
              i = length (image_cache s) \<and> image_cache s1 = image_cache s @ [request_job H r]"
    by blast
  from Cons.IH [OF inv1 rest] obtain keys' where
    inv': "image_jobs_of s' keys'" and p': "prefix keys1 keys'"
    and set': "set keys' = set keys1 \<union> request_key H ` set rest"
    and c': "prefix (image_cache s1) (image_cache s')"
    and len: "length idx1 = length rest"
    and look: "\<forall>a < length rest. image_hash s' (request_key H (rest ! a)) = Some (idx1 ! a)"
    and first: "\<forall>b < length rest.
        request_key H (rest ! b) \<notin> set keys1 \<and>
        (\<forall>a < b. request_key H (rest ! a) \<noteq> request_key H (rest ! b)) \<longrightarrow>
        image_cache s' ! (idx1 ! b) = request_job H (rest ! b)"
    by blast
  have i1: "i < length keys1" "keys1 ! i = request_key H r"
    using image_jobs_of_lookup [OF inv1, of "request_key H r" i] h1 by simp_all
  have head: "image_hash s' (request_key H r) = Some i"
  proof -
    have "i < length keys'" using i1 p' by (auto dest: prefix_length_le)
    moreover have "keys' ! i = request_key H r" using i1 p' by (simp add: prefix_nth)
    ultimately show ?thesis using image_jobs_of_lookup [OF inv'] by simp
  qed
  show ?case
  proof (intro exI [of _ keys'] conjI allI impI)
    show "image_jobs_of s' keys'" by (rule inv')
    show "prefix keys keys'" using p1 p' by (rule prefix_order.trans)
    show "set keys' = set keys \<union> request_key H ` set (r # rest)"
      using set1 set' by auto
    show "prefix (image_cache s) (image_cache s')" using c1 c' by (rule prefix_order.trans)
    show "length idx = length (r # rest)" using len idx by simp
  next
    fix a assume "a < length (r # rest)"
    then show "image_hash s' (request_key H ((r # rest) ! a)) = Some (idx ! a)"
      using head look idx by (cases a) simp_all
  next
    fix b assume b: "b < length (r # rest)"
      and f: "request_key H ((r # rest) ! b) \<notin> set keys \<and>
        (\<forall>a < b. request_key H ((r # rest) ! a) \<noteq> request_key H ((r # rest) ! b))"
    show "image_cache s' ! (idx ! b) = request_job H ((r # rest) ! b)"
    proof (cases b)
      case 0
      then have fresh: "request_key H r \<notin> set keys" using f by simp
      then have "i = length (image_cache s)"
        "image_cache s1 = image_cache s @ [request_job H r]" using new1 by simp_all
      then have "image_cache s1 ! i = request_job H r" "i < length (image_cache s1)" by simp_all
      then have "image_cache s' ! i = request_job H r" using c' by (simp add: prefix_nth)
      then show ?thesis using 0 idx by simp
    next
      case (Suc b')
      have "request_key H r \<noteq> request_key H (rest ! b')"
        using f Suc by (auto dest: spec [of _ 0])
      moreover have "request_key H (rest ! b') \<notin> set keys" using f Suc by simp
      ultimately have n1: "request_key H (rest ! b') \<notin> set keys1" using set1 by auto
      have n2: "\<forall>a < b'. request_key H (rest ! a) \<noteq> request_key H (rest ! b')"
      proof (intro allI impI)
        fix a assume "a < b'"
        then have "Suc a < b" using Suc by simp
        then show "request_key H (rest ! a) \<noteq> request_key H (rest ! b')"
          using f Suc by (auto dest: spec [of _ "Suc a"])
      qed
      have "b' < length rest" using b Suc by simp
      then show ?thesis using first n1 n2 Suc idx by simp
    qed
  qed
qed

lemma emit_images_append:
  "emit_images H s (xs @ ys) =
     (case emit_images H s xs of (i1, s1) \<Rightarrow>
      case emit_images H s1 ys of (i2, s2) \<Rightarrow> (i1 @ i2, s2))"
  by (induction xs arbitrary: s) (simp_all split: prod.splits)

lemma image_jobs_of_empty:
  "image_cache s = [] \<Longrightarrow> image_hash s = Map.empty \<Longrightarrow> image_jobs_of s []"
  by (simp add: image_jobs_of_def)

lemma request_key_fields:
  "request_fields a = request_fields b \<Longrightarrow> request_key H a = request_key H b"
  by (cases a; cases b) simp

lemma emit_images_repeat:
  assumes empty: "image_jobs_of s0 []"
    and b: "b < length reqs" "a < b"
    and same: "request_key H (reqs ! a) = request_key H (reqs ! b)"
  shows "snd (emit_images H s0 (take (Suc b) reqs)) = snd (emit_images H s0 (take b reqs))"
proof -
  obtain idx sb where run: "emit_images H s0 (take b reqs) = (idx, sb)" by force
  from emit_images_run [OF empty run] have
    "\<forall>c < length (take b reqs).
       image_hash sb (request_key H (take b reqs ! c)) = Some (idx ! c)" by blast
  then have "image_hash sb (request_key H (reqs ! a)) = Some (idx ! a)"
    using b by simp
  then have hit: "emit_image_request H sb (reqs ! b) = (idx ! a, sb)"
    using same by (simp add: emit_image_request_hit)
  have "take (Suc b) reqs = take b reqs @ [reqs ! b]"
    using b by (simp add: take_Suc_conv_app_nth)
  then show ?thesis by (simp add: emit_images_append run hit)
qed

text \<open>
  Claim C7. Let any sequence of \<open>emit_image\<close> calls run from a state whose image cache
  and image table are empty. Two calls return the same index exactly when their keys (the
  fingerprints of path, role, compression family, quality and mode) are equal, whatever
  calls lie between them; so two calls with the same path, role, compression family,
  quality and mode return the same index. A call whose key an earlier call had leaves
  the whole state, the image cache in it, unchanged. A call whose key no earlier call had
  records the job made from its arguments, and that job is still at the returned index at
  the end. The image cache ends with as many jobs as the calls have different keys; the
  job at the index a call returned has the target path of the decimal hash followed by
  \<open>.ktx\<close> and the MIME type \<open>image/ktx\<close>, and no other job of the cache has that
  target path.
\<close>

theorem emit_image_idempotent:
  assumes empty: "image_cache s0 = []" "image_hash s0 = Map.empty"
    and run: "emit_images H s0 reqs = (idx, s)"
  shows "length idx = length reqs \<and>
    (\<forall>a < length reqs. \<forall>b < length reqs.
       (idx ! a = idx ! b) = (request_key H (reqs ! a) = request_key H (reqs ! b))) \<and>
    (\<forall>a < length reqs. \<forall>b < length reqs.
       request_fields (reqs ! a) = request_fields (reqs ! b) \<longrightarrow> idx ! a = idx ! b) \<and>
    (\<forall>b < length reqs.
       (\<exists>a < b. request_key H (reqs ! a) = request_key H (reqs ! b)) \<longrightarrow>
       snd (emit_images H s0 (take (Suc b) reqs)) = snd (emit_images H s0 (take b reqs))) \<and>
    (\<forall>b < length reqs.
       (\<forall>a < b. request_key H (reqs ! a) \<noteq> request_key H (reqs ! b)) \<longrightarrow>
       image_cache s ! (idx ! b) = request_job H (reqs ! b)) \<and>
    length (image_cache s) = card (request_key H ` set reqs) \<and>
    (\<forall>a < length reqs.
       idx ! a < length (image_cache s) \<and>
       img_target_relpath (image_cache s ! (idx ! a))
         = to_string (request_key H (reqs ! a)) @ ''.ktx'' \<and>
       img_target_mime (image_cache s ! (idx ! a)) = ''image/ktx'' \<and>
       (\<forall>j < length (image_cache s).
          img_target_relpath (image_cache s ! j)
            = to_string (request_key H (reqs ! a)) @ ''.ktx'' \<longrightarrow> j = idx ! a))"
proof -
  have inv0: "image_jobs_of s0 []" by (rule image_jobs_of_empty [OF empty])
  from emit_images_run [OF inv0 run] obtain keys where
    inv: "image_jobs_of s keys"
    and keys: "set keys = request_key H ` set reqs"
    and len: "length idx = length reqs"
    and look: "\<forall>a < length reqs. image_hash s (request_key H (reqs ! a)) = Some (idx ! a)"
    and first: "\<forall>b < length reqs.
        request_key H (reqs ! b) \<notin> set [] \<and>
        (\<forall>a < b. request_key H (reqs ! a) \<noteq> request_key H (reqs ! b)) \<longrightarrow>
        image_cache s ! (idx ! b) = request_job H (reqs ! b)"
    by auto
  have at: "idx ! a < length keys \<and> keys ! (idx ! a) = request_key H (reqs ! a)"
    if "a < length reqs" for a
    using look that image_jobs_of_lookup [OF inv] by simp
  have dist: "distinct keys" and lk: "length keys = length (image_cache s)"
    using inv by (simp_all add: image_jobs_of_def)
  have job: "img_target_relpath (image_cache s ! i) = to_string (keys ! i) @ ''.ktx'' \<and>
             img_target_mime (image_cache s ! i) = ''image/ktx''" if "i < length keys" for i
    using inv that by (simp add: image_jobs_of_def)
  show ?thesis
  proof (intro conjI allI impI)
    show "length idx = length reqs" by (rule len)
  next
    fix a b assume "a < length reqs" "b < length reqs"
    then show "(idx ! a = idx ! b) = (request_key H (reqs ! a) = request_key H (reqs ! b))"
      using at [of a] at [of b] nth_eq_iff_index_eq [OF dist, of "idx ! a" "idx ! b"]
      by auto
  next
    fix a b assume "a < length reqs" "b < length reqs"
      and "request_fields (reqs ! a) = request_fields (reqs ! b)"
    then show "idx ! a = idx ! b"
      using at [of a] at [of b] nth_eq_iff_index_eq [OF dist, of "idx ! a" "idx ! b"]
        request_key_fields [of "reqs ! a" "reqs ! b" H]
      by auto
  next
    fix b assume b: "b < length reqs"
      and "\<exists>a < b. request_key H (reqs ! a) = request_key H (reqs ! b)"
    then obtain a where "a < b" "request_key H (reqs ! a) = request_key H (reqs ! b)" by blast
    then show "snd (emit_images H s0 (take (Suc b) reqs)) = snd (emit_images H s0 (take b reqs))"
      using emit_images_repeat [OF inv0 b] by blast
  next
    fix b assume "b < length reqs"
      and "\<forall>a < b. request_key H (reqs ! a) \<noteq> request_key H (reqs ! b)"
    then show "image_cache s ! (idx ! b) = request_job H (reqs ! b)"
      using first by simp
  next
    have "card (request_key H ` set reqs) = card (set keys)" by (simp add: keys)
    also have "\<dots> = length keys" using dist by (rule distinct_card)
    finally show "length (image_cache s) = card (request_key H ` set reqs)" by (simp add: lk)
  next
    fix a assume a: "a < length reqs"
    show "idx ! a < length (image_cache s)" using at [OF a] lk by simp
    show "img_target_relpath (image_cache s ! (idx ! a))
            = to_string (request_key H (reqs ! a)) @ ''.ktx''"
      using at [OF a] job [of "idx ! a"] by simp
    show "img_target_mime (image_cache s ! (idx ! a)) = ''image/ktx''"
      using at [OF a] job [of "idx ! a"] by simp
  next
    fix a j assume a: "a < length reqs" and j: "j < length (image_cache s)"
      and t: "img_target_relpath (image_cache s ! j)
                = to_string (request_key H (reqs ! a)) @ ''.ktx''"
    have "to_string (keys ! j) @ ''.ktx'' = to_string (request_key H (reqs ! a)) @ ''.ktx''"
      using job [of j] j lk t by simp
    then have "keys ! j = request_key H (reqs ! a)" by (rule to_string_ktx_inj)
    then have "keys ! j = keys ! (idx ! a)" using at [OF a] by simp
    moreover have "j < length keys" "idx ! a < length keys" using j lk at [OF a] by simp_all
    ultimately show "j = idx ! a"
      using nth_eq_iff_index_eq [OF dist, of j "idx ! a"] by simp
  qed
qed

lemma example_image_run:
  "\<exists>s. emit_images example_hasher (initial_state example_options) example_image_requests
          = ([0, 1, 0], s) \<and>
       map img_target_relpath (image_cache s) = [''205945276.ktx'', ''209639360.ktx''] \<and>
       map img_target_mime (image_cache s) = [''image/ktx'', ''image/ktx'']"
  by (simp add: example_image_requests_def emit_image_def Let_def initial_state_def
        example_hasher_def example_image_texture_def to_string_def to_string_nat.simps
        digit_char_def)

theorem emit_image_idempotent_witness:
  "\<exists>s. emit_images example_hasher (initial_state example_options) example_image_requests
          = ([0, 1, 0], s) \<and>
       map img_target_relpath (image_cache s) = [''205945276.ktx'', ''209639360.ktx''] \<and>
       map img_target_mime (image_cache s) = [''image/ktx'', ''image/ktx''] \<and>
       image_cache s ! 0 = request_job example_hasher (example_image_requests ! 0) \<and>
       length (image_cache s) = card (request_key example_hasher ` set example_image_requests) \<and>
       snd (emit_images example_hasher (initial_state example_options)
              (take 3 example_image_requests))
         = snd (emit_images example_hasher (initial_state example_options)
                  (take 2 example_image_requests))"
proof -
  from example_image_run obtain s where
    run: "emit_images example_hasher (initial_state example_options) example_image_requests
            = ([0, 1, 0], s)"
    and paths: "map img_target_relpath (image_cache s) = [''205945276.ktx'', ''209639360.ktx'']"
    and mimes: "map img_target_mime (image_cache s) = [''image/ktx'', ''image/ktx'']"
    by (elim exE conjE)
  have e: "image_cache (initial_state example_options) = []"
    "image_hash (initial_state example_options) = Map.empty"
    by (simp_all add: initial_state_def)
  note inst = emit_image_idempotent [OF e run]
  have len: "length example_image_requests = 3" by (simp add: example_image_requests_def)
  have same: "request_key example_hasher (example_image_requests ! 0)
                = request_key example_hasher (example_image_requests ! 2)"
    by (simp add: example_image_requests_def image_key_def example_image_texture_def)
  note c3 = inst [THEN conjunct2, THEN conjunct2, THEN conjunct2, THEN conjunct1, rule_format]
  note c4 = inst [THEN conjunct2, THEN conjunct2, THEN conjunct2, THEN conjunct2,
                  THEN conjunct1, rule_format]
  have job: "image_cache s ! ([0, 1, 0] ! 0)
               = request_job example_hasher (example_image_requests ! 0)"
    by (rule c4) (simp_all add: len)
  have count: "length (image_cache s)
      = card (request_key example_hasher ` set example_image_requests)"
    using inst by simp
  have "\<exists>a < 2. request_key example_hasher (example_image_requests ! a)
                = request_key example_hasher (example_image_requests ! 2)"
    using same by (intro exI [of _ 0]) simp
  then have "snd (emit_images example_hasher (initial_state example_options)
              (take (Suc 2) example_image_requests))
         = snd (emit_images example_hasher (initial_state example_options)
                  (take 2 example_image_requests))"
    by (intro c3) (simp_all add: len)
  then show ?thesis
    using run paths mimes job count by (simp add: numeral_3_eq_3)
qed

subsection \<open>A raise in the walk or in an analysis task leaves the export\<close>

lemma bake_scene_walk:
  "bake_scene H scene opts =
     bind_result (walk_start H scene opts) (\<lambda>s3. emit_nodes H scene (nodes scene) 0 s3)"
  by (simp add: bake_scene_def walk_start_def bind_result_def Let_def filtered_state_def
        environment_state_def initial_state_def split: sum.splits)

lemma emit_mesh_split:
  "emit_mesh H s c =
     bind_result (emit_mesh_prologue H s c) (\<lambda>(pb, ab, s6).
       emit_mesh_attributes H (info (mesh s) ! c) c pb ab mesh_attributes s6)"
  by (simp add: emit_mesh_def emit_mesh_prologue_def bind_result_def Let_def
        split: sum.splits prod.splits)

lemma emit_mesh_attributes_append:
  "emit_mesh_attributes H m ri pb ab (pre @ rest) s =
     bind_result (emit_mesh_attributes H m ri pb ab pre s)
       (emit_mesh_attributes H m ri pb ab rest)"
proof (induction pre arbitrary: s)
  case Nil
  show ?case by (simp add: bind_result_def)
next
  case (Cons i pre)
  show ?case
  proof (cases "format (attribute_layout m i) = VK_FORMAT_UNDEFINED")
    case True
    then show ?thesis by (simp add: Cons.IH)
  next
    case False
    define s1 where "s1 = upd_mesh s ri (\<lambda>emit. emit\<lparr>em_attribute_mask :=
                   em_attribute_mask emit OR push_bit (ecast_attribute i) 1\<rparr>)"
    show ?thesis
    proof (cases "i = Position")
      case True
      show ?thesis
      proof (cases "position_stride m = 0")
        case True
        then show ?thesis using False \<open>i = Position\<close> by (simp add: bind_result_def)
      next
        case stride: False
        show ?thesis
        proof (cases "emit_accessor H s1 pb (format (attribute_layout m i))
                (offset (attribute_layout m i)) (position_stride m)
                (length (positions m) div position_stride m)")
          case (Inl e)
          then show ?thesis
            using False True stride
            unfolding s1_def by (simp add: Let_def bind_result_def)
        next
          case (Inr r)
          obtain a s2 where r: "r = (a, s2)" by force
          show ?thesis
            using False True stride Inr [unfolded s1_def] r
            by (simp add: Let_def bind_result_def Cons.IH)
        qed
      qed
    next
      case nonpos: False
      show ?thesis
      proof (cases "attribute_stride m = 0")
        case True
        then show ?thesis using False nonpos by (simp add: bind_result_def)
      next
        case stride: False
        show ?thesis
        proof (cases "emit_accessor H s1 ab (format (attribute_layout m i))
                (offset (attribute_layout m i)) (attribute_stride m)
                (length (attributes m) div attribute_stride m)")
          case (Inl e)
          then show ?thesis
            using False nonpos stride
            unfolding s1_def by (simp add: Let_def bind_result_def)
        next
          case (Inr r)
          obtain a s2 where r: "r = (a, s2)" by force
          show ?thesis
            using False nonpos stride Inr [unfolded s1_def] r
            by (simp add: Let_def bind_result_def Cons.IH)
        qed
      qed
    qed
  qed
qed

lemma emit_mesh_attributes_raises:
  assumes pre: "emit_mesh_attributes H m ri pb ab pre s = Inr s1"
    and fmt: "format (attribute_layout m a) \<noteq> VK_FORMAT_UNDEFINED"
      "get_accessor_type (format (attribute_layout m a)) = Inl e"
    and stride: "(if a = Position then position_stride m else attribute_stride m) \<noteq> 0"
    and fresh: "accessor_hash s1 (attribute_accessor_key H m pb ab a) = None"
  shows "emit_mesh_attributes H m ri pb ab (pre @ a # post) s
           = Inl (InvalidArgument ''Unsupported format.'')"
proof -
  have "emit_mesh_attributes H m ri pb ab ([] @ a # post) s1
          = Inl (InvalidArgument ''Unsupported format.'')"
    using fresh
    by (intro emit_mesh_attributes_unsupported [OF _ fmt stride])
       (simp_all add: attribute_accessor_key_def)
  then show ?thesis
    by (simp only: emit_mesh_attributes_append pre bind_result_def sum.case append_Nil)
qed

lemma emit_mesh_raises:
  assumes "emit_mesh_prologue H s c = Inr (pb, ab, s6)"
    and "emit_mesh_attributes H (info (mesh s) ! c) c pb ab mesh_attributes s6 = Inl e"
  shows "emit_mesh H s c = Inl e"
  using assms by (simp add: emit_mesh_split bind_result_def)

lemma emit_meshes_loop_head_raises:
  assumes "i < length (to_index (mesh s))"
    and "to_index (mesh s) ! i \<notin> mesh_hash s"
    and "emit_mesh H s (to_index (mesh s) ! i) = Inl e"
  shows "emit_meshes_loop H (i # later) eh mg s = Inl e"
  using assms by (simp add: Let_def bind_result_def)

lemma emit_meshes_loop_raises:
  "emit_meshes_loop H earlier eh0 mg0 s = Inr (eh, mg, sb) \<Longrightarrow>
   emit_meshes_loop H rest eh mg sb = Inl e \<Longrightarrow>
   emit_meshes_loop H (earlier @ rest) eh0 mg0 s = Inl e"
proof (induction earlier arbitrary: eh0 mg0 s)
  case Nil
  then show ?case by simp
next
  case (Cons i earlier)
  define ri where "ri = to_index (mesh s) ! i"
  from Cons.prems(1) obtain s1 where
    inb: "i < length (to_index (mesh s))"
    and step: "(if ri \<notin> mesh_hash s then
              bind_result (emit_mesh H s ri)
                (\<lambda>s'. Inr (s'\<lparr>mesh_hash := insert ri (mesh_hash s')\<rparr>))
            else Inr s) = Inr s1"
    and rest: "emit_meshes_loop H earlier (eh0 @ [H_u32 ri]) (mg0 @ [ri]) s1 = Inr (eh, mg, sb)"
    by (auto simp add: Let_def ri_def bind_result_def split: if_splits sum.splits)
  have "emit_meshes_loop H (earlier @ rest) (eh0 @ [H_u32 ri]) (mg0 @ [ri]) s1 = Inl e"
    by (rule Cons.IH [OF rest Cons.prems(2)])
  then show ?case
    using inb step by (simp add: Let_def ri_def [symmetric] bind_result_def)
qed

lemma emit_meshes_raises:
  "emit_meshes_loop H ms [] [] s = Inl e \<Longrightarrow> emit_meshes H s ms = Inl e"
  by (simp add: emit_meshes_def bind_result_def)

lemma emit_nodes_head_raises:
  "meshes node \<noteq> [] \<Longrightarrow> emit_meshes H s (meshes node) = Inl e \<Longrightarrow>
   emit_nodes H scene (node # after) k s = Inl e"
  by (simp add: bind_result_def)

lemma emit_nodes_raises:
  "emit_nodes H scene before k s = Inr (js, sa) \<Longrightarrow>
   emit_nodes H scene rest (k + length before) sa = Inl e \<Longrightarrow>
   emit_nodes H scene (before @ rest) k s = Inl e"
proof (induction before arbitrary: k s js)
  case Nil
  then show ?case by simp
next
  case (Cons node before)
  from Cons.prems(1) obtain mm s1 js' where
    step: "(if meshes node \<noteq> [] then
          bind_result (emit_meshes H s (meshes node))
            (\<lambda>(g, s'). Inr ([(''mesh'', JNat g)], s'))
        else Inr ([], s)) = Inr (mm, s1)"
    and rest: "emit_nodes H scene before (k + 1) s1 = Inr (js', sa)"
    by (auto simp add: bind_result_def split: sum.splits prod.splits)
  have "emit_nodes H scene (before @ rest) (k + 1) s1 = Inl e"
    using Cons.IH [OF rest] Cons.prems(2) by simp
  then show ?case
    using step by (simp add: bind_result_def)
qed

lemma walk_raises:
  assumes start: "walk_start H scene opts = Inr s3"
    and nodes: "nodes scene = before @ node # after"
    and before: "emit_nodes H scene before 0 s3 = Inr (js, sa)"
    and meshes: "meshes node = earlier @ i # later"
    and earlier: "emit_meshes_loop H earlier [] [] sa = Inr (eh, mg, sb)"
    and new: "i < length (to_index (mesh sb))" "to_index (mesh sb) ! i \<notin> mesh_hash sb"
    and raise: "emit_mesh H sb (to_index (mesh sb) ! i) = Inl e"
  shows "bake_scene H scene opts = Inl e"
proof -
  have "emit_meshes_loop H (i # later) eh mg sb = Inl e"
    by (rule emit_meshes_loop_head_raises [OF new raise])
  then have "emit_meshes_loop H (earlier @ i # later) [] [] sa = Inl e"
    by (rule emit_meshes_loop_raises [OF earlier])
  then have "emit_meshes H sa (meshes node) = Inl e"
    unfolding meshes by (rule emit_meshes_raises)
  then have "emit_nodes H scene (node # after) (0 + length before) sa = Inl e"
    using meshes by (intro emit_nodes_head_raises) simp_all
  then have "emit_nodes H scene (before @ node # after) 0 s3 = Inl e"
    by (rule emit_nodes_raises [OF before])
  then show ?thesis
    by (simp add: bake_scene_walk start nodes bind_result_def)
qed

lemma analyze_image_swizzle_raises:
  assumes "\<not> gt_empty (loaded_texture ext src mode)" and "swizzle_outside_rgba sw"
  shows "analyze_image ext src sw type family mode =
           (if gt_format (loaded_texture ext src mode) \<noteq> FORMAT_RGBA8_SRGB_PACK8 \<and>
               gt_format (loaded_texture ext src mode) \<noteq> FORMAT_RGBA8_UNORM_PACK8
            then Inl (InvalidArgument ''Can only swizzle RGBA textures.'')
            else Inl (InvalidArgument ''Unrecognized swizzle parameter.''))"
  using assms
  by (simp add: analyze_image_def load_image_def Let_def loaded_texture_def
        swizzle_image_outside [OF assms(2) [unfolded swizzle_outside_rgba_def]]
        bind_result_def)

lemma analyze_image_invalid_role:
  assumes "\<not> gt_empty (loaded_texture ext src mode)"
  shows "analyze_image ext src rgba_mapping Count family mode =
           (if family = Uncompressed
            then Inr \<lparr>ar_src_path = src, ar_image = loaded_texture ext src mode,
                      ar_compression = TextureCompression_Uncompressed,
                      ar_mode = mode, ar_type = Count, ar_swizzle = rgba_mapping\<rparr>
            else Inl (InvalidArgument ''Invalid material type.''))"
  using assms
  by (cases family)
     (simp_all add: analyze_image_def load_image_def Let_def loaded_texture_def
        swizzle_image_def rgba_mapping_def mapping_of_def deduce_compression_def
        bind_result_def)

lemma analyze_images_raises:
  "analyze_images ext pre = Inr ls \<Longrightarrow>
   analyze_image ext (img_source_path img) (img_swizzle img) (img_type img)
     (img_compression img) (img_mode img) = Inl e \<Longrightarrow>
   analyze_images ext (pre @ img # post) = Inl e"
proof (induction pre arbitrary: ls)
  case Nil
  then show ?case by (simp add: bind_result_def)
next
  case (Cons x pre)
  from Cons.prems(1) obtain l ls' where
    "analyze_image ext (img_source_path x) (img_swizzle x) (img_type x)
       (img_compression x) (img_mode x) = Inr l"
    "analyze_images ext pre = Inr ls'"
    by (auto simp add: bind_result_def split: sum.splits)
  then show ?case using Cons.IH [OF _ Cons.prems(2)] by (simp add: bind_result_def)
qed

text \<open>
  Claim C5, as the code has it. A format outside the accessor table makes
  \<open>emit_accessor\<close> raise \<open>invalid_argument("Unsupported format.")\<close> when the accessor
  is not cached yet, and with it the attribute loop of \<open>emit_mesh\<close>, once the attributes
  before it have been processed. The raise is carried to the caller of the export: when
  the filter passes and the environment step have run, the nodes before a node and the
  meshes before one of its meshes have been walked, that mesh has not been emitted before,
  the statements of \<open>emit_mesh\<close> before the attribute loop and the attributes before
  one attribute have been processed, and that attribute has a format outside the table
  (not \<open>VK_FORMAT_UNDEFINED\<close>), a stride other than 0 and no cached accessor, then
  \<open>export_scene_to_glb\<close> raises \<open>invalid_argument("Unsupported format.")\<close>. Whatever is
  raised while the scene is baked leaves \<open>export_scene_to_glb\<close> as an exception; when
  the function returns, it returns false exactly when the output file could not be
  opened or mapped. A swizzle constant outside R, G, B, A makes \<open>swizzle_image\<close> raise,
  and the role \<open>Count\<close> makes the BC and ASTC planners raise (the uncompressed planner
  accepts it), also as the last step of \<open>analyze_image\<close> on a loaded image. Raised in an
  analysis task, the exception is raised on a worker of the pool: when the images before
  an image have been analysed, the loader returns a texture for that image and its
  swizzle has a component outside R, G, B, A, the export raises on a worker.
\<close>

theorem validation_errors_raise:
  "(get_accessor_type fmt = Inl e \<and>
    accessor_hash s (accessor_key H view_index fmt off stride cnt) = None \<longrightarrow>
      emit_accessor H s view_index fmt off stride cnt
        = Inl (InvalidArgument ''Unsupported format.'')) \<and>
   (emit_mesh_attributes H1 m ri pb ab pre s1 = Inr s2 \<and>
    format (attribute_layout m i) \<noteq> VK_FORMAT_UNDEFINED \<and>
    get_accessor_type (format (attribute_layout m i)) = Inl e1 \<and>
    (if i = Position then position_stride m else attribute_stride m) \<noteq> 0 \<and>
    accessor_hash s2 (attribute_accessor_key H1 m pb ab i) = None \<longrightarrow>
      emit_mesh_attributes H1 m ri pb ab (pre @ i # post) s1
        = Inl (InvalidArgument ''Unsupported format.'')) \<and>
   (walk_start (hasher_get ext7) scene7 opts7 = Inr s3 \<and>
    nodes scene7 = before @ node # after \<and>
    emit_nodes (hasher_get ext7) scene7 before 0 s3 = Inr (js7, sa) \<and>
    meshes node = earlier @ j # later \<and>
    emit_meshes_loop (hasher_get ext7) earlier [] [] sa = Inr (eh, mg, sb) \<and>
    j < length (to_index (mesh sb)) \<and> c = to_index (mesh sb) ! j \<and> c \<notin> mesh_hash sb \<and>
    m7 = info (mesh sb) ! c \<and>
    emit_mesh_prologue (hasher_get ext7) sb c = Inr (pb7, ab7, s6) \<and>
    mesh_attributes = pre7 @ a # post7 \<and>
    emit_mesh_attributes (hasher_get ext7) m7 c pb7 ab7 pre7 s6 = Inr s7 \<and>
    format (attribute_layout m7 a) \<noteq> VK_FORMAT_UNDEFINED \<and>
    get_accessor_type (format (attribute_layout m7 a)) = Inl e7 \<and>
    (if a = Position then position_stride m7 else attribute_stride m7) \<noteq> 0 \<and>
    accessor_hash s7 (attribute_accessor_key (hasher_get ext7) m7 pb7 ab7 a) = None \<longrightarrow>
      export_scene_to_glb ext7 scene7 out_path7 opts7
        = Inl (Raised (InvalidArgument ''Unsupported format.''))) \<and>
   (bake_scene (hasher_get ext) scene opts = Inl e2 \<longrightarrow>
      export_scene_to_glb ext scene out_path opts = Inl (Raised e2)) \<and>
   (export_scene_to_glb ext3 scene3 out_path3 opts3 = Inr r \<longrightarrow>
      returned r = (fs_open ext3 out_path3 \<and>
        fs_map_write ext3 out_path3
          (glb_size (length (json_write ext3 (document r)))
             (length (glb_buffer_data (final_state r)))))) \<and>
   (outside_rgba (swz_r sw) \<or> outside_rgba (swz_g sw) \<or> outside_rgba (swz_b sw) \<or>
    outside_rgba (swz_a sw) \<longrightarrow>
      swizzle_image res sw =
        (if gt_format (ar_image res) \<noteq> FORMAT_RGBA8_SRGB_PACK8 \<and>
            gt_format (ar_image res) \<noteq> FORMAT_RGBA8_UNORM_PACK8
         then Inl (InvalidArgument ''Can only swizzle RGBA textures.'')
         else Inl (InvalidArgument ''Unrecognized swizzle parameter.''))) \<and>
   (ar_type res5 = Count \<longrightarrow>
      deduce_compression res5 family =
        (if family = Uncompressed
         then Inr (res5\<lparr>ar_compression := TextureCompression_Uncompressed\<rparr>)
         else Inl (InvalidArgument ''Invalid material type.''))) \<and>
   (\<not> gt_empty (loaded_texture ext8 src8 mode8) \<longrightarrow>
      analyze_image ext8 src8 rgba_mapping Count family8 mode8 =
        (if family8 = Uncompressed
         then Inr \<lparr>ar_src_path = src8, ar_image = loaded_texture ext8 src8 mode8,
                   ar_compression = TextureCompression_Uncompressed,
                   ar_mode = mode8, ar_type = Count, ar_swizzle = rgba_mapping\<rparr>
         else Inl (InvalidArgument ''Invalid material type.''))) \<and>
   (bake_scene (hasher_get ext9) scene9 opts9 = Inr (js9, s9) \<and>
    image_cache s9 = pre9 @ img9 # post9 \<and>
    analyze_images ext9 pre9 = Inr ls9 \<and>
    \<not> gt_empty (loaded_texture ext9 (img_source_path img9) (img_mode img9)) \<and>
    swizzle_outside_rgba (img_swizzle img9) \<longrightarrow>
      export_scene_to_glb ext9 scene9 out_path9 opts9 =
        Inl (RaisedInWorker
          (if gt_format (loaded_texture ext9 (img_source_path img9) (img_mode img9))
                \<noteq> FORMAT_RGBA8_SRGB_PACK8 \<and>
              gt_format (loaded_texture ext9 (img_source_path img9) (img_mode img9))
                \<noteq> FORMAT_RGBA8_UNORM_PACK8
           then InvalidArgument ''Can only swizzle RGBA textures.''
           else InvalidArgument ''Unrecognized swizzle parameter.''))) \<and>
   (bake_scene (hasher_get ext6) scene6 opts6 = Inr (js6, s6a) \<and>
    analyze_images ext6 (image_cache s6a) = Inl e6 \<longrightarrow>
      export_scene_to_glb ext6 scene6 out_path6 opts6 = Inl (RaisedInWorker e6))"
proof (intro conjI impI)
  assume "get_accessor_type fmt = Inl e \<and>
    accessor_hash s (accessor_key H view_index fmt off stride cnt) = None"
  then show "emit_accessor H s view_index fmt off stride cnt
        = Inl (InvalidArgument ''Unsupported format.'')"
    using emit_accessor_unsupported by blast
next
  assume a: "emit_mesh_attributes H1 m ri pb ab pre s1 = Inr s2 \<and>
    format (attribute_layout m i) \<noteq> VK_FORMAT_UNDEFINED \<and>
    get_accessor_type (format (attribute_layout m i)) = Inl e1 \<and>
    (if i = Position then position_stride m else attribute_stride m) \<noteq> 0 \<and>
    accessor_hash s2 (attribute_accessor_key H1 m pb ab i) = None"
  show "emit_mesh_attributes H1 m ri pb ab (pre @ i # post) s1
        = Inl (InvalidArgument ''Unsupported format.'')"
    by (rule emit_mesh_attributes_raises
          [OF conjunct1 [OF a] conjunct1 [OF conjunct2 [OF a]]
              conjunct1 [OF conjunct2 [OF conjunct2 [OF a]]]
              conjunct1 [OF conjunct2 [OF conjunct2 [OF conjunct2 [OF a]]]]
              conjunct2 [OF conjunct2 [OF conjunct2 [OF conjunct2 [OF a]]]]])
next
  let ?H = "hasher_get ext7"
  assume a: "walk_start ?H scene7 opts7 = Inr s3 \<and>
    nodes scene7 = before @ node # after \<and>
    emit_nodes ?H scene7 before 0 s3 = Inr (js7, sa) \<and>
    meshes node = earlier @ j # later \<and>
    emit_meshes_loop ?H earlier [] [] sa = Inr (eh, mg, sb) \<and>
    j < length (to_index (mesh sb)) \<and> c = to_index (mesh sb) ! j \<and> c \<notin> mesh_hash sb \<and>
    m7 = info (mesh sb) ! c \<and>
    emit_mesh_prologue ?H sb c = Inr (pb7, ab7, s6) \<and>
    mesh_attributes = pre7 @ a # post7 \<and>
    emit_mesh_attributes ?H m7 c pb7 ab7 pre7 s6 = Inr s7 \<and>
    format (attribute_layout m7 a) \<noteq> VK_FORMAT_UNDEFINED \<and>
    get_accessor_type (format (attribute_layout m7 a)) = Inl e7 \<and>
    (if a = Position then position_stride m7 else attribute_stride m7) \<noteq> 0 \<and>
    accessor_hash s7 (attribute_accessor_key ?H m7 pb7 ab7 a) = None"
  then have start: "walk_start ?H scene7 opts7 = Inr s3"
    and nodes: "nodes scene7 = before @ node # after"
    and before: "emit_nodes ?H scene7 before 0 s3 = Inr (js7, sa)"
    and meshes: "meshes node = earlier @ j # later"
    and earlier: "emit_meshes_loop ?H earlier [] [] sa = Inr (eh, mg, sb)"
    and new: "j < length (to_index (mesh sb))" "to_index (mesh sb) ! j \<notin> mesh_hash sb"
    and c: "c = to_index (mesh sb) ! j" and m7: "m7 = info (mesh sb) ! c"
    and prologue: "emit_mesh_prologue ?H sb c = Inr (pb7, ab7, s6)"
    and attrs: "mesh_attributes = pre7 @ a # post7"
    and pre: "emit_mesh_attributes ?H m7 c pb7 ab7 pre7 s6 = Inr s7"
    and bad: "format (attribute_layout m7 a) \<noteq> VK_FORMAT_UNDEFINED"
      "get_accessor_type (format (attribute_layout m7 a)) = Inl e7"
    and stride: "(if a = Position then position_stride m7 else attribute_stride m7) \<noteq> 0"
    and fresh: "accessor_hash s7 (attribute_accessor_key ?H m7 pb7 ab7 a) = None"
    by blast+
  have "emit_mesh_attributes ?H m7 c pb7 ab7 mesh_attributes s6
          = Inl (InvalidArgument ''Unsupported format.'')"
    unfolding attrs by (rule emit_mesh_attributes_raises [OF pre bad stride fresh])
  then have "emit_mesh ?H sb c = Inl (InvalidArgument ''Unsupported format.'')"
    unfolding m7 by (rule emit_mesh_raises [OF prologue])
  then have "bake_scene ?H scene7 opts7 = Inl (InvalidArgument ''Unsupported format.'')"
    unfolding c by (rule walk_raises [OF start nodes before meshes earlier new])
  then show "export_scene_to_glb ext7 scene7 out_path7 opts7
        = Inl (Raised (InvalidArgument ''Unsupported format.''))"
    by (rule export_raises)
next
  assume "bake_scene (hasher_get ext) scene opts = Inl e2"
  then show "export_scene_to_glb ext scene out_path opts = Inl (Raised e2)"
    by (rule export_raises)
next
  assume "export_scene_to_glb ext3 scene3 out_path3 opts3 = Inr r"
  then show "returned r = (fs_open ext3 out_path3 \<and>
        fs_map_write ext3 out_path3
          (glb_size (length (json_write ext3 (document r)))
             (length (glb_buffer_data (final_state r)))))"
    by (rule export_returned)
next
  assume "outside_rgba (swz_r sw) \<or> outside_rgba (swz_g sw) \<or> outside_rgba (swz_b sw) \<or>
    outside_rgba (swz_a sw)"
  then show "swizzle_image res sw =
        (if gt_format (ar_image res) \<noteq> FORMAT_RGBA8_SRGB_PACK8 \<and>
            gt_format (ar_image res) \<noteq> FORMAT_RGBA8_UNORM_PACK8
         then Inl (InvalidArgument ''Can only swizzle RGBA textures.'')
         else Inl (InvalidArgument ''Unrecognized swizzle parameter.''))"
    by (rule swizzle_image_outside)
next
  assume "ar_type res5 = Count"
  then show "deduce_compression res5 family =
        (if family = Uncompressed
         then Inr (res5\<lparr>ar_compression := TextureCompression_Uncompressed\<rparr>)
         else Inl (InvalidArgument ''Invalid material type.''))"
    by (rule deduce_compression_invalid_role)
next
  assume "\<not> gt_empty (loaded_texture ext8 src8 mode8)"
  then show "analyze_image ext8 src8 rgba_mapping Count family8 mode8 =
        (if family8 = Uncompressed
         then Inr \<lparr>ar_src_path = src8, ar_image = loaded_texture ext8 src8 mode8,
                   ar_compression = TextureCompression_Uncompressed,
                   ar_mode = mode8, ar_type = Count, ar_swizzle = rgba_mapping\<rparr>
         else Inl (InvalidArgument ''Invalid material type.''))"
    by (rule analyze_image_invalid_role)
next
  let ?tex = "loaded_texture ext9 (img_source_path img9) (img_mode img9)"
  assume a: "bake_scene (hasher_get ext9) scene9 opts9 = Inr (js9, s9) \<and>
    image_cache s9 = pre9 @ img9 # post9 \<and>
    analyze_images ext9 pre9 = Inr ls9 \<and>
    \<not> gt_empty ?tex \<and> swizzle_outside_rgba (img_swizzle img9)"
  then have bake: "bake_scene (hasher_get ext9) scene9 opts9 = Inr (js9, s9)"
    and cache: "image_cache s9 = pre9 @ img9 # post9"
    and pre: "analyze_images ext9 pre9 = Inr ls9"
    and loaded: "\<not> gt_empty ?tex" and outside: "swizzle_outside_rgba (img_swizzle img9)"
    by blast+
  define e where "e = (if gt_format ?tex \<noteq> FORMAT_RGBA8_SRGB_PACK8 \<and>
              gt_format ?tex \<noteq> FORMAT_RGBA8_UNORM_PACK8
           then InvalidArgument ''Can only swizzle RGBA textures.''
           else InvalidArgument ''Unrecognized swizzle parameter.'')"
  have "analyze_image ext9 (img_source_path img9) (img_swizzle img9) (img_type img9)
          (img_compression img9) (img_mode img9) = Inl e"
    unfolding e_def by (simp add: analyze_image_swizzle_raises [OF loaded outside])
  then have "analyze_images ext9 (image_cache s9) = Inl e"
    unfolding cache by (rule analyze_images_raises [OF pre])
  then have "export_scene_to_glb ext9 scene9 out_path9 opts9 = Inl (RaisedInWorker e)"
    by (rule export_worker_raises [OF bake])
  then show "export_scene_to_glb ext9 scene9 out_path9 opts9 =
        Inl (RaisedInWorker
          (if gt_format ?tex \<noteq> FORMAT_RGBA8_SRGB_PACK8 \<and>
              gt_format ?tex \<noteq> FORMAT_RGBA8_UNORM_PACK8
           then InvalidArgument ''Can only swizzle RGBA textures.''
           else InvalidArgument ''Unrecognized swizzle parameter.''))"
    by (simp only: e_def)
next
  assume "bake_scene (hasher_get ext6) scene6 opts6 = Inr (js6, s6a) \<and>
    analyze_images ext6 (image_cache s6a) = Inl e6"
  then show "export_scene_to_glb ext6 scene6 out_path6 opts6 = Inl (RaisedInWorker e6)"
    using export_worker_raises by blast
qed

lemma bad_normal_walk:
  "\<exists>s3 js sa eh mg sb pb ab s6 s7.
     walk_start example_hasher bad_normal_scene example_options = Inr s3 \<and>
     emit_nodes example_hasher bad_normal_scene
       [\<lparr>children = [], meshes = [0], transform = identity_transform\<rparr>] 0 s3 = Inr (js, sa) \<and>
     emit_meshes_loop example_hasher [0] [] [] sa = Inr (eh, mg, sb) \<and>
     to_index (mesh sb) = [0, 1] \<and> info (mesh sb) ! 1 = bad_normal_mesh \<and>
     1 \<notin> mesh_hash sb \<and>
     emit_mesh_prologue example_hasher sb 1 = Inr (pb, ab, s6) \<and>
     emit_mesh_attributes example_hasher bad_normal_mesh 1 pb ab [Position] s6 = Inr s7 \<and>
     accessor_hash s7 (attribute_accessor_key example_hasher bad_normal_mesh pb ab Normal) = None"
  by (simp add: walk_start_def bad_normal_scene_def bad_normal_mesh_def plain_mesh_def
        triangle_mesh_def bind_result_def Let_def environment_state_def filtered_state_def
        initial_state_def empty_Remap_def hash_MaterialInfo_def hash_Mesh_def
        example_options_def emit_meshes_def emit_mesh_def emit_mesh_prologue_def
        emit_mesh_indices_def attribute_accessor_key_def accessor_key_def
        emit_mesh_material_def emit_mesh_buffers_def emit_buffer_def
        emit_accessor_def set_accessor_type_def upd_mesh_def resize_def memcpy_at_def
        mesh_attributes_def align16_eq example_hasher_def vec3_list_def)

lemma bad_normal_attributes:
  "\<exists>s2. emit_mesh_attributes example_hasher bad_normal_mesh 0 0 0 [Position]
            (initial_state example_options) = Inr s2 \<and>
     accessor_hash s2 (attribute_accessor_key example_hasher bad_normal_mesh 0 0 Normal) = None"
  by (simp add: bad_normal_mesh_def bind_result_def Let_def initial_state_def
        attribute_accessor_key_def accessor_key_def emit_accessor_def set_accessor_type_def
        upd_mesh_def example_hasher_def)

theorem validation_errors_raise_witness:
  "emit_accessor example_hasher (initial_state example_options) 0 VK_FORMAT_R64_SFLOAT 0 24 3
     = Inl (InvalidArgument ''Unsupported format.'') \<and>
   emit_mesh_attributes example_hasher bad_normal_mesh 0 0 0 mesh_attributes
       (initial_state example_options)
     = Inl (InvalidArgument ''Unsupported format.'') \<and>
   export_scene_to_glb example_collaborators bad_normal_scene ''out.glb'' example_options
     = Inl (Raised (InvalidArgument ''Unsupported format.'')) \<and>
   export_scene_to_glb example_collaborators bad_format_scene ''out.glb'' example_options
     = Inl (Raised (InvalidArgument ''Unsupported format.'')) \<and>
   \<not> isl empty_export \<and> returned (projr empty_export) \<and>
   swizzle_image example_analysis
       (mapping_of VK_COMPONENT_SWIZZLE_R VK_COMPONENT_SWIZZLE_G VK_COMPONENT_SWIZZLE_B
          VK_COMPONENT_SWIZZLE_ZERO)
     = Inl (InvalidArgument ''Unrecognized swizzle parameter.'') \<and>
   deduce_compression (example_analysis\<lparr>ar_type := Count\<rparr>) BC
     = Inl (InvalidArgument ''Invalid material type.'') \<and>
   analyze_image example_collaborators ''mr.png'' rgba_mapping Count BC RGB
     = Inl (InvalidArgument ''Invalid material type.'') \<and>
   export_scene_to_glb example_collaborators swizzled_scene ''out.glb'' example_options
     = Inl (RaisedInWorker (InvalidArgument ''Unrecognized swizzle parameter.''))"
proof -
  let ?s0 = "initial_state example_options"
  let ?zero = "mapping_of VK_COMPONENT_SWIZZLE_R VK_COMPONENT_SWIZZLE_G VK_COMPONENT_SWIZZLE_B
          VK_COMPONENT_SWIZZLE_ZERO"
  let ?unsupported = "InvalidArgument ''Unsupported format.''"
  let ?node0 = "\<lparr>children = [], meshes = [0], transform = identity_transform\<rparr>"
  let ?node1 = "\<lparr>children = [], meshes = [0, 1], transform = identity_transform\<rparr>"
  have hg: "hasher_get example_collaborators = example_hasher"
    by (simp add: example_collaborators_def)
  have h1: "get_accessor_type VK_FORMAT_R64_SFLOAT = Inl ?unsupported \<and>
      accessor_hash ?s0 (accessor_key example_hasher 0 VK_FORMAT_R64_SFLOAT 0 24 3) = None"
    by (simp add: initial_state_def)
  from bad_normal_attributes obtain s2 where
    a2: "emit_mesh_attributes example_hasher bad_normal_mesh 0 0 0 [Position] ?s0 = Inr s2"
    and f2: "accessor_hash s2
               (attribute_accessor_key example_hasher bad_normal_mesh 0 0 Normal) = None"
    by (elim exE conjE)
  have bad: "format (attribute_layout bad_normal_mesh Normal) \<noteq> VK_FORMAT_UNDEFINED"
    "get_accessor_type (format (attribute_layout bad_normal_mesh Normal)) = Inl ?unsupported"
    "(if Normal = Position then position_stride bad_normal_mesh
      else attribute_stride bad_normal_mesh) \<noteq> 0"
    by (simp_all add: bad_normal_mesh_def)
  have h2: "emit_mesh_attributes example_hasher bad_normal_mesh 0 0 0 [Position] ?s0 = Inr s2 \<and>
    format (attribute_layout bad_normal_mesh Normal) \<noteq> VK_FORMAT_UNDEFINED \<and>
    get_accessor_type (format (attribute_layout bad_normal_mesh Normal)) = Inl ?unsupported \<and>
    (if Normal = Position then position_stride bad_normal_mesh
     else attribute_stride bad_normal_mesh) \<noteq> 0 \<and>
    accessor_hash s2 (attribute_accessor_key example_hasher bad_normal_mesh 0 0 Normal) = None"
    using a2 f2 bad by simp
  from bad_normal_walk obtain s3 js sa eh mg sb pb ab s6 s7 where
    w1: "walk_start example_hasher bad_normal_scene example_options = Inr s3"
    and w2: "emit_nodes example_hasher bad_normal_scene [?node0] 0 s3 = Inr (js, sa)"
    and w3: "emit_meshes_loop example_hasher [0] [] [] sa = Inr (eh, mg, sb)"
    and w4: "to_index (mesh sb) = [0, 1]" "info (mesh sb) ! 1 = bad_normal_mesh"
      "1 \<notin> mesh_hash sb"
    and w5: "emit_mesh_prologue example_hasher sb 1 = Inr (pb, ab, s6)"
    and w6: "emit_mesh_attributes example_hasher bad_normal_mesh 1 pb ab [Position] s6 = Inr s7"
    and w7: "accessor_hash s7
               (attribute_accessor_key example_hasher bad_normal_mesh pb ab Normal) = None"
    by (elim exE conjE)
  have h7: "walk_start (hasher_get example_collaborators) bad_normal_scene example_options
      = Inr s3 \<and>
    nodes bad_normal_scene = [?node0] @ ?node1 # [] \<and>
    emit_nodes (hasher_get example_collaborators) bad_normal_scene [?node0] 0 s3
      = Inr (js, sa) \<and>
    meshes ?node1 = [0] @ 1 # [] \<and>
    emit_meshes_loop (hasher_get example_collaborators) [0] [] [] sa = Inr (eh, mg, sb) \<and>
    1 < length (to_index (mesh sb)) \<and> 1 = to_index (mesh sb) ! 1 \<and> 1 \<notin> mesh_hash sb \<and>
    bad_normal_mesh = info (mesh sb) ! 1 \<and>
    emit_mesh_prologue (hasher_get example_collaborators) sb 1 = Inr (pb, ab, s6) \<and>
    mesh_attributes = [Position] @ Normal
      # [Tangent, UV, VertexColor, BoneIndex, BoneWeights] \<and>
    emit_mesh_attributes (hasher_get example_collaborators) bad_normal_mesh 1 pb ab
      [Position] s6 = Inr s7 \<and>
    format (attribute_layout bad_normal_mesh Normal) \<noteq> VK_FORMAT_UNDEFINED \<and>
    get_accessor_type (format (attribute_layout bad_normal_mesh Normal)) = Inl ?unsupported \<and>
    (if Normal = Position then position_stride bad_normal_mesh
     else attribute_stride bad_normal_mesh) \<noteq> 0 \<and>
    accessor_hash s7 (attribute_accessor_key (hasher_get example_collaborators)
      bad_normal_mesh pb ab Normal) = None"
    unfolding hg using w1 w2 w3 w4 w5 w6 w7 bad
    by (simp add: bad_normal_scene_def mesh_attributes_def)
  have h3: "bake_scene (hasher_get example_collaborators) bad_format_scene example_options
      = Inl ?unsupported"
    unfolding hg by (rule bad_format_bake)
  have bake0: "bake_scene example_hasher empty_scene example_options = Inr ([], ?s0)"
    by (simp add: bake_scene_def empty_scene_def bind_result_def Let_def initial_state_def
          empty_Remap_def example_options_def)
  have "\<exists>r. empty_export = Inr r"
    using bake0
    by (simp add: empty_export_def export_scene_to_glb_def hg Let_def initial_state_def)
  then obtain r where h4: "empty_export = Inr r" by blast
  have h5: "outside_rgba (swz_r ?zero) \<or> outside_rgba (swz_g ?zero) \<or>
      outside_rgba (swz_b ?zero) \<or> outside_rgba (swz_a ?zero)"
    by (simp add: mapping_of_def outside_rgba_def)
  have h6: "ar_type (example_analysis\<lparr>ar_type := Count\<rparr>) = Count" by simp
  have tex: "loaded_texture example_collaborators p mode = example_texture" for p mode
    by (simp add: loaded_texture_def example_collaborators_def)
  have h8: "\<not> gt_empty (loaded_texture example_collaborators ''mr.png'' RGB)"
    by (simp add: tex example_texture_def)
  obtain js9 s9 where b9: "bake_scene example_hasher swizzled_scene example_options = Inr (js9, s9)"
    and sw9: "map img_swizzle (image_cache s9)
       = [mapping_of VK_COMPONENT_SWIZZLE_R VK_COMPONENT_SWIZZLE_G
            VK_COMPONENT_SWIZZLE_B VK_COMPONENT_SWIZZLE_ONE]"
    and mode9: "map img_mode (image_cache s9) = [sRGB]"
    using swizzled_bake by (elim exE conjE)
  from sw9 mode9 obtain img where imgs: "image_cache s9 = [img]"
    and isw: "img_swizzle img = mapping_of VK_COMPONENT_SWIZZLE_R VK_COMPONENT_SWIZZLE_G
            VK_COMPONENT_SWIZZLE_B VK_COMPONENT_SWIZZLE_ONE"
    by (cases "image_cache s9") auto
  have h9: "bake_scene (hasher_get example_collaborators) swizzled_scene example_options
      = Inr (js9, s9) \<and>
    image_cache s9 = [] @ img # [] \<and>
    analyze_images example_collaborators [] = Inr [] \<and>
    \<not> gt_empty (loaded_texture example_collaborators (img_source_path img) (img_mode img)) \<and>
    swizzle_outside_rgba (img_swizzle img)"
    unfolding hg using b9 imgs
    by (simp add: tex example_texture_def isw swizzle_outside_rgba_def mapping_of_def
          outside_rgba_def)
  have an9: "analyze_images example_collaborators (image_cache s9)
      = Inl (InvalidArgument ''Unrecognized swizzle parameter.'')"
    unfolding imgs
    by (simp add: analyze_image_def load_image_def swizzle_image_def isw mapping_of_def
          example_collaborators_def example_texture_def bind_result_def Let_def)
  have h10: "bake_scene (hasher_get example_collaborators) swizzled_scene example_options
      = Inr (js9, s9) \<and>
    analyze_images example_collaborators (image_cache s9)
      = Inl (InvalidArgument ''Unrecognized swizzle parameter.'')"
    unfolding hg using b9 an9 by simp
  have fmt: "gt_format (ar_image example_analysis) = FORMAT_RGBA8_UNORM_PACK8"
    "gt_format example_texture = FORMAT_RGBA8_UNORM_PACK8"
    by (simp_all add: example_analysis_def example_texture_def)
  have opened: "fs_open example_collaborators ''out.glb''"
    "\<And>n. fs_map_write example_collaborators ''out.glb'' n"
    by (simp_all add: example_collaborators_def)
  note inst = validation_errors_raise
    [where fmt = VK_FORMAT_R64_SFLOAT and e = ?unsupported
       and s = ?s0 and H = example_hasher and view_index = 0 and off = 0 and stride = 24
       and cnt = 3
       and pre = "[Position]" and m = bad_normal_mesh and i = Normal
       and ?e1.0 = ?unsupported and ?s1.0 = ?s0 and ?s2.0 = s2
       and ?H1.0 = example_hasher and pb = 0 and ab = 0 and ri = 0
       and post = "[Tangent, UV, VertexColor, BoneIndex, BoneWeights]"
       and ?ext7.0 = example_collaborators and ?scene7.0 = bad_normal_scene
       and ?opts7.0 = example_options and ?s3.0 = s3 and before = "[?node0]"
       and node = ?node1 and after = "[]" and ?js7.0 = js and sa = sa
       and earlier = "[0]" and j = 1 and later = "[]" and eh = eh and mg = mg and sb = sb
       and c = 1 and ?m7.0 = bad_normal_mesh and ?pb7.0 = pb and ?ab7.0 = ab and ?s6.0 = s6
       and ?pre7.0 = "[Position]" and a = Normal
       and ?post7.0 = "[Tangent, UV, VertexColor, BoneIndex, BoneWeights]"
       and ?s7.0 = s7 and ?e7.0 = ?unsupported and ?out_path7.0 = "''out.glb''"
       and ext = example_collaborators and scene = bad_format_scene
       and opts = example_options and ?e2.0 = ?unsupported
       and out_path = "''out.glb''"
       and ?ext3.0 = example_collaborators and ?scene3.0 = empty_scene
       and ?out_path3.0 = "''out.glb''" and ?opts3.0 = example_options and r = r
       and sw = ?zero and res = example_analysis
       and ?res5.0 = "example_analysis\<lparr>ar_type := Count\<rparr>" and family = BC
       and ?ext8.0 = example_collaborators and ?src8.0 = "''mr.png''" and ?mode8.0 = RGB
       and ?family8.0 = BC
       and ?ext9.0 = example_collaborators and ?scene9.0 = swizzled_scene
       and ?opts9.0 = example_options and ?js9.0 = js9 and ?s9.0 = s9 and ?pre9.0 = "[]"
       and ?img9.0 = img and ?post9.0 = "[]" and ?ls9.0 = "[]"
       and ?out_path9.0 = "''out.glb''"
       and ?ext6.0 = example_collaborators and ?scene6.0 = swizzled_scene
       and ?opts6.0 = example_options and ?js6.0 = js9 and ?s6a = s9
       and ?e6.0 = "InvalidArgument ''Unrecognized swizzle parameter.''"
       and ?out_path6.0 = "''out.glb''"]
  show ?thesis
    using inst h1 h2 h7 h3 h4 [unfolded empty_export_def] h5 h6 h8 h9 h10 fmt opened
    by (simp add: mesh_attributes_def empty_export_def tex)
qed

end
